theory Spec2Isabelle
  imports Complex_Main
begin

section \<open>Numbers\<close>

text \<open>
  The source computes in \<^verbatim>\<open>double\<close> and \<^verbatim>\<open>size_t\<close>. Counts and dimensions are
  modelled as \<^typ>\<open>nat\<close>: every subtraction on them in the source stays at or above zero
  (offsets are counted down from totals of the same summands), and no count can reach
  \<open>2 ^ 64\<close>. Matrix entries are modelled as \<^typ>\<open>real\<close>, that is, Eigen's linear algebra
  is taken in exact arithmetic. The chi2/ndf bookkeeping of the driver divides by counts
  that can be zero and compares the quotient, so it is modelled in \<open>dbl\<close>: the reals
  extended by the IEEE special values, with exact arithmetic on the finite ones.
\<close>

datatype dbl = Fin real | PInf | NInf | NaN

fun dadd :: "dbl \<Rightarrow> dbl \<Rightarrow> dbl" where
  "dadd (Fin a) (Fin b) = Fin (a + b)"
| "dadd NaN _ = NaN"
| "dadd _ NaN = NaN"
| "dadd PInf NInf = NaN"
| "dadd NInf PInf = NaN"
| "dadd PInf _ = PInf"
| "dadd _ PInf = PInf"
| "dadd NInf _ = NInf"
| "dadd _ NInf = NInf"

fun dneg :: "dbl \<Rightarrow> dbl" where
  "dneg (Fin a) = Fin (- a)"
| "dneg PInf = NInf"
| "dneg NInf = PInf"
| "dneg NaN = NaN"

definition dsub :: "dbl \<Rightarrow> dbl \<Rightarrow> dbl" where
  "dsub a b = dadd a (dneg b)"

fun dabs :: "dbl \<Rightarrow> dbl" where
  "dabs (Fin a) = Fin \<bar>a\<bar>"
| "dabs PInf = PInf"
| "dabs NInf = PInf"
| "dabs NaN = NaN"

text \<open>The comparison \<^verbatim>\<open><=\<close> of two doubles: false as soon as one side is NaN.\<close>

fun dle :: "dbl \<Rightarrow> dbl \<Rightarrow> bool" where
  "dle NaN _ = False"
| "dle _ NaN = False"
| "dle NInf _ = True"
| "dle _ PInf = True"
| "dle (Fin a) (Fin b) = (a \<le> b)"
| "dle _ _ = False"

text \<open>
  A double divided by a \<^verbatim>\<open>size_t\<close>, which C++ converts to a non-negative double:
  \<open>0 / 0\<close> is NaN and \<open>x / 0\<close> is an infinity of the sign of \<open>x\<close>.
\<close>

fun ddiv_count :: "dbl \<Rightarrow> nat \<Rightarrow> dbl" where
  "ddiv_count (Fin a) n =
     (if n = 0 then (if a = 0 then NaN else if 0 < a then PInf else NInf)
      else Fin (a / real n))"
| "ddiv_count PInf n = PInf"
| "ddiv_count NInf n = NInf"
| "ddiv_count NaN n = NaN"

text \<open>\<^verbatim>\<open>std::numeric_limits<double>::max()\<close>.\<close>

definition DBL_MAX :: real where
  "DBL_MAX = (2 - 1 / 2 ^ 52) * 2 ^ 1023"

section \<open>Dynamic vectors and matrices\<close>

text \<open>
  \<^verbatim>\<open>ActsVectorX\<close> and \<^verbatim>\<open>ActsMatrixX\<close>: run-time dimensions and the coefficients, indexed from
  zero. Eigen checks index ranges and matching dimensions by assertions of its own; the
  model reads the coefficient function wherever the source reads.
\<close>

record vec =
  vsize :: nat
  vat :: "nat \<Rightarrow> real"

record mat =
  rows :: nat
  cols :: nat
  mat_at :: "nat \<Rightarrow> nat \<Rightarrow> real"

definition vZero :: "nat \<Rightarrow> vec" where
  "vZero n = \<lparr>vsize = n, vat = (\<lambda>i. 0)\<rparr>"

definition Zero :: "nat \<Rightarrow> nat \<Rightarrow> mat" where
  "Zero r c = \<lparr>rows = r, cols = c, mat_at = (\<lambda>i j. 0)\<rparr>"

definition mtranspose :: "mat \<Rightarrow> mat" where
  "mtranspose A = \<lparr>rows = cols A, cols = rows A, mat_at = (\<lambda>i j. mat_at A j i)\<rparr>"

definition mscale :: "real \<Rightarrow> mat \<Rightarrow> mat" where
  "mscale c A = \<lparr>rows = rows A, cols = cols A, mat_at = (\<lambda>i j. c * mat_at A i j)\<rparr>"

definition mat_mul :: "mat \<Rightarrow> mat \<Rightarrow> mat" where
  "mat_mul A B =
     \<lparr>rows = rows A, cols = cols B,
      mat_at = (\<lambda>i j. sum_list (map (\<lambda>k. mat_at A i k * mat_at B k j) [0..<cols A]))\<rparr>"

definition mat_vec :: "mat \<Rightarrow> vec \<Rightarrow> vec" where
  "mat_vec A v =
     \<lparr>vsize = rows A,
      vat = (\<lambda>i. sum_list (map (\<lambda>k. mat_at A i k * vat v k) [0..<cols A]))\<rparr>"

definition mat_sub :: "mat \<Rightarrow> mat \<Rightarrow> mat" where
  "mat_sub A B =
     \<lparr>rows = rows A, cols = cols A, mat_at = (\<lambda>i j. mat_at A i j - mat_at B i j)\<rparr>"

definition vsub :: "vec \<Rightarrow> vec \<Rightarrow> vec" where
  "vsub u v = \<lparr>vsize = vsize u, vat = (\<lambda>i. vat u i - vat v i)\<rparr>"

definition vneg :: "vec \<Rightarrow> vec" where
  "vneg v = \<lparr>vsize = vsize v, vat = (\<lambda>i. - vat v i)\<rparr>"

text \<open>A transposed vector times a matrix (a row), and a row times a vector (a number).\<close>

definition vec_mat :: "vec \<Rightarrow> mat \<Rightarrow> vec" where
  "vec_mat v A =
     \<lparr>vsize = cols A,
      vat = (\<lambda>j. sum_list (map (\<lambda>k. vat v k * mat_at A k j) [0..<vsize v]))\<rparr>"

definition dot :: "vec \<Rightarrow> vec \<Rightarrow> real" where
  "dot u v = sum_list (map (\<lambda>k. vat u k * vat v k) [0..<vsize u])"

text \<open>\<^verbatim>\<open>block(i, j, h, w)\<close>, \<^verbatim>\<open>topLeftCorner\<close>, \<^verbatim>\<open>segment(i, n)\<close> and \<^verbatim>\<open>head\<close> as values.\<close>

definition block :: "mat \<Rightarrow> nat \<Rightarrow> nat \<Rightarrow> nat \<Rightarrow> nat \<Rightarrow> mat" where
  "block A i j h w = \<lparr>rows = h, cols = w, mat_at = (\<lambda>r c. mat_at A (i + r) (j + c))\<rparr>"

definition topLeftCorner :: "mat \<Rightarrow> nat \<Rightarrow> nat \<Rightarrow> mat" where
  "topLeftCorner A h w = block A 0 0 h w"

definition segment :: "vec \<Rightarrow> nat \<Rightarrow> nat \<Rightarrow> vec" where
  "segment v i n = \<lparr>vsize = n, vat = (\<lambda>r. vat v (i + r))\<rparr>"

definition head :: "vec \<Rightarrow> nat \<Rightarrow> vec" where
  "head v n = segment v 0 n"

text \<open>The same as assignment targets: \<^verbatim>\<open>A.block(i, j) = B\<close> and \<^verbatim>\<open>A.block(i, j) += B\<close>.\<close>

definition block_assign :: "mat \<Rightarrow> nat \<Rightarrow> nat \<Rightarrow> mat \<Rightarrow> mat" where
  "block_assign A i j B =
     A\<lparr>mat_at := (\<lambda>r c. if i \<le> r \<and> r < i + rows B \<and> j \<le> c \<and> c < j + cols B
                         then mat_at B (r - i) (c - j) else mat_at A r c)\<rparr>"

definition segment_assign :: "vec \<Rightarrow> nat \<Rightarrow> vec \<Rightarrow> vec" where
  "segment_assign v i u =
     v\<lparr>vat := (\<lambda>r. if i \<le> r \<and> r < i + vsize u then vat u (r - i) else vat v r)\<rparr>"

definition block_add :: "mat \<Rightarrow> nat \<Rightarrow> nat \<Rightarrow> mat \<Rightarrow> mat" where
  "block_add A i j B =
     A\<lparr>mat_at := (\<lambda>r c. if i \<le> r \<and> r < i + rows B \<and> j \<le> c \<and> c < j + cols B
                         then mat_at A r c + mat_at B (r - i) (c - j) else mat_at A r c)\<rparr>"

definition segment_add :: "vec \<Rightarrow> nat \<Rightarrow> vec \<Rightarrow> vec" where
  "segment_add v i u =
     v\<lparr>vat := (\<lambda>r. if i \<le> r \<and> r < i + vsize u then vat v r + vat u (r - i) else vat v r)\<rparr>"

section \<open>The alignment state of one track (AlignmentEngine.hpp)\<close>

text \<open>
  Modelled from the spec: the constants \<^verbatim>\<open>eBoundParametersSize\<close> and
  \<^verbatim>\<open>eAlignmentParametersSize\<close>, whose headers (ParameterDefinitions.hpp and
  AlignmentDefinitions.hpp) are not among the sources. The specification has one block of
  six bound parameters for each state and six degrees of freedom for each alignable
  surface; the test among the sources expects 36 for six states and 30 for five surfaces.
\<close>

definition eBoundParametersSize :: nat where
  "eBoundParametersSize = 6"

definition eAlignmentParametersSize :: nat where
  "eAlignmentParametersSize = 6"

text \<open>A surface is known by its address.\<close>

type_synonym surface = nat

text \<open>What the builder reads of one track state of a \<^verbatim>\<open>MultiTrajectory\<close>.\<close>

record track_state =
  hasSmoothed :: bool
  measurementFlag :: bool
  referenceSurface :: surface
  calibratedSize :: nat
  calibratedCovariance :: mat
  projector :: mat
  calibrated :: vec
  filtered :: vec

text \<open>
  The two members of \<^verbatim>\<open>MultiTrajectory\<close> the builder calls: \<open>visitBackwards mt e\<close> is the
  list of state indices in the order in which \<^verbatim>\<open>visitBackwards(e, callback)\<close> hands the
  states to its callback, and \<open>getTrackState mt i\<close> is the state stored at index \<open>i\<close>,
  whose \<^verbatim>\<open>index()\<close> is \<open>i\<close>.
\<close>

record multi_trajectory =
  visitBackwards :: "nat \<Rightarrow> nat list"
  getTrackState :: "nat \<Rightarrow> track_state"

record TrackAlignmentState =
  measurementCovariance :: mat
  trackParametersCovariance :: mat
  projectionMatrix :: mat
  residual :: vec
  residualCovariance :: mat
  chi2 :: real
  alignmentToResidualDerivative :: mat
  alignmentToChi2Derivative :: vec
  alignmentToChi2SecondDerivative :: mat
  alignedSurfaces :: "(surface \<times> nat \<times> nat) list"
  measurementDim :: nat
  trackParametersDim :: nat
  alignmentDof :: nat

text \<open>A default-constructed state: empty matrices, zero counters.\<close>

definition default_TrackAlignmentState :: TrackAlignmentState where
  "default_TrackAlignmentState =
     \<lparr>measurementCovariance = Zero 0 0, trackParametersCovariance = Zero 0 0,
      projectionMatrix = Zero 0 0, residual = vZero 0, residualCovariance = Zero 0 0,
      chi2 = 0, alignmentToResidualDerivative = Zero 0 0,
      alignmentToChi2Derivative = vZero 0, alignmentToChi2SecondDerivative = Zero 0 0,
      alignedSurfaces = [], measurementDim = 0, trackParametersDim = 0, alignmentDof = 0\<rparr>"

text \<open>
  What C++ raises or aborts with: \<^verbatim>\<open>std::out_of_range\<close> of \<^verbatim>\<open>at()\<close>, a failed
  \<^verbatim>\<open>assert\<close>, and \<^verbatim>\<open>front()\<close> of an empty queue, which is undefined.
\<close>

datatype exception = OutOfRange | AssertionFailed | EmptyQueueFront

text \<open>
  The maps with pointer keys are association lists with distinct keys.
  \<^verbatim>\<open>alignedSurfaces[surface].first = v\<close> inserts \<open>(0, 0)\<close> for a new key and then sets the
  first component.
\<close>

fun set_first :: "surface \<Rightarrow> nat \<Rightarrow> (surface \<times> nat \<times> nat) list \<Rightarrow> (surface \<times> nat \<times> nat) list" where
  "set_first s v [] = [(s, (v, 0))]"
| "set_first s v ((k, (a, b)) # xs) =
     (if k = s then (k, (v, b)) # xs else (k, (a, b)) # set_first s v xs)"

text \<open>\<^verbatim>\<open>alignedSurfaces.at(surface).second = v\<close>.\<close>

fun set_second :: "surface \<Rightarrow> nat \<Rightarrow> (surface \<times> nat \<times> nat) list \<Rightarrow> exception + (surface \<times> nat \<times> nat) list" where
  "set_second s v [] = Inl OutOfRange"
| "set_second s v ((k, (a, b)) # xs) =
     (if k = s then Inr ((k, (a, v)) # xs)
      else (case set_second s v xs of Inl e \<Rightarrow> Inl e | Inr ys \<Rightarrow> Inr ((k, (a, b)) # ys)))"

text \<open>The variables the callback of \<^verbatim>\<open>visitBackwards\<close> captures and updates.\<close>

record visit_vars =
  v_alignedSurfaces :: "(surface \<times> nat \<times> nat) list"
  v_measurementDim :: nat
  v_measurementStates :: "(nat \<times> bool) list"
  v_nSmoothedStates :: nat
  v_nAlignSurfaces :: nat

definition visit_init :: visit_vars where
  "visit_init =
     \<lparr>v_alignedSurfaces = [], v_measurementDim = 0, v_measurementStates = [],
      v_nSmoothedStates = 0, v_nAlignSurfaces = 0\<rparr>"

definition visit_callback :: "(surface \<times> nat) list \<Rightarrow> multi_trajectory \<Rightarrow> visit_vars \<Rightarrow> nat \<Rightarrow> visit_vars" where
  "visit_callback idxedAlignSurfaces multiTraj v i =
     (let ts = getTrackState multiTraj i;
          v1 = (if hasSmoothed ts then v\<lparr>v_nSmoothedStates := v_nSmoothedStates v + 1\<rparr> else v)
      in if \<not> measurementFlag ts then v1
         else
           let isAlignable = False;
               surface = referenceSurface ts;
               v2 = (case map_of idxedAlignSurfaces surface of
                       Some idx \<Rightarrow>
                         v1\<lparr>v_alignedSurfaces := set_first surface idx (v_alignedSurfaces v1),
                            v_nAlignSurfaces := v_nAlignSurfaces v1 + 1\<rparr>
                     | None \<Rightarrow> v1)
           in v2\<lparr>v_measurementStates := v_measurementStates v2 @ [(i, isAlignable)],
                 v_measurementDim := v_measurementDim v2 + calibratedSize ts\<rparr>)"

text \<open>
  Step (e) of the fill loop: the inner loop over the column states, copying one 6x6 block
  of the source covariance per column state. Both \<^verbatim>\<open>stateRowIndices.at\<close> calls can raise.
\<close>

fun fill_columns ::
  "mat \<Rightarrow> (nat \<rightharpoonup> nat) \<Rightarrow> nat \<Rightarrow> nat \<Rightarrow> nat \<Rightarrow> (nat \<times> bool) list \<Rightarrow> nat \<Rightarrow> mat \<Rightarrow> exception + mat" where
  "fill_columns sourceTrackParamsCov stateRowIndices rowStateIndex iParams tpDim [] iColState C = Inr C"
| "fill_columns sourceTrackParamsCov stateRowIndices rowStateIndex iParams tpDim
       ((colStateIndex, a) # rest) iColState C =
     (case stateRowIndices rowStateIndex of
        None \<Rightarrow> Inl OutOfRange
      | Some r \<Rightarrow>
          (case stateRowIndices colStateIndex of
             None \<Rightarrow> Inl OutOfRange
           | Some c \<Rightarrow>
               let correlation =
                     block sourceTrackParamsCov r c eBoundParametersSize eBoundParametersSize;
                   iCol = tpDim - (iColState + 1) * eBoundParametersSize
               in fill_columns sourceTrackParamsCov stateRowIndices rowStateIndex iParams tpDim
                    rest (iColState + 1) (block_assign C iParams iCol correlation)))"

text \<open>The variables of the fill loop: the state under construction and three offsets.\<close>

record fill_vars =
  f_alignState :: TrackAlignmentState
  f_iMeasurement :: nat
  f_iParams :: nat
  f_iSurface :: nat

definition fill_body ::
  "multi_trajectory \<Rightarrow> mat \<Rightarrow> (nat \<rightharpoonup> nat) \<Rightarrow> (nat \<times> bool) list \<Rightarrow> fill_vars \<Rightarrow> nat \<times> bool
     \<Rightarrow> exception + fill_vars" where
  "fill_body multiTraj sourceTrackParamsCov stateRowIndices measurementStates f entry =
     (let rowStateIndex = fst entry;
          isAlignable = snd entry;
          state = getTrackState multiTraj rowStateIndex;
          measdim = calibratedSize state;
          iMeasurement = f_iMeasurement f - measdim;
          iParams = f_iParams f - eBoundParametersSize;
          st = f_alignState f;
          measCovariance = topLeftCorner (calibratedCovariance state) measdim measdim;
          st = st\<lparr>measurementCovariance :=
                    block_assign (measurementCovariance st) iMeasurement iMeasurement measCovariance\<rparr>;
          H = topLeftCorner (projector state) measdim eBoundParametersSize;
          st = st\<lparr>projectionMatrix := block_assign (projectionMatrix st) iMeasurement iParams H\<rparr>;
          st = st\<lparr>residual :=
                    segment_assign (residual st) iMeasurement
                      (vsub (head (calibrated state) measdim) (mat_vec H (filtered state)))\<rparr>
      in case (if isAlignable
               then (case set_second (referenceSurface state) (f_iSurface f - 1) (alignedSurfaces st) of
                       Inl e \<Rightarrow> Inl e
                     | Inr m \<Rightarrow> Inr (st\<lparr>alignedSurfaces := m\<rparr>, f_iSurface f - 1))
               else Inr (st, f_iSurface f)) of
           Inl e \<Rightarrow> Inl e
         | Inr (st, iSurface) \<Rightarrow>
             (case fill_columns sourceTrackParamsCov stateRowIndices rowStateIndex iParams
                     (trackParametersDim st) measurementStates 0 (trackParametersCovariance st) of
                Inl e \<Rightarrow> Inl e
              | Inr C \<Rightarrow>
                  Inr \<lparr>f_alignState = st\<lparr>trackParametersCovariance := C\<rparr>,
                       f_iMeasurement = iMeasurement, f_iParams = iParams,
                       f_iSurface = iSurface\<rparr>))"

fun fill_loop ::
  "multi_trajectory \<Rightarrow> mat \<Rightarrow> (nat \<rightharpoonup> nat) \<Rightarrow> (nat \<times> bool) list \<Rightarrow> fill_vars \<Rightarrow> (nat \<times> bool) list
     \<Rightarrow> exception + fill_vars" where
  "fill_loop multiTraj sourceCov stateRowIndices measurementStates f [] = Inr f"
| "fill_loop multiTraj sourceCov stateRowIndices measurementStates f (entry # rest) =
     (case fill_body multiTraj sourceCov stateRowIndices measurementStates f entry of
        Inl e \<Rightarrow> Inl e
      | Inr f' \<Rightarrow> fill_loop multiTraj sourceCov stateRowIndices measurementStates f' rest)"

text \<open>
  The chi2 and its derivatives, from the filled matrices. \<open>minv\<close> is Eigen's
  \<^verbatim>\<open>inverse()\<close>, taken as a parameter. Eigen evaluates the products from the left.
\<close>

definition chi2_and_derivatives :: "(mat \<Rightarrow> mat) \<Rightarrow> TrackAlignmentState \<Rightarrow> TrackAlignmentState" where
  "chi2_and_derivatives minv st0 =
     (let st = st0\<lparr>chi2 := dot (vec_mat (residual st0) (minv (measurementCovariance st0)))
                               (residual st0)\<rparr>;
          st = st\<lparr>alignmentToChi2Derivative := vZero (alignmentDof st)\<rparr>;
          st = st\<lparr>alignmentToChi2SecondDerivative := Zero (alignmentDof st) (alignmentDof st)\<rparr>;
          st = st\<lparr>residualCovariance := Zero (measurementDim st) (measurementDim st)\<rparr>;
          st = st\<lparr>residualCovariance :=
                    mat_sub (measurementCovariance st)
                      (mat_mul (mat_mul (projectionMatrix st) (trackParametersCovariance st))
                         (mtranspose (projectionMatrix st)))\<rparr>;
          st = st\<lparr>alignmentToChi2Derivative :=
                    mat_vec
                      (mat_mul
                         (mat_mul
                            (mat_mul (mscale 2 (mtranspose (alignmentToResidualDerivative st)))
                               (minv (measurementCovariance st)))
                            (residualCovariance st))
                         (minv (measurementCovariance st)))
                      (residual st)\<rparr>
      in st\<lparr>alignmentToChi2SecondDerivative :=
               mat_mul
                 (mat_mul
                    (mat_mul
                       (mat_mul (mscale 2 (mtranspose (alignmentToResidualDerivative st)))
                          (minv (measurementCovariance st)))
                       (residualCovariance st))
                    (minv (measurementCovariance st)))
                 (alignmentToResidualDerivative st)\<rparr>)"

text \<open>
  \<^verbatim>\<open>trackAlignmentState\<close>. The argument \<open>globalTrackParamsCov\<close> is the pair of the joint
  covariance of the smoothed states and the map from a state's index to its first row.
\<close>

definition trackAlignmentState ::
  "(mat \<Rightarrow> mat) \<Rightarrow> multi_trajectory \<Rightarrow> nat \<Rightarrow> mat \<times> (nat \<rightharpoonup> nat) \<Rightarrow> (surface \<times> nat) list
     \<Rightarrow> exception + TrackAlignmentState" where
  "trackAlignmentState minv multiTraj entryIndex globalTrackParamsCov idxedAlignSurfaces =
     (let v = foldl (visit_callback idxedAlignSurfaces multiTraj) visit_init
                (visitBackwards multiTraj entryIndex);
          alignState = default_TrackAlignmentState
                         \<lparr>alignedSurfaces := v_alignedSurfaces v,
                          measurementDim := v_measurementDim v\<rparr>;
          measurementStates = v_measurementStates v;
          nSmoothedStates = v_nSmoothedStates v;
          nAlignSurfaces = v_nAlignSurfaces v
      in if nAlignSurfaces = 0 then Inr alignState
         else
           let alignState = alignState\<lparr>alignmentDof := eAlignmentParametersSize * nAlignSurfaces\<rparr>;
               alignState = alignState\<lparr>trackParametersDim :=
                              eBoundParametersSize * length measurementStates\<rparr>;
               alignState = alignState\<lparr>measurementCovariance :=
                              Zero (measurementDim alignState) (measurementDim alignState)\<rparr>;
               alignState = alignState\<lparr>projectionMatrix :=
                              Zero (measurementDim alignState) (trackParametersDim alignState)\<rparr>;
               alignState = alignState\<lparr>alignmentToResidualDerivative :=
                              Zero (measurementDim alignState) (alignmentDof alignState)\<rparr>;
               alignState = alignState\<lparr>trackParametersCovariance :=
                              Zero (trackParametersDim alignState) (trackParametersDim alignState)\<rparr>;
               alignState = alignState\<lparr>residual := vZero (measurementDim alignState)\<rparr>;
               sourceTrackParamsCov = fst globalTrackParamsCov;
               stateRowIndices = snd globalTrackParamsCov
           in if \<not> (rows sourceTrackParamsCov = cols sourceTrackParamsCov \<and>
                     rows sourceTrackParamsCov = eBoundParametersSize * nSmoothedStates)
              then Inl AssertionFailed
              else
                (case fill_loop multiTraj sourceTrackParamsCov stateRowIndices measurementStates
                        \<lparr>f_alignState = alignState,
                         f_iMeasurement = measurementDim alignState,
                         f_iParams = trackParametersDim alignState,
                         f_iSurface = nAlignSurfaces\<rparr>
                        measurementStates of
                   Inl e \<Rightarrow> Inl e
                 | Inr f \<Rightarrow> Inr (chi2_and_derivatives minv (f_alignState f))))"

section \<open>The alignment driver (Alignment.hpp)\<close>

text \<open>A detector element is known by its address.\<close>

type_synonym det_element = nat

text \<open>
  The error codes an \<^verbatim>\<open>Acts::Result\<close> carries here: the three \<^verbatim>\<open>AlignmentError\<close> values the
  source names, and the error of the fitter, whose codes are the fitter's own.
\<close>

datatype error_code =
  FitterError nat
| NoAlignmentDofOnTrack
| AlignmentParametersUpdateFailure
| ConvergeFailure

text \<open>
  The log, for the messages at warning and at error level (the texts without the numbers
  the source appends); messages at lower levels are left out.
\<close>

datatype log_level = WARNING | ERROR

type_synonym log = "(log_level \<times> string) list"

text \<open>
  The transform \<^verbatim>\<open>Translation3D(c) * (rotZ * rotY * rotX)\<close> is kept as its factors: the
  translation and the three rotation angles.
\<close>

record Transform3D =
  tr_center :: vec
  tr_rotZ :: real
  tr_rotY :: real
  tr_rotX :: real

definition vadd :: "vec \<Rightarrow> vec \<Rightarrow> vec" where
  "vadd u v = \<lparr>vsize = vsize u, vat = (\<lambda>i. vat u i + vat v i)\<rparr>"

definition vscale :: "real \<Rightarrow> vec \<Rightarrow> vec" where
  "vscale c v = \<lparr>vsize = vsize v, vat = (\<lambda>i. c * vat v i)\<rparr>"

text \<open>
  Modelled from the spec: the offsets \<^verbatim>\<open>eAlignmentCenter0\<close> and \<^verbatim>\<open>eAlignmentRotation0\<close> of
  AlignmentDefinitions.hpp, which is not among the sources. The specification has three
  translations followed by three rotations in the six parameters of a surface.
\<close>

definition eAlignmentCenter0 :: nat where
  "eAlignmentCenter0 = 0"

definition eAlignmentRotation0 :: nat where
  "eAlignmentRotation0 = 3"

text \<open>\<^verbatim>\<open>std::bitset<eAlignmentParametersSize>\<close>.\<close>

type_synonym mask = "bool list"

record KalmanFitterResult =
  fittedStates :: multi_trajectory
  trackTip :: nat

text \<open>
  What the driver calls and does not define. \<open>'g\<close> is the state of the detector
  geometry, which the fitter and the surfaces read through the geometry context and which
  only the transform updater changes; \<open>'s\<close> and \<open>'p\<close> are the types of one track's source
  links and start parameters.
  \<^item> \<open>fit\<close>: \<^verbatim>\<open>m_fitter.fit\<close>, with \<open>Inl\<close> of the fitter's error code when the fit fails;
  \<^item> \<open>globalTrackParametersCovariance\<close>: the function of that name;
  \<^item> \<open>minverse\<close>, \<open>hasNaN\<close>, \<open>fullPivLu_solve\<close>: Eigen's \<^verbatim>\<open>inverse()\<close>, \<^verbatim>\<open>hasNaN()\<close>
    (reals hold no NaN, so what Eigen reports for the doubles is a parameter) and
    \<^verbatim>\<open>fullPivLu().solve(b)\<close>;
  \<^item> \<open>det_surface\<close>: \<^verbatim>\<open>&det->surface()\<close>;
  \<^item> \<open>surface_center\<close>, \<open>surface_eulerAngles\<close>: \<^verbatim>\<open>surface->center(gctx)\<close> and
    \<^verbatim>\<open>surface->transform(gctx).rotation().eulerAngles(2, 1, 0)\<close>;
  \<^item> \<open>det_transform\<close>: \<^verbatim>\<open>det->transform(gctx)\<close>;
  \<^item> \<open>iteration_rank\<close>: the place the standard library gives a key in the walk of a
    \<^verbatim>\<open>std::unordered_map\<close> that was filled by the given insertions (see \<open>unordered_walk\<close>).
\<close>

record ('g, 's, 'p) env =
  fit :: "'g \<Rightarrow> 's \<Rightarrow> 'p \<Rightarrow> nat + KalmanFitterResult"
  globalTrackParametersCovariance :: "multi_trajectory \<Rightarrow> nat \<Rightarrow> mat \<times> (nat \<rightharpoonup> nat)"
  minverse :: "mat \<Rightarrow> mat"
  hasNaN :: "mat \<Rightarrow> bool"
  fullPivLu_solve :: "mat \<Rightarrow> vec \<Rightarrow> vec"
  det_surface :: "det_element \<Rightarrow> surface"
  surface_center :: "'g \<Rightarrow> surface \<Rightarrow> vec"
  surface_eulerAngles :: "'g \<Rightarrow> surface \<Rightarrow> vec"
  det_transform :: "'g \<Rightarrow> det_element \<Rightarrow> Transform3D"
  iteration_rank :: "(surface \<times> nat) list \<Rightarrow> surface \<Rightarrow> nat"

record 'g AlignmentOptions =
  alignedTransformUpdater :: "'g \<Rightarrow> det_element \<Rightarrow> Transform3D \<Rightarrow> bool \<times> 'g"
  alignedDetElements :: "det_element list"
  averageChi2ONdfCutOff :: dbl
  deltaAverageChi2ONdfCutOff :: "nat \<times> dbl"
  maxIterations :: nat
  iterationState :: "nat \<rightharpoonup> mask"

record AlignmentResult =
  deltaAlignmentParameters :: vec
  alignedParameters :: "(det_element \<times> Transform3D) list"
  alignmentCovariance :: mat
  averageChi2ONdf :: dbl
  deltaChi2 :: real
  result_chi2 :: real
  result_measurementDim :: nat
  result_alignmentDof :: nat
  numTracks :: nat
  result :: "error_code option"

definition default_AlignmentResult :: AlignmentResult where
  "default_AlignmentResult =
     \<lparr>deltaAlignmentParameters = vZero 0, alignedParameters = [],
      alignmentCovariance = Zero 0 0, averageChi2ONdf = Fin DBL_MAX, deltaChi2 = DBL_MAX,
      result_chi2 = 0, result_measurementDim = 0, result_alignmentDof = 0, numTracks = 0,
      result = None\<rparr>"

text \<open>\<^verbatim>\<open>emplace\<close> of a map: a key that is present keeps its value.\<close>

definition emplace :: "'k \<Rightarrow> 'v \<Rightarrow> ('k \<times> 'v) list \<Rightarrow> ('k \<times> 'v) list" where
  "emplace k v m = (case map_of m k of None \<Rightarrow> m @ [(k, v)] | Some w \<Rightarrow> m)"

text \<open>
  The range-for over the \<^verbatim>\<open>std::unordered_map\<close> of the indexed surfaces. C++ leaves the
  order of that walk to the standard library: every entry is visited once, in an order
  that the hash table fixes and that need not be the order of insertion. The entries of
  the map (kept here in the order of insertion) are walked by ascending rank of their
  keys, and the rank is the library's, a parameter: every order of the entries is the walk
  for some rank (lemma \<open>every_order_is_a_walk\<close> below).
\<close>

definition unordered_walk ::
  "('g, 's, 'p) env \<Rightarrow> (surface \<times> nat) list \<Rightarrow> (surface \<times> nat) list" where
  "unordered_walk E m = sort_key (\<lambda>entry. iteration_rank E m (fst entry)) m"

subsection \<open>evaluateTrackAlignmentState\<close>

text \<open>
  The result is the pair of what the call returns or raises and what it logs. The source
  hands the builder the geometry context and the mask as well; the builder of
  AlignmentEngine.hpp takes neither, and the mask is passed along unused.
\<close>

definition evaluateTrackAlignmentState ::
  "('g, 's, 'p) env \<Rightarrow> 'g \<Rightarrow> 's \<Rightarrow> 'p \<Rightarrow> (surface \<times> nat) list \<Rightarrow> mask
     \<Rightarrow> (exception + (error_code + TrackAlignmentState)) \<times> log" where
  "evaluateTrackAlignmentState E gctx sourcelinks sParameters idxedAlignSurfaces alignMask =
     (case fit E gctx sourcelinks sParameters of
        Inl e \<Rightarrow> (Inr (Inl (FitterError e)), [(WARNING, ''Fit failure'')])
      | Inr fitOutput \<Rightarrow>
          let globalTrackParamsCov =
                globalTrackParametersCovariance E (fittedStates fitOutput) (trackTip fitOutput)
          in case trackAlignmentState (minverse E) (fittedStates fitOutput) (trackTip fitOutput)
                    globalTrackParamsCov idxedAlignSurfaces of
               Inl x \<Rightarrow> (Inl x, [])
             | Inr alignState \<Rightarrow>
                 if alignmentDof alignState = 0 then (Inr (Inl NoAlignmentDofOnTrack), [])
                 else (Inr (Inr alignState), []))"

subsection \<open>updateAlignmentParameters\<close>

text \<open>The index of the alignable surfaces: element \<open>i\<close> of the list gives its surface \<open>i\<close>.\<close>

fun index_surfaces ::
  "('g, 's, 'p) env \<Rightarrow> det_element list \<Rightarrow> nat \<Rightarrow> (surface \<times> nat) list \<Rightarrow> (surface \<times> nat) list" where
  "index_surfaces E [] iDetElement m = m"
| "index_surfaces E (d # ds) iDetElement m =
     index_surfaces E ds (iDetElement + 1) (emplace (det_surface E d) iDetElement m)"

text \<open>The variables of the loop over the trajectories.\<close>

record track_sums =
  sumChi2Derivative :: vec
  sumChi2SecondDerivative :: mat
  sum_chi2 :: real
  sum_measurementDim :: nat
  sumChi2ONdf :: dbl
  sum_log :: log

text \<open>
  The two nested loops over \<open>alignedSurfaces\<close> that add one track's blocks. They are
  range-fors over an unordered map too; the entries are taken in the order of insertion
  here, and lemma \<open>add_track_blocks_zero\<close> below shows that every block a state of the
  builder adds is zero, so that the sums are the same for every order of the walk.
\<close>

definition add_track_blocks :: "TrackAlignmentState \<Rightarrow> track_sums \<Rightarrow> track_sums" where
  "add_track_blocks alignState a =
     foldl (\<lambda>a (rowSurface, dstRow, srcRow).
        let a = a\<lparr>sumChi2Derivative :=
                    segment_add (sumChi2Derivative a) (dstRow * eAlignmentParametersSize)
                      (segment (alignmentToChi2Derivative alignState)
                         (srcRow * eAlignmentParametersSize) eAlignmentParametersSize)\<rparr>
        in foldl (\<lambda>a (colSurface, dstCol, srcCol).
             a\<lparr>sumChi2SecondDerivative :=
                 block_add (sumChi2SecondDerivative a) (dstRow * eAlignmentParametersSize)
                   (dstCol * eAlignmentParametersSize)
                   (block (alignmentToChi2SecondDerivative alignState)
                      (srcRow * eAlignmentParametersSize) (srcCol * eAlignmentParametersSize)
                      eAlignmentParametersSize eAlignmentParametersSize)\<rparr>)
             a (alignedSurfaces alignState))
       a (alignedSurfaces alignState)"

text \<open>
  The loop over the trajectories. The source indexes both collections with \<^verbatim>\<open>at(iTraj)\<close>;
  after the assertion that they have the same size this is the loop over the list of pairs.
\<close>

fun accumulate_tracks ::
  "('g, 's, 'p) env \<Rightarrow> 'g \<Rightarrow> (surface \<times> nat) list \<Rightarrow> mask \<Rightarrow> ('s \<times> 'p) list \<Rightarrow> track_sums
     \<Rightarrow> exception + track_sums" where
  "accumulate_tracks E gctx idxedAlignSurfaces alignMask [] a = Inr a"
| "accumulate_tracks E gctx idxedAlignSurfaces alignMask ((sourcelinks, sParameters) # rest) a =
     (case evaluateTrackAlignmentState E gctx sourcelinks sParameters idxedAlignSurfaces alignMask of
        (Inl x, l) \<Rightarrow> Inl x
      | (Inr (Inl e), l) \<Rightarrow>
          accumulate_tracks E gctx idxedAlignSurfaces alignMask rest
            (a\<lparr>sum_log := sum_log a @ l @
                  [(WARNING, ''Evaluation of alignment state for track failed'')]\<rparr>)
      | (Inr (Inr alignState), l) \<Rightarrow>
          let a = add_track_blocks alignState (a\<lparr>sum_log := sum_log a @ l\<rparr>)
          in accumulate_tracks E gctx idxedAlignSurfaces alignMask rest
               (a\<lparr>sum_chi2 := sum_chi2 a + chi2 alignState,
                  sum_measurementDim := sum_measurementDim a + measurementDim alignState,
                  sumChi2ONdf := dadd (sumChi2ONdf a)
                                   (ddiv_count (Fin (chi2 alignState)) (measurementDim alignState))\<rparr>))"

text \<open>
  Steps (1) to (3) of the loop over the indexed surfaces: the new transform of one
  surface, from its old centre and Euler angles and its six entries of the solved delta.
\<close>

definition new_transform :: "('g, 's, 'p) env \<Rightarrow> 'g \<Rightarrow> vec \<Rightarrow> surface \<Rightarrow> nat \<Rightarrow> Transform3D" where
  "new_transform E gctx delta surface index =
     (let oldCenter = surface_center E gctx surface;
          oldEulerAngles = surface_eulerAngles E gctx surface;
          deltaAlignmentParam =
            segment delta (eAlignmentParametersSize * index) eAlignmentParametersSize;
          deltaCenter = segment deltaAlignmentParam eAlignmentCenter0 3;
          deltaEulerAngles = segment deltaAlignmentParam eAlignmentRotation0 3;
          newCenter = vadd oldCenter deltaCenter
      in \<lparr>tr_center = newCenter,
          tr_rotZ = vat oldEulerAngles 0 + vat deltaEulerAngles 2,
          tr_rotY = vat oldEulerAngles 1 + vat deltaEulerAngles 1,
          tr_rotX = vat oldEulerAngles 2 + vat deltaEulerAngles 0\<rparr>)"

text \<open>
  The loop over the indexed surfaces that applies the new transforms, for the entries in
  the order of the walk; it returns at the first element the updater refuses.
\<close>

fun update_transforms ::
  "('g, 's, 'p) env \<Rightarrow> ('g \<Rightarrow> det_element \<Rightarrow> Transform3D \<Rightarrow> bool \<times> 'g) \<Rightarrow> det_element list \<Rightarrow> vec
     \<Rightarrow> 'g \<Rightarrow> (surface \<times> nat) list \<Rightarrow> (exception + (error_code + unit)) \<times> 'g \<times> log" where
  "update_transforms E updater dets delta gctx [] = (Inr (Inr ()), gctx, [])"
| "update_transforms E updater dets delta gctx ((surface, index) # rest) =
     (let newTransform = new_transform E gctx delta surface index
      in if length dets \<le> index then (Inl OutOfRange, gctx, [])
         else
           (case updater gctx (dets ! index) newTransform of
              (updated, gctx') \<Rightarrow>
                if \<not> updated
                then (Inr (Inl AlignmentParametersUpdateFailure), gctx',
                      [(ERROR, ''Update alignment parameters for detector element failed'')])
                else update_transforms E updater dets delta gctx' rest))"

text \<open>
  What \<^verbatim>\<open>updateAlignmentParameters\<close> leaves behind: its return value, the result it
  was given to fill, the geometry and the log. The result record is a local variable of
  \<^verbatim>\<open>align\<close>, which an exception leaves too, so after an exception only the geometry is
  of interest.
\<close>

record 'g update_out =
  u_return :: "exception + (error_code + unit)"
  u_alignResult :: AlignmentResult
  u_geometry :: 'g
  u_log :: log

definition init_sums :: "nat \<Rightarrow> track_sums" where
  "init_sums dof =
     \<lparr>sumChi2Derivative = vZero dof, sumChi2SecondDerivative = Zero dof dof, sum_chi2 = 0,
      sum_measurementDim = 0, sumChi2ONdf = Fin 0, sum_log = []\<rparr>"

text \<open>
  The lines between the loop over the trajectories and the loop over the indexed surfaces:
  the inverse of the summed second derivative with the test for NaN, whose \<^verbatim>\<open>return\<close> is
  commented out in the source, the solved delta, the covariance and the change of chi2.
  The two \<^verbatim>\<open>Zero(alignDof)\<close> initialisations are overwritten at once and left out.
\<close>

definition solve_alignment_parameters ::
  "('g, 's, 'p) env \<Rightarrow> track_sums \<Rightarrow> AlignmentResult \<Rightarrow> AlignmentResult \<times> log" where
  "solve_alignment_parameters E a alignResult =
     (let sumChi2SecondDerivativeInverse = minverse E (sumChi2SecondDerivative a);
          l = (if hasNaN E sumChi2SecondDerivativeInverse
               then [(WARNING, ''Chi2 second derivative inverse has NaN'')] else []);
          alignResult = alignResult\<lparr>deltaAlignmentParameters :=
                      vneg (fullPivLu_solve E (sumChi2SecondDerivative a)
                              (sumChi2Derivative a))\<rparr>;
          alignResult = alignResult\<lparr>alignmentCovariance :=
                      mscale 2 sumChi2SecondDerivativeInverse\<rparr>;
          alignResult = alignResult\<lparr>deltaChi2 :=
                      dot (vscale (1 / 2) (sumChi2Derivative a))
                        (deltaAlignmentParameters alignResult)\<rparr>
      in (alignResult, l))"

definition updateAlignmentParameters ::
  "('g, 's, 'p) env \<Rightarrow> 'g \<Rightarrow> 's list \<Rightarrow> 'p list \<Rightarrow> det_element list
     \<Rightarrow> ('g \<Rightarrow> det_element \<Rightarrow> Transform3D \<Rightarrow> bool \<times> 'g) \<Rightarrow> AlignmentResult \<Rightarrow> mask
     \<Rightarrow> 'g update_out" where
  "updateAlignmentParameters E gctx trajectoryCollection startParametersCollection
       detElements transformUpdater alignResult alignMask =
     (if length trajectoryCollection \<noteq> length startParametersCollection
      then \<lparr>u_return = Inl AssertionFailed, u_alignResult = alignResult, u_geometry = gctx,
            u_log = []\<rparr>
      else
        let idxedAlignSurfaces = index_surfaces E detElements 0 [];
            alignResult = alignResult\<lparr>result_alignmentDof :=
                            length idxedAlignSurfaces * eAlignmentParametersSize\<rparr>;
            alignResult = alignResult\<lparr>result_chi2 := 0, result_measurementDim := 0,
                            numTracks := length trajectoryCollection\<rparr>
        in case accumulate_tracks E gctx idxedAlignSurfaces alignMask
                  (zip trajectoryCollection startParametersCollection)
                  (init_sums (result_alignmentDof alignResult)) of
             Inl x \<Rightarrow>
               \<lparr>u_return = Inl x, u_alignResult = alignResult, u_geometry = gctx, u_log = []\<rparr>
           | Inr a \<Rightarrow>
               let alignResult = alignResult\<lparr>result_chi2 := sum_chi2 a,
                               result_measurementDim := sum_measurementDim a\<rparr>;
                   alignResult = alignResult\<lparr>averageChi2ONdf :=
                               ddiv_count (sumChi2ONdf a) (numTracks alignResult)\<rparr>
               in case solve_alignment_parameters E a alignResult of
                    (alignResult, l) \<Rightarrow>
                      (case update_transforms E transformUpdater detElements
                              (deltaAlignmentParameters alignResult) gctx
                              (unordered_walk E idxedAlignSurfaces) of
                         (r, gctx', l') \<Rightarrow>
                           \<lparr>u_return = r, u_alignResult = alignResult, u_geometry = gctx',
                            u_log = sum_log a @ l @ l'\<rparr>))"

subsection \<open>align\<close>

text \<open>
  The two convergence tests of one iteration and the upkeep of the queue of recent
  values: either the run has converged, or it goes on with the new queue.
\<close>

datatype convergence = Converged | Continue "dbl list"

definition check_convergence :: "dbl \<Rightarrow> dbl \<Rightarrow> nat \<times> dbl \<Rightarrow> dbl list \<Rightarrow> exception + convergence" where
  "check_convergence avg cutOff deltaCutOff recentChi2ONdf =
     (if dle avg cutOff then Inr Converged
      else if fst deltaCutOff \<le> length recentChi2ONdf
      then (case recentChi2ONdf of
              [] \<Rightarrow> Inl EmptyQueueFront
            | front # rest \<Rightarrow>
                if dle (dabs (dsub front avg)) (snd deltaCutOff) then Inr Converged
                else Inr (Continue (rest @ [avg])))
      else Inr (Continue (recentChi2ONdf @ [avg])))"

text \<open>
  The alignment mask of an iteration: all six bits set, unless the options hold a mask
  for the number of the iteration.
\<close>

definition alignment_mask :: "'g AlignmentOptions \<Rightarrow> nat \<Rightarrow> mask" where
  "alignment_mask alignOptions iIter =
     (case iterationState alignOptions iIter of
        None \<Rightarrow> replicate eAlignmentParametersSize True
      | Some m \<Rightarrow> m)"

record 'g loop_vars =
  l_alignRes :: AlignmentResult
  l_geometry :: 'g
  l_recentChi2ONdf :: "dbl list"
  l_log :: log

text \<open>
  The iteration loop, over the iteration numbers still to run. It returns whether the
  run has converged, or the error or exception that ended it.
\<close>

fun align_loop ::
  "('g, 's, 'p) env \<Rightarrow> 's list \<Rightarrow> 'p list \<Rightarrow> 'g AlignmentOptions \<Rightarrow> nat list \<Rightarrow> 'g loop_vars
     \<Rightarrow> (exception + (error_code + bool)) \<times> 'g loop_vars" where
  "align_loop E trajectoryCollection startParametersCollection alignOptions [] s =
     (Inr (Inr False), s)"
| "align_loop E trajectoryCollection startParametersCollection alignOptions (iIter # iters) s =
     (let alignmentMask = alignment_mask alignOptions iIter;
          out = updateAlignmentParameters E (l_geometry s) trajectoryCollection
                  startParametersCollection (alignedDetElements alignOptions)
                  (alignedTransformUpdater alignOptions) (l_alignRes s) alignmentMask;
          s = s\<lparr>l_alignRes := u_alignResult out, l_geometry := u_geometry out,
                l_log := l_log s @ u_log out\<rparr>
      in case u_return out of
           Inl x \<Rightarrow> (Inl x, s)
         | Inr (Inl e) \<Rightarrow>
             (Inr (Inl e), s\<lparr>l_log := l_log s @ [(ERROR, ''Update alignment parameters failed'')]\<rparr>)
         | Inr (Inr u) \<Rightarrow>
             (case check_convergence (averageChi2ONdf (l_alignRes s))
                     (averageChi2ONdfCutOff alignOptions)
                     (deltaAverageChi2ONdfCutOff alignOptions) (l_recentChi2ONdf s) of
                Inl x \<Rightarrow> (Inl x, s)
              | Inr Converged \<Rightarrow> (Inr (Inr True), s)
              | Inr (Continue q) \<Rightarrow>
                  align_loop E trajectoryCollection startParametersCollection alignOptions iters
                    (s\<lparr>l_recentChi2ONdf := q\<rparr>)))"

text \<open>The variables before the first iteration.\<close>

definition loop_init :: "'g \<Rightarrow> 'g loop_vars" where
  "loop_init gctx =
     \<lparr>l_alignRes = default_AlignmentResult, l_geometry = gctx, l_recentChi2ONdf = [],
      l_log = []\<rparr>"

record 'g align_out =
  al_return :: "exception + (error_code + AlignmentResult)"
  al_geometry :: 'g
  al_log :: log

definition align ::
  "('g, 's, 'p) env \<Rightarrow> 'g \<Rightarrow> 's list \<Rightarrow> 'p list \<Rightarrow> 'g AlignmentOptions \<Rightarrow> 'g align_out" where
  "align E gctx trajectoryCollection startParametersCollection alignOptions =
     (case align_loop E trajectoryCollection startParametersCollection alignOptions
             [0..<maxIterations alignOptions] (loop_init gctx) of
        (Inl x, s) \<Rightarrow> \<lparr>al_return = Inl x, al_geometry = l_geometry s, al_log = l_log s\<rparr>
      | (Inr (Inl e), s) \<Rightarrow>
          \<lparr>al_return = Inr (Inl e), al_geometry = l_geometry s, al_log = l_log s\<rparr>
      | (Inr (Inr converged), s) \<Rightarrow>
          let alignRes = l_alignRes s;
              alignRes = (if \<not> converged then alignRes\<lparr>result := Some ConvergeFailure\<rparr>
                          else alignRes);
              l = l_log s @ (if \<not> converged then [(ERROR, ''Alignment is not converged.'')] else []);
              alignRes = foldl (\<lambda>r det.
                           r\<lparr>alignedParameters :=
                               emplace det (det_transform E (l_geometry s) det) (alignedParameters r)\<rparr>)
                         alignRes (alignedDetElements alignOptions)
          in \<lparr>al_return = Inr (Inr alignRes), al_geometry = l_geometry s, al_log = l\<rparr>)"


section \<open>Vocabulary of the properties\<close>

text \<open>
  The states of a track that carry a measurement, in the order of the visit; those of
  them whose reference surface is in the index of alignable surfaces; and the set of
  surfaces the latter lie on.
\<close>

definition measurement_states :: "multi_trajectory \<Rightarrow> nat \<Rightarrow> nat list" where
  "measurement_states mt e =
     filter (\<lambda>i. measurementFlag (getTrackState mt i)) (visitBackwards mt e)"

definition alignable_measurement_states ::
  "(surface \<times> nat) list \<Rightarrow> multi_trajectory \<Rightarrow> nat \<Rightarrow> nat list" where
  "alignable_measurement_states idx mt e =
     filter (\<lambda>i. referenceSurface (getTrackState mt i) \<in> fst ` set idx) (measurement_states mt e)"

definition alignable_surfaces_on_track ::
  "(surface \<times> nat) list \<Rightarrow> multi_trajectory \<Rightarrow> nat \<Rightarrow> surface set" where
  "alignable_surfaces_on_track idx mt e =
     (\<lambda>i. referenceSurface (getTrackState mt i)) ` set (alignable_measurement_states idx mt e)"

text \<open>The sum of the measurement dimensions of the measurement states of a track.\<close>

definition total_measurement_dim :: "multi_trajectory \<Rightarrow> nat \<Rightarrow> nat" where
  "total_measurement_dim mt e =
     sum_list (map (\<lambda>i. calibratedSize (getTrackState mt i)) (measurement_states mt e))"

text \<open>
  The input the builder is made for: the joint covariance is square with one block of six
  rows per smoothed state (the assertion of the source), and every measurement state has
  a row offset in it.
\<close>

definition covariance_fits :: "multi_trajectory \<Rightarrow> nat \<Rightarrow> mat \<times> (nat \<rightharpoonup> nat) \<Rightarrow> bool" where
  "covariance_fits mt e gcov \<longleftrightarrow>
     rows (fst gcov) = cols (fst gcov) \<and>
     rows (fst gcov) =
       eBoundParametersSize * length (filter (\<lambda>i. hasSmoothed (getTrackState mt i)) (visitBackwards mt e)) \<and>
     list_all (\<lambda>i. snd gcov i \<noteq> None) (measurement_states mt e)"

text \<open>
  The list of the quotients \<open>chi2 / measurementDim\<close> of the tracks that contribute, that is,
  whose evaluation returns a state (the fit succeeded and the alignment dimension is not
  zero), in the order of the tracks.
\<close>

definition track_contributions ::
  "('g, 's, 'p) env \<Rightarrow> 'g \<Rightarrow> (surface \<times> nat) list \<Rightarrow> mask \<Rightarrow> ('s \<times> 'p) list \<Rightarrow> dbl list" where
  "track_contributions E gctx idx alignMask tracks =
     concat (map (\<lambda>t.
        case fst (evaluateTrackAlignmentState E gctx (fst t) (snd t) idx alignMask) of
          Inr (Inr alignState) \<Rightarrow> [ddiv_count (Fin (chi2 alignState)) (measurementDim alignState)]
        | Inr (Inl e) \<Rightarrow> []
        | Inl x \<Rightarrow> []) tracks)"

text \<open>The sum of a list of doubles, from the left as the loop adds them.\<close>

definition dsum :: "dbl list \<Rightarrow> dbl" where
  "dsum xs = foldl dadd (Fin 0) xs"

text \<open>
  The tracks the driver is made for: the fit of each succeeds with a trajectory whose
  joint covariance fits, or with no measurement on an alignable surface, or fails.
\<close>

definition tracks_fit ::
  "('g, 's, 'p) env \<Rightarrow> 'g \<Rightarrow> (surface \<times> nat) list \<Rightarrow> ('s \<times> 'p) list \<Rightarrow> bool" where
  "tracks_fit E gctx idx tracks =
     list_all (\<lambda>t.
        case fit E gctx (fst t) (snd t) of
          Inl e \<Rightarrow> True
        | Inr fitOutput \<Rightarrow>
            alignable_measurement_states idx (fittedStates fitOutput) (trackTip fitOutput) = [] \<or>
            covariance_fits (fittedStates fitOutput) (trackTip fitOutput)
              (globalTrackParametersCovariance E (fittedStates fitOutput) (trackTip fitOutput)))
       tracks"

text \<open>
  \<open>M\<close> is the inverse of the square matrix \<open>H\<close>: both products are the unit matrix.
\<close>

definition is_inverse :: "mat \<Rightarrow> mat \<Rightarrow> bool" where
  "is_inverse H M \<longleftrightarrow>
     rows H = cols H \<and> rows M = rows H \<and> cols M = rows H \<and>
     list_all (\<lambda>i. list_all (\<lambda>j.
         mat_at (mat_mul H M) i j = (if i = j then 1 else 0) \<and>
         mat_at (mat_mul M H) i j = (if i = j then 1 else 0)) [0..<rows H]) [0..<rows H]"

text \<open>
  The geometry after the updater was called, one entry after the other, for each entry of
  a list with the new transform of its surface.
\<close>

definition applied_updates ::
  "('g, 's, 'p) env \<Rightarrow> ('g \<Rightarrow> det_element \<Rightarrow> Transform3D \<Rightarrow> bool \<times> 'g) \<Rightarrow> det_element list \<Rightarrow> vec
     \<Rightarrow> 'g \<Rightarrow> (surface \<times> nat) list \<Rightarrow> 'g" where
  "applied_updates E updater dets delta gctx entries =
     foldl (\<lambda>g entry. snd (updater g (dets ! snd entry)
                                (new_transform E g delta (fst entry) (snd entry))))
       gctx entries"

section \<open>Example inputs\<close>

text \<open>
  A track state with a measurement of dimension \<open>d\<close> and value \<open>m\<close> in each coordinate on
  surface \<open>s\<close>, unit measurement covariance, the projector onto the leading coordinates,
  and filtered parameters zero; a trajectory that stores the states of a list and is
  visited from the entry index down to index 0; and a joint covariance for \<open>n\<close> states.
\<close>

definition ex_identity :: "nat \<Rightarrow> nat \<Rightarrow> mat" where
  "ex_identity r c = \<lparr>rows = r, cols = c, mat_at = (\<lambda>i j. if i = j then 1 else 0)\<rparr>"

definition ex_state :: "surface \<Rightarrow> nat \<Rightarrow> real \<Rightarrow> track_state" where
  "ex_state s d m =
     \<lparr>hasSmoothed = True, measurementFlag = True, referenceSurface = s, calibratedSize = d,
      calibratedCovariance = ex_identity 6 6, projector = ex_identity 6 6,
      calibrated = \<lparr>vsize = 6, vat = (\<lambda>i. if i < d then m else 0)\<rparr>, filtered = vZero 6\<rparr>"

definition ex_trajectory :: "track_state list \<Rightarrow> multi_trajectory" where
  "ex_trajectory ts = \<lparr>visitBackwards = (\<lambda>e. rev [0..<Suc e]), getTrackState = (\<lambda>i. ts ! i)\<rparr>"

definition ex_covariance :: "nat \<Rightarrow> mat \<times> (nat \<rightharpoonup> nat)" where
  "ex_covariance n = (Zero (6 * n) (6 * n), (\<lambda>i. if i < n then Some (6 * i) else None))"

text \<open>Two measurements on the one alignable surface 7.\<close>

definition ex_twice :: multi_trajectory where
  "ex_twice = ex_trajectory [ex_state 7 1 2, ex_state 7 1 3]"

text \<open>One two-dimensional measurement on the alignable surface 7.\<close>

definition ex_pixel :: multi_trajectory where
  "ex_pixel = ex_trajectory [ex_state 7 2 2]"

text \<open>One measurement on each of the alignable surfaces 7 and 8.\<close>

definition ex_two_surfaces :: multi_trajectory where
  "ex_two_surfaces = ex_trajectory [ex_state 7 1 2, ex_state 8 1 3]"

text \<open>
  A driver whose geometry state is the list of the detector elements the updater was
  called for. The fit of source link 0 fails; the fit of a source link \<open>s\<close> below 10 gives
  one measurement of value \<open>s\<close> on surface 7, and of any other one measurement on surface
  99. Every detector element is its own surface. The inverse is the identity, which is the
  inverse of the unit measurement covariance of the example states. An unordered map is
  walked from the entry inserted last to the one inserted first.
\<close>

definition ex_env :: "(det_element list, nat, unit) env" where
  "ex_env =
     \<lparr>fit = (\<lambda>g s p. if s = 0 then Inl 1
                      else Inr \<lparr>fittedStates =
                                  ex_trajectory [ex_state (if s < 10 then 7 else 99) 1 (real s)],
                                trackTip = 0\<rparr>),
      globalTrackParametersCovariance = (\<lambda>mt tip. ex_covariance 1),
      minverse = id,
      hasNaN = (\<lambda>M. False),
      fullPivLu_solve = (\<lambda>H b. vZero (rows H)),
      det_surface = id,
      surface_center = (\<lambda>g s. vZero 3),
      surface_eulerAngles = (\<lambda>g s. vZero 3),
      det_transform = (\<lambda>g d. \<lparr>tr_center = vZero 3, tr_rotZ = 0, tr_rotY = 0, tr_rotX = 0\<rparr>),
      iteration_rank = (\<lambda>m s. length (dropWhile (\<lambda>entry. fst entry \<noteq> s) m))\<rparr>"

text \<open>The same with an inverse that Eigen reports to hold a NaN.\<close>

definition ex_env_nan :: "(det_element list, nat, unit) env" where
  "ex_env_nan = ex_env\<lparr>hasNaN := (\<lambda>M. True)\<rparr>"

definition ex_accept :: "det_element list \<Rightarrow> det_element \<Rightarrow> Transform3D \<Rightarrow> bool \<times> det_element list" where
  "ex_accept g d t = (True, g @ [d])"

definition ex_refuse :: "det_element list \<Rightarrow> det_element \<Rightarrow> Transform3D \<Rightarrow> bool \<times> det_element list" where
  "ex_refuse g d t = (False, g @ [d])"

text \<open>An updater that refuses the transform of element 8 and accepts every other.\<close>

definition ex_refuse_8 :: "det_element list \<Rightarrow> det_element \<Rightarrow> Transform3D \<Rightarrow> bool \<times> det_element list" where
  "ex_refuse_8 g d t = (d \<noteq> 8, g @ [d])"

text \<open>
  A system of two equations: the matrix \<open>(2 1; 1 1)\<close>, its inverse \<open>(1 -1; -1 2)\<close>, the
  right-hand side \<open>(1, 0)\<close>, and a driver whose solver and inverse are right for matrices
  of two rows.
\<close>

definition ex_H :: mat where
  "ex_H = \<lparr>rows = 2, cols = 2,
           mat_at = (\<lambda>i j. if i = 0 \<and> j = 0 then 2 else if i < 2 \<and> j < 2 then 1 else 0)\<rparr>"

definition ex_H_inverse :: mat where
  "ex_H_inverse = \<lparr>rows = 2, cols = 2,
           mat_at = (\<lambda>i j. if i = 1 \<and> j = 1 then 2 else if i = 0 \<and> j = 0 then 1
                            else if i < 2 \<and> j < 2 then - 1 else 0)\<rparr>"

definition ex_g :: vec where
  "ex_g = \<lparr>vsize = 2, vat = (\<lambda>i. if i = 0 then 1 else 0)\<rparr>"

definition ex_sums :: track_sums where
  "ex_sums = \<lparr>sumChi2Derivative = ex_g, sumChi2SecondDerivative = ex_H, sum_chi2 = 0,
              sum_measurementDim = 0, sumChi2ONdf = Fin 0, sum_log = []\<rparr>"

definition ex_env_solver :: "(det_element list, nat, unit) env" where
  "ex_env_solver =
     ex_env\<lparr>minverse := (\<lambda>H. if rows H = 2 then ex_H_inverse else H),
            fullPivLu_solve := (\<lambda>H b. if rows H = 2 then mat_vec ex_H_inverse b
                                      else vZero (rows H))\<rparr>"

text \<open>The options with the default values of the source.\<close>

definition ex_options ::
  "(det_element list \<Rightarrow> det_element \<Rightarrow> Transform3D \<Rightarrow> bool \<times> det_element list) \<Rightarrow> det_element list
     \<Rightarrow> det_element list AlignmentOptions" where
  "ex_options updater dets =
     \<lparr>alignedTransformUpdater = updater, alignedDetElements = dets,
      averageChi2ONdfCutOff = Fin (5 / 100), deltaAverageChi2ONdfCutOff = (10, Fin (1 / 100000)),
      maxIterations = 5, iterationState = Map.empty\<rparr>"

definition ex_mask :: mask where
  "ex_mask = replicate 6 True"

text \<open>The same options with a window of two values.\<close>

definition ex_options_window ::
  "(det_element list \<Rightarrow> det_element \<Rightarrow> Transform3D \<Rightarrow> bool \<times> det_element list) \<Rightarrow> det_element list
     \<Rightarrow> det_element list AlignmentOptions" where
  "ex_options_window updater dets =
     (ex_options updater dets)\<lparr>deltaAverageChi2ONdfCutOff := (2, Fin (1 / 100000))\<rparr>"

text \<open>
  The same options with a window of one value and a tolerance that no difference meets,
  so that the test on the window never ends the run.
\<close>

definition ex_options_strict ::
  "(det_element list \<Rightarrow> det_element \<Rightarrow> Transform3D \<Rightarrow> bool \<times> det_element list) \<Rightarrow> det_element list
     \<Rightarrow> det_element list AlignmentOptions" where
  "ex_options_strict updater dets =
     (ex_options updater dets)\<lparr>deltaAverageChi2ONdfCutOff := (1, Fin (- 1))\<rparr>"

section \<open>Vectors and matrices: basic facts\<close>

lemma Zero_sel [simp]: "rows (Zero r c) = r" "cols (Zero r c) = c" "mat_at (Zero r c) i j = 0"
  by (simp_all add: Zero_def)

lemma vZero_sel [simp]: "vsize (vZero n) = n" "vat (vZero n) i = 0"
  by (simp_all add: vZero_def)

lemma mtranspose_Zero [simp]: "mtranspose (Zero r c) = Zero c r"
  by (simp add: mtranspose_def Zero_def)

lemma mscale_Zero [simp]: "mscale k (Zero r c) = Zero r c"
  by (simp add: mscale_def Zero_def)

lemma mat_mul_Zero_left [simp]: "mat_mul (Zero r c) B = Zero r (cols B)"
  by (simp add: mat_mul_def Zero_def)

lemma mat_mul_Zero_right [simp]: "mat_mul A (Zero r c) = Zero (rows A) c"
  by (simp add: mat_mul_def Zero_def)

lemma mat_vec_Zero [simp]: "mat_vec (Zero r c) v = vZero r"
  by (simp add: mat_vec_def Zero_def vZero_def)

lemma segment_vZero [simp]: "segment (vZero n) i k = vZero k"
  by (simp add: segment_def vZero_def)

lemma block_Zero [simp]: "block (Zero r c) i j h w = Zero h w"
  by (simp add: block_def Zero_def)

lemma segment_add_vZero [simp]: "segment_add v i (vZero n) = v"
  by (cases v) (simp add: segment_add_def fun_eq_iff)

lemma block_add_Zero [simp]: "block_add A i j (Zero h w) = A"
  by (cases A) (simp add: block_add_def fun_eq_iff)

lemma rows_block_assign [simp]: "rows (block_assign A i j B) = rows A"
  and cols_block_assign [simp]: "cols (block_assign A i j B) = cols A"
  by (simp_all add: block_assign_def)

lemma vsize_segment_assign [simp]: "vsize (segment_assign v i u) = vsize v"
  by (simp add: segment_assign_def)

lemma in_fst_set_iff: "k \<in> fst ` set m \<longleftrightarrow> map_of m k \<noteq> None"
  by (simp add: map_of_eq_None_iff)

section \<open>The track builder: the visit\<close>

lemma visit_callback_fields:
  "v_measurementStates (visit_callback idx mt v i) =
     v_measurementStates v @ (if measurementFlag (getTrackState mt i) then [(i, False)] else [])"
  "v_measurementDim (visit_callback idx mt v i) =
     v_measurementDim v +
     (if measurementFlag (getTrackState mt i) then calibratedSize (getTrackState mt i) else 0)"
  "v_nAlignSurfaces (visit_callback idx mt v i) =
     v_nAlignSurfaces v +
     (if measurementFlag (getTrackState mt i) \<and> referenceSurface (getTrackState mt i) \<in> fst ` set idx
      then 1 else 0)"
  "v_nSmoothedStates (visit_callback idx mt v i) =
     v_nSmoothedStates v + (if hasSmoothed (getTrackState mt i) then 1 else 0)"
  by (auto simp: visit_callback_def Let_def in_fst_set_iff split: option.splits)

lemma visit_fold_fields:
  "v_measurementStates (foldl (visit_callback idx mt) v xs) =
     v_measurementStates v @
     map (\<lambda>i. (i, False)) (filter (\<lambda>i. measurementFlag (getTrackState mt i)) xs)"
  "v_measurementDim (foldl (visit_callback idx mt) v xs) =
     v_measurementDim v +
     sum_list (map (\<lambda>i. calibratedSize (getTrackState mt i))
                 (filter (\<lambda>i. measurementFlag (getTrackState mt i)) xs))"
  "v_nAlignSurfaces (foldl (visit_callback idx mt) v xs) =
     v_nAlignSurfaces v +
     length (filter (\<lambda>i. referenceSurface (getTrackState mt i) \<in> fst ` set idx)
               (filter (\<lambda>i. measurementFlag (getTrackState mt i)) xs))"
  "v_nSmoothedStates (foldl (visit_callback idx mt) v xs) =
     v_nSmoothedStates v + length (filter (\<lambda>i. hasSmoothed (getTrackState mt i)) xs)"
  by (induction xs arbitrary: v) (simp_all add: visit_callback_fields)

lemma visit_result:
  fixes idx mt e
  defines "v \<equiv> foldl (visit_callback idx mt) visit_init (visitBackwards mt e)"
  shows "v_measurementStates v = map (\<lambda>i. (i, False)) (measurement_states mt e)"
    and "v_measurementDim v = total_measurement_dim mt e"
    and "v_nAlignSurfaces v = length (alignable_measurement_states idx mt e)"
    and "v_nSmoothedStates v =
           length (filter (\<lambda>i. hasSmoothed (getTrackState mt i)) (visitBackwards mt e))"
  by (simp_all add: v_def visit_fold_fields visit_init_def alignable_measurement_states_def
      measurement_states_def total_measurement_dim_def)

lemma set_first_keys: "fst ` set (set_first s v m) = insert s (fst ` set m)"
  by (induction s v m rule: set_first.induct) auto

lemma set_first_distinct: "distinct (map fst m) \<Longrightarrow> distinct (map fst (set_first s v m))"
  by (induction s v m rule: set_first.induct) (auto simp: set_first_keys)

lemma visit_callback_surfaces:
  "v_alignedSurfaces (visit_callback idx mt v i) =
     (if measurementFlag (getTrackState mt i)
      then (case map_of idx (referenceSurface (getTrackState mt i)) of
              None \<Rightarrow> v_alignedSurfaces v
            | Some k \<Rightarrow> set_first (referenceSurface (getTrackState mt i)) k (v_alignedSurfaces v))
      else v_alignedSurfaces v)"
  by (simp add: visit_callback_def Let_def split: option.splits)

lemma visit_fold_surfaces:
  "fst ` set (v_alignedSurfaces (foldl (visit_callback idx mt) v xs)) =
     fst ` set (v_alignedSurfaces v) \<union>
     (\<lambda>i. referenceSurface (getTrackState mt i)) `
       set (filter (\<lambda>i. referenceSurface (getTrackState mt i) \<in> fst ` set idx)
              (filter (\<lambda>i. measurementFlag (getTrackState mt i)) xs))"
proof (induction xs arbitrary: v)
  case Nil
  then show ?case by simp
next
  case (Cons x xs)
  show ?case
    unfolding foldl_Cons Cons.IH
    by (auto simp: visit_callback_surfaces set_first_keys in_fst_set_iff split: option.splits)
qed

lemma visit_fold_distinct:
  "distinct (map fst (v_alignedSurfaces v)) \<Longrightarrow>
     distinct (map fst (v_alignedSurfaces (foldl (visit_callback idx mt) v xs)))"
proof (induction xs arbitrary: v)
  case Nil
  then show ?case by simp
next
  case (Cons x xs)
  have "distinct (map fst (v_alignedSurfaces (visit_callback idx mt v x)))"
    using Cons.prems by (simp add: visit_callback_surfaces set_first_distinct split: option.splits)
  from Cons.IH[OF this] show ?case by simp
qed

text \<open>The map of aligned surfaces holds each alignable surface with a measurement once.\<close>

lemma visit_surfaces:
  fixes idx mt e
  defines "v \<equiv> foldl (visit_callback idx mt) visit_init (visitBackwards mt e)"
  shows "fst ` set (v_alignedSurfaces v) = alignable_surfaces_on_track idx mt e"
    and "distinct (map fst (v_alignedSurfaces v))"
    and "length (v_alignedSurfaces v) = card (alignable_surfaces_on_track idx mt e)"
proof -
  show k: "fst ` set (v_alignedSurfaces v) = alignable_surfaces_on_track idx mt e"
    by (simp add: v_def visit_fold_surfaces visit_init_def alignable_surfaces_on_track_def
        alignable_measurement_states_def measurement_states_def)
  show d: "distinct (map fst (v_alignedSurfaces v))"
    unfolding v_def by (rule visit_fold_distinct) (simp add: visit_init_def)
  from distinct_card[OF d] k show "length (v_alignedSurfaces v) = card (alignable_surfaces_on_track idx mt e)"
    by simp
qed

section \<open>The track builder: the fill loop\<close>

lemma fill_columns_dims:
  "fill_columns src sri r ip tp ms k C = Inr C' \<Longrightarrow> rows C' = rows C \<and> cols C' = cols C"
  by (induction src sri r ip tp ms k C rule: fill_columns.induct)
     (auto split: option.splits simp: Let_def)

lemma fill_columns_returns:
  "sri r \<noteq> None \<Longrightarrow> \<forall>c \<in> set ms. sri (fst c) \<noteq> None \<Longrightarrow>
     \<exists>C'. fill_columns src sri r ip tp ms k C = Inr C'"
  by (induction src sri r ip tp ms k C rule: fill_columns.induct) (auto simp: Let_def)

lemma fill_body_keeps:
  assumes "fill_body mt src sri ms f c = Inr f'" and "\<not> snd c"
  shows "alignmentToResidualDerivative (f_alignState f') = alignmentToResidualDerivative (f_alignState f)"
    and "alignmentDof (f_alignState f') = alignmentDof (f_alignState f)"
    and "measurementDim (f_alignState f') = measurementDim (f_alignState f)"
    and "trackParametersDim (f_alignState f') = trackParametersDim (f_alignState f)"
    and "alignedSurfaces (f_alignState f') = alignedSurfaces (f_alignState f)"
    and "rows (projectionMatrix (f_alignState f')) = rows (projectionMatrix (f_alignState f))"
    and "cols (projectionMatrix (f_alignState f')) = cols (projectionMatrix (f_alignState f))"
    and "rows (trackParametersCovariance (f_alignState f')) = rows (trackParametersCovariance (f_alignState f))"
    and "cols (trackParametersCovariance (f_alignState f')) = cols (trackParametersCovariance (f_alignState f))"
  using assms
  by (auto simp: fill_body_def Let_def split: sum.splits dest: fill_columns_dims)

lemma fill_body_returns:
  assumes "\<not> snd c" and "sri (fst c) \<noteq> None" and "\<forall>c \<in> set ms. sri (fst c) \<noteq> None"
  shows "\<exists>f'. fill_body mt src sri ms f c = Inr f'"
proof -
  obtain C' where "fill_columns src sri (fst c) (f_iParams f - eBoundParametersSize)
      (trackParametersDim (f_alignState f)) ms 0 (trackParametersCovariance (f_alignState f)) = Inr C'"
    using fill_columns_returns[OF assms(2,3)] by blast
  with assms(1) show ?thesis
    by (simp add: fill_body_def Let_def)
qed

lemma fill_loop_keeps:
  assumes "fill_loop mt src sri ms f cs = Inr f'" and "\<forall>c \<in> set cs. \<not> snd c"
  shows "alignmentToResidualDerivative (f_alignState f') = alignmentToResidualDerivative (f_alignState f)
       \<and> alignmentDof (f_alignState f') = alignmentDof (f_alignState f)
       \<and> measurementDim (f_alignState f') = measurementDim (f_alignState f)
       \<and> trackParametersDim (f_alignState f') = trackParametersDim (f_alignState f)
       \<and> alignedSurfaces (f_alignState f') = alignedSurfaces (f_alignState f)
       \<and> rows (projectionMatrix (f_alignState f')) = rows (projectionMatrix (f_alignState f))
       \<and> cols (projectionMatrix (f_alignState f')) = cols (projectionMatrix (f_alignState f))
       \<and> rows (trackParametersCovariance (f_alignState f')) = rows (trackParametersCovariance (f_alignState f))
       \<and> cols (trackParametersCovariance (f_alignState f')) = cols (trackParametersCovariance (f_alignState f))"
  using assms
proof (induction cs arbitrary: f)
  case Nil
  then show ?case by simp
next
  case (Cons c cs)
  from Cons.prems(1) obtain f1 where b: "fill_body mt src sri ms f c = Inr f1"
    and l: "fill_loop mt src sri ms f1 cs = Inr f'"
    by (auto split: sum.splits)
  from Cons.prems(2) have ne: "\<not> snd c" and rest: "\<forall>c \<in> set cs. \<not> snd c" by simp_all
  from Cons.IH[OF l rest] fill_body_keeps[OF b ne] show ?case by simp
qed

lemma fill_loop_returns:
  assumes "\<forall>c \<in> set cs. \<not> snd c \<and> sri (fst c) \<noteq> None" and "\<forall>c \<in> set ms. sri (fst c) \<noteq> None"
  shows "\<exists>f'. fill_loop mt src sri ms f cs = Inr f'"
  using assms(1)
proof (induction cs arbitrary: f)
  case Nil
  then show ?case by simp
next
  case (Cons c cs)
  then obtain f1 where "fill_body mt src sri ms f c = Inr f1"
    using fill_body_returns[of c sri ms mt src f] assms(2) by auto
  with Cons show ?case by simp
qed

section \<open>The track builder: chi2 and derivatives\<close>

lemma chi2_and_derivatives_zero:
  assumes "alignmentToResidualDerivative st0 = Zero m (alignmentDof st0)"
  shows "alignmentToChi2Derivative (chi2_and_derivatives minv st0) = vZero (alignmentDof st0)"
    and "alignmentToChi2SecondDerivative (chi2_and_derivatives minv st0) =
           Zero (alignmentDof st0) (alignmentDof st0)"
  using assms by (simp_all add: chi2_and_derivatives_def Let_def)

lemma chi2_and_derivatives_keeps [simp]:
  "alignmentToResidualDerivative (chi2_and_derivatives minv st0) = alignmentToResidualDerivative st0"
  "alignmentDof (chi2_and_derivatives minv st0) = alignmentDof st0"
  "measurementDim (chi2_and_derivatives minv st0) = measurementDim st0"
  "trackParametersDim (chi2_and_derivatives minv st0) = trackParametersDim st0"
  "alignedSurfaces (chi2_and_derivatives minv st0) = alignedSurfaces st0"
  "projectionMatrix (chi2_and_derivatives minv st0) = projectionMatrix st0"
  "trackParametersCovariance (chi2_and_derivatives minv st0) = trackParametersCovariance st0"
  by (simp_all add: chi2_and_derivatives_def Let_def)

section \<open>The track builder: the result\<close>

lemma trackAlignmentState_none:
  assumes "trackAlignmentState minv mt e gcov idx = Inr st"
    and "alignable_measurement_states idx mt e = []"
  shows "st = default_TrackAlignmentState
              \<lparr>alignedSurfaces :=
                 v_alignedSurfaces (foldl (visit_callback idx mt) visit_init (visitBackwards mt e)),
               measurementDim := total_measurement_dim mt e\<rparr>"
  using assms by (simp add: trackAlignmentState_def Let_def visit_result)

lemma trackAlignmentState_some:
  assumes "trackAlignmentState minv mt e gcov idx = Inr st"
    and "alignable_measurement_states idx mt e \<noteq> []"
  shows "\<exists>f::fill_vars. st = chi2_and_derivatives minv (f_alignState f) \<and>
      alignmentToResidualDerivative (f_alignState f) =
         Zero (measurementDim (f_alignState f)) (alignmentDof (f_alignState f)) \<and>
      alignmentDof (f_alignState f) =
         eAlignmentParametersSize * length (alignable_measurement_states idx mt e) \<and>
      measurementDim (f_alignState f) = total_measurement_dim mt e \<and>
      trackParametersDim (f_alignState f) = eBoundParametersSize * length (measurement_states mt e) \<and>
      alignedSurfaces (f_alignState f) =
         v_alignedSurfaces (foldl (visit_callback idx mt) visit_init (visitBackwards mt e)) \<and>
      rows (projectionMatrix (f_alignState f)) = measurementDim (f_alignState f) \<and>
      cols (projectionMatrix (f_alignState f)) = trackParametersDim (f_alignState f) \<and>
      rows (trackParametersCovariance (f_alignState f)) = trackParametersDim (f_alignState f) \<and>
      cols (trackParametersCovariance (f_alignState f)) = trackParametersDim (f_alignState f)"
proof -
  let ?v = "foldl (visit_callback idx mt) visit_init (visitBackwards mt e)"
  note vr = visit_result[of idx mt e]
  from assms(2) vr(3) have nz: "v_nAlignSurfaces ?v \<noteq> 0" by simp
  from assms(1) nz obtain f where
    fl: "fill_loop mt (fst gcov) (snd gcov) (v_measurementStates ?v)
           \<lparr>f_alignState = default_TrackAlignmentState
               \<lparr>alignedSurfaces := v_alignedSurfaces ?v, measurementDim := v_measurementDim ?v,
                alignmentDof := eAlignmentParametersSize * v_nAlignSurfaces ?v,
                trackParametersDim := eBoundParametersSize * length (v_measurementStates ?v),
                measurementCovariance := Zero (v_measurementDim ?v) (v_measurementDim ?v),
                projectionMatrix :=
                  Zero (v_measurementDim ?v) (eBoundParametersSize * length (v_measurementStates ?v)),
                alignmentToResidualDerivative :=
                  Zero (v_measurementDim ?v) (eAlignmentParametersSize * v_nAlignSurfaces ?v),
                trackParametersCovariance :=
                  Zero (eBoundParametersSize * length (v_measurementStates ?v))
                    (eBoundParametersSize * length (v_measurementStates ?v)),
                residual := vZero (v_measurementDim ?v)\<rparr>,
             f_iMeasurement = v_measurementDim ?v,
             f_iParams = eBoundParametersSize * length (v_measurementStates ?v),
             f_iSurface = v_nAlignSurfaces ?v\<rparr>
           (v_measurementStates ?v) = Inr f"
    and st: "st = chi2_and_derivatives minv (f_alignState f)"
    by (auto simp: trackAlignmentState_def Let_def split: if_splits sum.splits)
  have flags: "\<forall>c \<in> set (v_measurementStates ?v). \<not> snd c"
    by (simp add: vr(1))
  note k = fill_loop_keeps[OF fl flags]
  show ?thesis
    by (rule exI[of _ f]) (use st k vr in \<open>simp add: default_TrackAlignmentState_def\<close>)
qed

text \<open>What holds of every state the builder returns.\<close>

lemma trackAlignmentState_result:
  assumes "trackAlignmentState minv mt e gcov idx = Inr st"
  shows "alignmentDof st = eAlignmentParametersSize * length (alignable_measurement_states idx mt e)"
    and "measurementDim st = total_measurement_dim mt e"
    and "mat_at (alignmentToResidualDerivative st) = (\<lambda>i j. 0)"
    and "alignmentToChi2Derivative st = vZero (alignmentDof st)"
    and "alignmentToChi2SecondDerivative st = Zero (alignmentDof st) (alignmentDof st)"
    and "alignedSurfaces st =
           v_alignedSurfaces (foldl (visit_callback idx mt) visit_init (visitBackwards mt e))"
proof -
  have "alignmentDof st = eAlignmentParametersSize * length (alignable_measurement_states idx mt e)
      \<and> measurementDim st = total_measurement_dim mt e
      \<and> mat_at (alignmentToResidualDerivative st) = (\<lambda>i j. 0)
      \<and> alignmentToChi2Derivative st = vZero (alignmentDof st)
      \<and> alignmentToChi2SecondDerivative st = Zero (alignmentDof st) (alignmentDof st)
      \<and> alignedSurfaces st =
           v_alignedSurfaces (foldl (visit_callback idx mt) visit_init (visitBackwards mt e))"
  proof (cases "alignable_measurement_states idx mt e = []")
    case True
    from trackAlignmentState_none[OF assms True] True show ?thesis
      by (simp add: default_TrackAlignmentState_def Zero_def)
  next
    case False
    from trackAlignmentState_some[OF assms False] obtain f :: fill_vars where
      st: "st = chi2_and_derivatives minv (f_alignState f)"
      and J: "alignmentToResidualDerivative (f_alignState f) =
                Zero (measurementDim (f_alignState f)) (alignmentDof (f_alignState f))"
      and d: "alignmentDof (f_alignState f) =
                eAlignmentParametersSize * length (alignable_measurement_states idx mt e)"
      and m: "measurementDim (f_alignState f) = total_measurement_dim mt e"
      and a: "alignedSurfaces (f_alignState f) =
           v_alignedSurfaces (foldl (visit_callback idx mt) visit_init (visitBackwards mt e))"
      by blast
    from chi2_and_derivatives_zero[OF J, of minv] st J d m a show ?thesis
      by (simp add: Zero_def)
  qed
  then show "alignmentDof st = eAlignmentParametersSize * length (alignable_measurement_states idx mt e)"
    and "measurementDim st = total_measurement_dim mt e"
    and "mat_at (alignmentToResidualDerivative st) = (\<lambda>i j. 0)"
    and "alignmentToChi2Derivative st = vZero (alignmentDof st)"
    and "alignmentToChi2SecondDerivative st = Zero (alignmentDof st) (alignmentDof st)"
    and "alignedSurfaces st =
           v_alignedSurfaces (foldl (visit_callback idx mt) visit_init (visitBackwards mt e))"
    by simp_all
qed

text \<open>The builder returns a state on every input it is made for.\<close>

lemma trackAlignmentState_returns:
  assumes "alignable_measurement_states idx mt e = [] \<or> covariance_fits mt e gcov"
  shows "\<exists>st. trackAlignmentState minv mt e gcov idx = Inr st"
proof (cases "alignable_measurement_states idx mt e = []")
  case True
  then show ?thesis
    by (simp add: trackAlignmentState_def Let_def visit_result)
next
  case False
  let ?v = "foldl (visit_callback idx mt) visit_init (visitBackwards mt e)"
  note vr = visit_result[of idx mt e]
  from False assms have fits: "covariance_fits mt e gcov" by simp
  then have dom: "\<forall>c \<in> set (v_measurementStates ?v). \<not> snd c \<and> snd gcov (fst c) \<noteq> None"
    by (auto simp: vr(1) covariance_fits_def list_all_iff)
  then have dom': "\<forall>c \<in> set (v_measurementStates ?v). snd gcov (fst c) \<noteq> None"
    by blast
  from False vr(3) have nz: "v_nAlignSurfaces ?v \<noteq> 0" by simp
  from fits have a: "rows (fst gcov) = cols (fst gcov)"
    "rows (fst gcov) = eBoundParametersSize * v_nSmoothedStates ?v"
    by (simp_all add: covariance_fits_def vr(4))
  show ?thesis
    using fill_loop_returns[OF dom dom', of mt "fst gcov"] nz a
    by (auto simp: trackAlignmentState_def Let_def split: sum.splits) (metis Inl_Inr_False)
qed


section \<open>The example tracks\<close>

lemma ex_states [simp]:
  "measurementFlag (ex_state s d m)" "hasSmoothed (ex_state s d m)"
  "referenceSurface (ex_state s d m) = s" "calibratedSize (ex_state s d m) = d"
  by (simp_all add: ex_state_def)

lemma ex_trajectory_sel [simp]:
  "visitBackwards (ex_trajectory ts) e = rev [0..<Suc e]"
  "getTrackState (ex_trajectory ts) i = ts ! i"
  by (simp_all add: ex_trajectory_def)

lemma ex_covariance_sel [simp]:
  "rows (fst (ex_covariance n)) = 6 * n" "cols (fst (ex_covariance n)) = 6 * n"
  "snd (ex_covariance n) i = (if i < n then Some (6 * i) else None)"
  by (simp_all add: ex_covariance_def)

lemma ex_twice_facts:
  "measurement_states ex_twice 1 = [1, 0]"
  "alignable_measurement_states [(7, 0)] ex_twice 1 = [1, 0]"
  "alignable_surfaces_on_track [(7, 0)] ex_twice 1 = {7}"
  "covariance_fits ex_twice 1 (ex_covariance 2)"
  by (simp_all add: measurement_states_def alignable_measurement_states_def
      alignable_surfaces_on_track_def covariance_fits_def ex_twice_def eBoundParametersSize_def)

lemma ex_two_surfaces_facts:
  "measurement_states ex_two_surfaces 1 = [1, 0]"
  "alignable_measurement_states [(7, 0), (8, 1)] ex_two_surfaces 1 = [1, 0]"
  "alignable_surfaces_on_track [(7, 0), (8, 1)] ex_two_surfaces 1 = {7, 8}"
  "covariance_fits ex_two_surfaces 1 (ex_covariance 2)"
  by (auto simp: measurement_states_def alignable_measurement_states_def
      alignable_surfaces_on_track_def covariance_fits_def ex_two_surfaces_def
      eBoundParametersSize_def)

lemma ex_pixel_facts:
  "measurement_states ex_pixel 0 = [0]"
  "alignable_measurement_states [(7, 0)] ex_pixel 0 = [0]"
  "total_measurement_dim ex_pixel 0 = 2"
  "covariance_fits ex_pixel 0 (ex_covariance 1)"
  by (simp_all add: measurement_states_def alignable_measurement_states_def
      total_measurement_dim_def covariance_fits_def ex_pixel_def eBoundParametersSize_def)

section \<open>Claims about the track builder\<close>

lemma foldl_unchanged: "(\<And>a x. f a x = a) \<Longrightarrow> foldl f a xs = a"
  by (induction xs) simp_all

lemma add_track_blocks_zero:
  assumes "alignmentToChi2Derivative st = vZero d"
    and "alignmentToChi2SecondDerivative st = Zero d d"
  shows "add_track_blocks st a = a"
  unfolding add_track_blocks_def
  by (rule foldl_unchanged) (simp add: assms Let_def split_def foldl_unchanged)

text \<open>
  C1. In \<open>trackAlignmentState\<close> every entry of the list of measurement states carries the
  alignability flag \<open>False\<close>, so the fill loop never writes into
  \<open>alignmentToResidualDerivative\<close>: in the returned state that matrix has only zero
  entries, the chi2 derivative is the zero vector and the second derivative the zero matrix
  of the track's alignment dimension, every block the driver reads from them is zero, and
  adding the track's blocks leaves the global sums as they were.
\<close>

theorem C1_residual_derivative_never_filled:
  assumes "trackAlignmentState minv mt e gcov idx = Inr st"
  shows "v_measurementStates (foldl (visit_callback idx mt) visit_init (visitBackwards mt e)) =
           map (\<lambda>i. (i, False)) (measurement_states mt e)
       \<and> mat_at (alignmentToResidualDerivative st) = (\<lambda>i j. 0)
       \<and> alignmentToChi2Derivative st = vZero (alignmentDof st)
       \<and> alignmentToChi2SecondDerivative st = Zero (alignmentDof st) (alignmentDof st)
       \<and> segment (alignmentToChi2Derivative st) (srcRow * eAlignmentParametersSize)
             eAlignmentParametersSize = vZero eAlignmentParametersSize
       \<and> block (alignmentToChi2SecondDerivative st) (srcRow * eAlignmentParametersSize)
             (srcCol * eAlignmentParametersSize) eAlignmentParametersSize eAlignmentParametersSize =
           Zero eAlignmentParametersSize eAlignmentParametersSize
       \<and> add_track_blocks st a = a"
proof -
  note r = trackAlignmentState_result[OF assms]
  have "add_track_blocks st a = a"
    by (rule add_track_blocks_zero[OF r(4) r(5)])
  with r show ?thesis
    by (simp add: visit_result)
qed

theorem C1_witness:
  "\<exists>st. trackAlignmentState id ex_pixel 0 (ex_covariance 1) [(7, 0)] = Inr st
      \<and> alignmentDof st = 6
      \<and> mat_at (alignmentToResidualDerivative st) = (\<lambda>i j. 0)
      \<and> alignmentToChi2Derivative st = vZero 6
      \<and> alignmentToChi2SecondDerivative st = Zero 6 6"
proof -
  obtain st where st: "trackAlignmentState id ex_pixel 0 (ex_covariance 1) [(7, 0)] = Inr st"
    using trackAlignmentState_returns[OF disjI2[OF ex_pixel_facts(4)], of id "[(7, 0)]"]
    by blast
  have d: "alignmentDof st = 6"
    using trackAlignmentState_result(1)[OF st]
    unfolding ex_pixel_facts eAlignmentParametersSize_def by simp
  from C1_residual_derivative_never_filled[OF st, of 0 0 "init_sums 6"] st d show ?thesis
    by simp
qed

text \<open>
  C3, as the code has it. The alignment dimension of the returned state is six times the
  number of measurement states of the track whose reference surface is in the index of
  alignable surfaces: a surface counts once for each of its measurements. The map of
  aligned surfaces of the state has one entry for each distinct such surface; where no
  alignable surface carries two measurements of the track, the alignment dimension is six
  times the number of distinct alignable surfaces with a measurement.
\<close>

theorem C3_alignmentDof_per_alignable_measurement:
  assumes "trackAlignmentState minv mt e gcov idx = Inr st"
  shows "alignmentDof st = 6 * length (alignable_measurement_states idx mt e)
       \<and> length (alignedSurfaces st) = card (alignable_surfaces_on_track idx mt e)
       \<and> (distinct (map (\<lambda>i. referenceSurface (getTrackState mt i))
                       (alignable_measurement_states idx mt e)) \<longrightarrow>
            alignmentDof st = 6 * card (alignable_surfaces_on_track idx mt e))"
proof -
  have a: "alignmentDof st = 6 * length (alignable_measurement_states idx mt e)"
    using trackAlignmentState_result(1)[OF assms] by (simp add: eAlignmentParametersSize_def)
  have b: "length (alignedSurfaces st) = card (alignable_surfaces_on_track idx mt e)"
    unfolding trackAlignmentState_result(6)[OF assms] by (rule visit_surfaces(3))
  have "card (alignable_surfaces_on_track idx mt e) = length (alignable_measurement_states idx mt e)"
    if "distinct (map (\<lambda>i. referenceSurface (getTrackState mt i))
                   (alignable_measurement_states idx mt e))"
    using distinct_card[OF that] by (simp add: alignable_surfaces_on_track_def)
  with a b show ?thesis by simp
qed

theorem C3_witness:
  "map_sum id alignmentDof
     (trackAlignmentState id ex_two_surfaces 1 (ex_covariance 2) [(7, 0), (8, 1)]) = Inr 12
   \<and> distinct (map (\<lambda>i. referenceSurface (getTrackState ex_two_surfaces i))
                 (alignable_measurement_states [(7, 0), (8, 1)] ex_two_surfaces 1))
   \<and> 6 * card (alignable_surfaces_on_track [(7, 0), (8, 1)] ex_two_surfaces 1) = 12"
proof -
  obtain st where
    st: "trackAlignmentState id ex_two_surfaces 1 (ex_covariance 2) [(7, 0), (8, 1)] = Inr st"
    using trackAlignmentState_returns[OF disjI2[OF ex_two_surfaces_facts(4)], of id "[(7, 0), (8, 1)]"]
    by blast
  have dist: "distinct (map (\<lambda>i. referenceSurface (getTrackState ex_two_surfaces i))
                 (alignable_measurement_states [(7, 0), (8, 1)] ex_two_surfaces 1))"
    unfolding ex_two_surfaces_facts by (simp add: ex_two_surfaces_def)
  have card: "6 * card (alignable_surfaces_on_track [(7, 0), (8, 1)] ex_two_surfaces 1) = 12"
    unfolding ex_two_surfaces_facts by simp
  from C3_alignmentDof_per_alignable_measurement[OF st] dist card
  have "alignmentDof st = 12" by simp
  with dist card show ?thesis
    unfolding st by simp
qed

text \<open>
  The claim as the specification words it fails where a surface carries two measurements:
  for two measurements on the one alignable surface 7 the alignment dimension is 12, and
  six times the number of distinct alignable surfaces is 6.
\<close>

theorem C3_counterexample:
  "map_sum id alignmentDof (trackAlignmentState id ex_twice 1 (ex_covariance 2) [(7, 0)]) = Inr 12
   \<and> 6 * card (alignable_surfaces_on_track [(7, 0)] ex_twice 1) = 6"
proof -
  obtain st where st: "trackAlignmentState id ex_twice 1 (ex_covariance 2) [(7, 0)] = Inr st"
    using trackAlignmentState_returns[OF disjI2[OF ex_twice_facts(4)], of id "[(7, 0)]"]
    by blast
  have "alignmentDof st = 12"
    using trackAlignmentState_result(1)[OF st]
    unfolding ex_twice_facts eAlignmentParametersSize_def by simp
  then show ?thesis
    unfolding st ex_twice_facts by simp
qed

text \<open>
  C9, as the code has it. For a track with a measurement on an alignable surface the
  track-parameter dimension is six times the number of measurement states (one block of
  bound parameters for each), not six times the measurement dimension: the projection
  matrix has \<open>measurementDim\<close> rows and \<open>trackParametersDim\<close> columns, and the covariance of
  the track parameters is square of dimension \<open>trackParametersDim\<close>.
\<close>

theorem C9_block_dimensions:
  assumes "trackAlignmentState minv mt e gcov idx = Inr st"
    and "alignable_measurement_states idx mt e \<noteq> []"
  shows "measurementDim st = total_measurement_dim mt e
       \<and> trackParametersDim st = 6 * length (measurement_states mt e)
       \<and> rows (projectionMatrix st) = measurementDim st
       \<and> cols (projectionMatrix st) = trackParametersDim st
       \<and> rows (trackParametersCovariance st) = trackParametersDim st
       \<and> cols (trackParametersCovariance st) = trackParametersDim st"
  using trackAlignmentState_some[OF assms]
  by (auto simp: eBoundParametersSize_def)

theorem C9_witness:
  "map_sum id trackParametersDim
     (trackAlignmentState id ex_two_surfaces 1 (ex_covariance 2) [(7, 0), (8, 1)]) = Inr 12
   \<and> map_sum id (cols \<circ> projectionMatrix)
     (trackAlignmentState id ex_two_surfaces 1 (ex_covariance 2) [(7, 0), (8, 1)]) = Inr 12
   \<and> alignable_measurement_states [(7, 0), (8, 1)] ex_two_surfaces 1 \<noteq> []"
proof -
  obtain st where
    st: "trackAlignmentState id ex_two_surfaces 1 (ex_covariance 2) [(7, 0), (8, 1)] = Inr st"
    using trackAlignmentState_returns[OF disjI2[OF ex_two_surfaces_facts(4)], of id "[(7, 0), (8, 1)]"]
    by blast
  have ne: "alignable_measurement_states [(7, 0), (8, 1)] ex_two_surfaces 1 \<noteq> []"
    unfolding ex_two_surfaces_facts by simp
  have "trackParametersDim st = 12 \<and> cols (projectionMatrix st) = 12"
    using C9_block_dimensions[OF st ne] unfolding ex_two_surfaces_facts by simp
  with ne show ?thesis
    unfolding st by simp
qed

text \<open>
  The claim as the specification words it fails for a measurement of dimension two: the
  measurement dimension is 2, and the track-parameter dimension and the number of columns
  of the projection matrix are 6, not 12.
\<close>

theorem C9_counterexample:
  "map_sum id measurementDim (trackAlignmentState id ex_pixel 0 (ex_covariance 1) [(7, 0)]) = Inr 2
   \<and> map_sum id trackParametersDim (trackAlignmentState id ex_pixel 0 (ex_covariance 1) [(7, 0)]) = Inr 6
   \<and> map_sum id (cols \<circ> projectionMatrix)
       (trackAlignmentState id ex_pixel 0 (ex_covariance 1) [(7, 0)]) = Inr 6"
proof -
  obtain st where st: "trackAlignmentState id ex_pixel 0 (ex_covariance 1) [(7, 0)] = Inr st"
    using trackAlignmentState_returns[OF disjI2[OF ex_pixel_facts(4)], of id "[(7, 0)]"]
    by blast
  have ne: "alignable_measurement_states [(7, 0)] ex_pixel 0 \<noteq> []"
    unfolding ex_pixel_facts by simp
  have "measurementDim st = 2 \<and> trackParametersDim st = 6 \<and> cols (projectionMatrix st) = 6"
    using trackAlignmentState_some[OF st ne]
    unfolding ex_pixel_facts eBoundParametersSize_def by auto
  then show ?thesis
    unfolding st by simp
qed


section \<open>The driver: one track\<close>

lemma evaluate_fit_failure:
  "fit E g sl sp = Inl c \<Longrightarrow>
     evaluateTrackAlignmentState E g sl sp idx m = (Inr (Inl (FitterError c)), [(WARNING, ''Fit failure'')])"
  by (simp add: evaluateTrackAlignmentState_def)

lemma evaluate_state:
  assumes "evaluateTrackAlignmentState E g sl sp idx m = (Inr (Inr st), l)"
  shows "\<exists>fo::KalmanFitterResult. fit E g sl sp = Inr fo \<and>
           trackAlignmentState (minverse E) (fittedStates fo) (trackTip fo)
             (globalTrackParametersCovariance E (fittedStates fo) (trackTip fo)) idx = Inr st \<and>
           alignmentDof st \<noteq> 0 \<and> l = []"
  using assms
  by (auto simp: evaluateTrackAlignmentState_def Let_def split: sum.splits if_splits)

lemma evaluate_state_zero:
  assumes "evaluateTrackAlignmentState E g sl sp idx m = (Inr (Inr st), l)"
  shows "add_track_blocks st a = a"
proof -
  from evaluate_state[OF assms] obtain fo :: KalmanFitterResult where
    "trackAlignmentState (minverse E) (fittedStates fo) (trackTip fo)
       (globalTrackParametersCovariance E (fittedStates fo) (trackTip fo)) idx = Inr st"
    by blast
  from trackAlignmentState_result(4,5)[OF this] show ?thesis
    by (rule add_track_blocks_zero)
qed

lemma evaluate_returns:
  assumes "case fit E g sl sp of
             Inl e \<Rightarrow> True
           | Inr fo \<Rightarrow>
               alignable_measurement_states idx (fittedStates fo) (trackTip fo) = [] \<or>
               covariance_fits (fittedStates fo) (trackTip fo)
                 (globalTrackParametersCovariance E (fittedStates fo) (trackTip fo))"
  shows "\<exists>r. fst (evaluateTrackAlignmentState E g sl sp idx m) = Inr r"
proof (cases "fit E g sl sp")
  case (Inl e)
  then show ?thesis by (simp add: evaluateTrackAlignmentState_def)
next
  case (Inr fo)
  with assms obtain st where
    "trackAlignmentState (minverse E) (fittedStates fo) (trackTip fo)
       (globalTrackParametersCovariance E (fittedStates fo) (trackTip fo)) idx = Inr st"
    using trackAlignmentState_returns by fastforce
  with Inr show ?thesis
    by (simp add: evaluateTrackAlignmentState_def Let_def)
qed

section \<open>The driver: the loop over the tracks\<close>

lemma accumulate_tracks_sums:
  "accumulate_tracks E g idx m ts a = Inr a' \<Longrightarrow>
     sumChi2Derivative a' = sumChi2Derivative a \<and>
     sumChi2SecondDerivative a' = sumChi2SecondDerivative a \<and>
     sumChi2ONdf a' = foldl dadd (sumChi2ONdf a) (track_contributions E g idx m ts)"
proof (induction ts arbitrary: a)
  case Nil
  then show ?case by (simp add: track_contributions_def)
next
  case (Cons t ts)
  obtain sl sp where t: "t = (sl, sp)" by (cases t)
  obtain r l where ev: "evaluateTrackAlignmentState E g sl sp idx m = (r, l)"
    by (cases "evaluateTrackAlignmentState E g sl sp idx m")
  show ?case
  proof (cases r)
    case (Inl x)
    with ev Cons.prems show ?thesis by (simp add: t)
  next
    case (Inr y)
    show ?thesis
    proof (cases y)
      case (Inl e)
      with Inr ev Cons.prems have
        "accumulate_tracks E g idx m ts
           (a\<lparr>sum_log := sum_log a @ l @
                [(WARNING, ''Evaluation of alignment state for track failed'')]\<rparr>) = Inr a'"
        by (simp add: t)
      from Cons.IH[OF this] Inl Inr ev show ?thesis
        by (simp add: track_contributions_def t)
    next
      case st: (Inr st)
      from ev Inr st have ev': "evaluateTrackAlignmentState E g sl sp idx m = (Inr (Inr st), l)"
        by simp
      note z = evaluate_state_zero[OF ev']
      from ev' Cons.prems have
        "accumulate_tracks E g idx m ts
           (a\<lparr>sum_log := sum_log a @ l,
              sum_chi2 := sum_chi2 a + chi2 st,
              sum_measurementDim := sum_measurementDim a + measurementDim st,
              sumChi2ONdf := dadd (sumChi2ONdf a)
                               (ddiv_count (Fin (chi2 st)) (measurementDim st))\<rparr>) = Inr a'"
        by (simp add: t z Let_def)
      from Cons.IH[OF this] ev' show ?thesis
        by (simp add: track_contributions_def t)
    qed
  qed
qed

lemma accumulate_tracks_returns:
  assumes "tracks_fit E g idx ts"
  shows "\<exists>a'. accumulate_tracks E g idx m ts a = Inr a'"
  using assms
proof (induction ts arbitrary: a)
  case Nil
  then show ?case by simp
next
  case (Cons t ts)
  obtain sl sp where t: "t = (sl, sp)" by (cases t)
  from Cons.prems have one: "case fit E g sl sp of
             Inl e \<Rightarrow> True
           | Inr fo \<Rightarrow>
               alignable_measurement_states idx (fittedStates fo) (trackTip fo) = [] \<or>
               covariance_fits (fittedStates fo) (trackTip fo)
                 (globalTrackParametersCovariance E (fittedStates fo) (trackTip fo))"
    and rest: "tracks_fit E g idx ts"
    by (simp_all add: tracks_fit_def t)
  from evaluate_returns[OF one] obtain r where
    "fst (evaluateTrackAlignmentState E g sl sp idx m) = Inr r"
    by blast
  then obtain l where ev: "evaluateTrackAlignmentState E g sl sp idx m = (Inr r, l)"
    by (cases "evaluateTrackAlignmentState E g sl sp idx m") auto
  show ?case
    using Cons.IH[OF rest] by (cases r) (simp_all add: t ev Let_def)
qed


section \<open>The driver: the index of the surfaces and the update of the transforms\<close>

lemma set_emplace: "set (emplace k v m) \<subseteq> insert (k, v) (set m)"
  by (auto simp: emplace_def split: option.splits)

lemma index_surfaces_bound:
  "\<forall>c \<in> set m. snd c < k \<Longrightarrow> \<forall>c \<in> set (index_surfaces E ds k m). snd c < k + length ds"
proof (induction ds arbitrary: k m)
  case Nil
  then show ?case by simp
next
  case (Cons d ds)
  have "\<forall>c \<in> set (emplace (det_surface E d) k m). snd c < Suc k"
    using Cons.prems set_emplace[of "det_surface E d" k m] by (auto simp: less_Suc_eq)
  from Cons.IH[OF this] show ?case by simp
qed

lemma index_surfaces_in_range: "\<forall>c \<in> set (index_surfaces E ds 0 []). snd c < length ds"
  using index_surfaces_bound[of "[]" 0 E ds] by simp

text \<open>The walk visits the entries of the map, each as often as the map holds it.\<close>

lemma unordered_walk_set [simp]: "set (unordered_walk E m) = set m"
  by (simp add: unordered_walk_def)

lemma unordered_walk_length [simp]: "length (unordered_walk E m) = length m"
  by (simp add: unordered_walk_def)

lemma unordered_walk_distinct [simp]: "distinct (unordered_walk E m) = distinct m"
  by (simp add: unordered_walk_def)

lemma unordered_walk_in_range:
  "\<forall>c \<in> set (unordered_walk E (index_surfaces E ds 0 [])). snd c < length ds"
  using index_surfaces_in_range[of E ds] by simp

text \<open>
  No order is left out: whatever the order \<open>p\<close> of the entries of a map, there is a rank
  for which the walk is \<open>p\<close>, the position of the key in \<open>p\<close>.
\<close>

lemma takeWhile_index:
  assumes "distinct (map fst p)" and "i < length p"
  shows "length (takeWhile (\<lambda>x. fst x \<noteq> fst (p ! i)) p) = i"
proof -
  let ?P = "\<lambda>x. fst x \<noteq> fst (p ! i)"
  let ?j = "length (takeWhile ?P p)"
  have ex: "\<exists>x \<in> set p. \<not> ?P x" using assms(2) by auto
  have j: "?j < length p"
  proof (rule ccontr)
    assume "\<not> ?j < length p"
    with length_takeWhile_le[of ?P p] have "?j = length p" by simp
    with takeWhile_eq_take[of ?P p] have "takeWhile ?P p = p" by simp
    then have "\<forall>x \<in> set p. ?P x" by (simp only: takeWhile_eq_all_conv)
    with ex show False by blast
  qed
  from nth_length_takeWhile[OF j] have "fst (p ! ?j) = fst (p ! i)" by simp
  with j assms have e: "map fst p ! ?j = map fst p ! i" by simp
  have "(map fst p ! ?j = map fst p ! i) = (?j = i)"
    by (rule nth_eq_iff_index_eq[OF assms(1)]) (use j assms(2) in simp_all)
  with e show ?thesis by blast
qed

lemma every_order_is_a_walk:
  assumes "distinct (map fst m)" and "set p = set m" and "length p = length m"
  shows "unordered_walk (E\<lparr>iteration_rank := (\<lambda>mp k. length (takeWhile (\<lambda>e. fst e \<noteq> k) p))\<rparr>) m = p"
proof -
  let ?f = "\<lambda>e :: surface \<times> nat. length (takeWhile (\<lambda>x. fst x \<noteq> fst e) p)"
  have dm: "distinct m" using assms(1) by (rule distinct_map[THEN iffD1, THEN conjunct1])
  have "card (set p) = length p"
    unfolding assms(2) assms(3) using dm by (rule distinct_card)
  then have dp: "distinct p" by (rule card_distinct)
  have "card (set (map fst p)) = length (map fst p)"
    using distinct_card[OF assms(1)] assms(2,3) by simp
  then have dfp: "distinct (map fst p)" by (rule card_distinct)
  have mp: "map ?f p = [0..<length p]"
    by (rule nth_equalityI) (simp_all add: takeWhile_index[OF dfp])
  then have sp: "sorted (map ?f p)" and dsp: "distinct (map ?f p)" by simp_all
  from dsp have inj: "inj_on ?f (set p)" by (simp add: distinct_map)
  have ss: "sorted (map ?f (sort_key ?f m))" by (rule sorted_sort_key)
  have ds: "distinct (map ?f (sort_key ?f m))"
    using inj dm assms(2) by (simp add: distinct_map)
  have "sort_key ?f m = p"
    by (rule map_sorted_distinct_set_unique[OF _ ss ds sp dsp]) (use inj assms(2) in simp_all)
  then show ?thesis by (simp add: unordered_walk_def)
qed

lemma update_transforms_no_exception:
  "\<forall>c \<in> set es. snd c < length dets \<Longrightarrow>
     \<exists>r. fst (update_transforms E upd dets delta g es) = Inr r"
proof (induction es arbitrary: g)
  case Nil
  then show ?case by simp
next
  case (Cons c es)
  obtain s i where c: "c = (s, i)" by (cases c)
  obtain u g' where u: "upd g (dets ! i) (new_transform E g delta s i) = (u, g')"
    by (cases "upd g (dets ! i) (new_transform E g delta s i)")
  from Cons show ?case
    by (simp add: c u Let_def)
qed

lemma update_transforms_accept:
  "\<forall>g d t. fst (upd g d t) \<Longrightarrow> \<forall>c \<in> set es. snd c < length dets \<Longrightarrow>
     fst (update_transforms E upd dets delta g es) = Inr (Inr ()) \<and>
     snd (snd (update_transforms E upd dets delta g es)) = []"
proof (induction es arbitrary: g)
  case Nil
  then show ?case by simp
next
  case (Cons c es)
  obtain s i where c: "c = (s, i)" by (cases c)
  obtain u g' where u: "upd g (dets ! i) (new_transform E g delta s i) = (u, g')"
    by (cases "upd g (dets ! i) (new_transform E g delta s i)")
  with Cons.prems(1) have "u" by (metis fst_conv)
  with Cons show ?case
    by (simp add: c u Let_def)
qed

text \<open>A list of entries is walked one part after the other, as long as no update fails.\<close>

lemma update_transforms_append:
  "update_transforms E upd dets delta g (xs @ ys) =
     (case update_transforms E upd dets delta g xs of
        (Inr (Inr u), g', l) \<Rightarrow> update_transforms E upd dets delta g' ys
      | (Inr (Inl e), g', l) \<Rightarrow> (Inr (Inl e), g', l)
      | (Inl x, g', l) \<Rightarrow> (Inl x, g', l))"
proof (induction xs arbitrary: g)
  case Nil
  then show ?case by simp
next
  case (Cons c xs)
  obtain s i where c: "c = (s, i)" by (cases c)
  obtain u g' where u: "upd g (dets ! i) (new_transform E g delta s i) = (u, g')"
    by (cases "upd g (dets ! i) (new_transform E g delta s i)")
  from Cons show ?case
    by (simp add: c u Let_def)
qed

section \<open>The driver: updateAlignmentParameters\<close>

lemma vneg_vZero [simp]: "vneg (vZero n) = vZero n"
  by (simp add: vneg_def vZero_def)

lemma mat_vec_vneg: "mat_vec H (vneg x) = vneg (mat_vec H x)"
proof -
  have "sum_list (map (\<lambda>k. mat_at H i k * - vat x k) ks) =
        - sum_list (map (\<lambda>k. mat_at H i k * vat x k) ks)" for i ks
    by (induction ks) simp_all
  then show ?thesis
    by (simp add: mat_vec_def vneg_def)
qed

text \<open>
  Whatever the matrix and the right-hand side: if the solver returns a solution of
  \<open>H x = g\<close>, the negated solution solves \<open>H x = - g\<close>.
\<close>

lemma negated_solution:
  "mat_vec H (solve H g) = g \<Longrightarrow> mat_vec H (vneg (solve H g)) = vneg g"
  by (simp add: mat_vec_vneg)

lemma dot_vscale: "dot (vscale c u) v = c * dot u v"
proof -
  have "sum_list (map (\<lambda>k. c * vat u k * vat v k) ks) =
        c * sum_list (map (\<lambda>k. vat u k * vat v k) ks)" for ks
    by (induction ks) (simp_all add: algebra_simps)
  then show ?thesis
    by (simp add: dot_def vscale_def)
qed

lemma init_sums_sel [simp]:
  "sumChi2Derivative (init_sums d) = vZero d"
  "sumChi2SecondDerivative (init_sums d) = Zero d d"
  "sumChi2ONdf (init_sums d) = Fin 0"
  "sum_log (init_sums d) = []"
  by (simp_all add: init_sums_def)

text \<open>The three results of the lines that solve for the delta.\<close>

lemma solve_alignment_parameters_fields:
  "deltaAlignmentParameters (fst (solve_alignment_parameters E a res)) =
     vneg (fullPivLu_solve E (sumChi2SecondDerivative a) (sumChi2Derivative a))"
  "alignmentCovariance (fst (solve_alignment_parameters E a res)) =
     mscale 2 (minverse E (sumChi2SecondDerivative a))"
  "deltaChi2 (fst (solve_alignment_parameters E a res)) =
     dot (vscale (1 / 2) (sumChi2Derivative a))
       (deltaAlignmentParameters (fst (solve_alignment_parameters E a res)))"
  by (simp_all add: solve_alignment_parameters_def Let_def)

lemma mscale_half_twice: "mscale (1 / 2) (mscale 2 (M :: mat)) = M"
  by (cases M) (simp add: mscale_def)

text \<open>A zero matrix with at least one row has no inverse.\<close>

lemma no_inverse_of_Zero: "0 < n \<Longrightarrow> \<not> is_inverse (Zero n n) M"
  by (auto simp: is_inverse_def list_all_iff)

lemma index_surfaces_not_empty: "ds \<noteq> [] \<or> mp \<noteq> [] \<Longrightarrow> index_surfaces E ds k mp \<noteq> []"
proof (induction ds arbitrary: k mp)
  case Nil
  then show ?case by simp
next
  case (Cons d ds)
  have "emplace (det_surface E d) k mp \<noteq> []"
    by (cases mp) (simp_all add: emplace_def split: option.splits)
  with Cons.IH[of "emplace (det_surface E d) k mp" "k + 1"] show ?case by simp
qed

text \<open>
  The geometry the loop over the entries leaves when it returns success is the one after
  the updater was called for every entry.
\<close>

lemma applied_updates_append:
  "applied_updates E upd dets delta g (xs @ ys) =
     applied_updates E upd dets delta (applied_updates E upd dets delta g xs) ys"
  by (simp add: applied_updates_def)

lemma update_transforms_applied:
  "fst (update_transforms E upd dets delta g es) = Inr (Inr ()) \<Longrightarrow>
     fst (snd (update_transforms E upd dets delta g es)) = applied_updates E upd dets delta g es"
proof (induction es arbitrary: g)
  case Nil
  then show ?case by (simp add: applied_updates_def)
next
  case (Cons c es)
  obtain s i where c: "c = (s, i)" by (cases c)
  obtain u g' where u: "upd g (dets ! i) (new_transform E g delta s i) = (u, g')"
    by (cases "upd g (dets ! i) (new_transform E g delta s i)")
  from Cons.prems have r: "i < length dets" and a: "u"
    by (auto simp: c u Let_def split: if_splits)
  with Cons.prems have "fst (update_transforms E upd dets delta g' es) = Inr (Inr ())"
    by (simp add: c u Let_def)
  from Cons.IH[OF this] r a show ?case
    by (simp add: c u Let_def applied_updates_def)
qed

text \<open>The call returns a value exactly when the sizes agree and no track raises.\<close>

lemma updateAlignmentParameters_returns_iff:
  "(\<exists>r. u_return (updateAlignmentParameters E g trajs params dets upd res m) = Inr r) \<longleftrightarrow>
     length trajs = length params \<and>
     (\<exists>a. accumulate_tracks E g (index_surfaces E dets 0 []) m (zip trajs params)
            (init_sums (length (index_surfaces E dets 0 []) * eAlignmentParametersSize)) = Inr a)"
proof -
  have nx: "\<exists>r. fst (update_transforms E upd dets delta g
                     (unordered_walk E (index_surfaces E dets 0 []))) = Inr r"
    for delta
    by (rule update_transforms_no_exception[OF unordered_walk_in_range])
  show ?thesis
  proof (cases "length trajs = length params")
    case False
    then show ?thesis by (simp add: updateAlignmentParameters_def)
  next
    case True
    show ?thesis
    proof (cases "accumulate_tracks E g (index_surfaces E dets 0 []) m (zip trajs params)
            (init_sums (length (index_surfaces E dets 0 []) * eAlignmentParametersSize))")
      case (Inl x)
      with True show ?thesis by (simp add: updateAlignmentParameters_def Let_def)
    next
      case (Inr a)
      with True nx show ?thesis
        by (simp add: updateAlignmentParameters_def Let_def split_def)
    qed
  qed
qed

text \<open>The fields of the result after a call that returns a value.\<close>

lemma updateAlignmentParameters_fields:
  fixes E g trajs params dets upd res m
  defines "out \<equiv> updateAlignmentParameters E g trajs params dets upd res m"
    and "idx \<equiv> index_surfaces E dets 0 []"
  defines "dof \<equiv> length idx * eAlignmentParametersSize"
  assumes len: "length trajs = length params"
    and acc: "accumulate_tracks E g idx m (zip trajs params) (init_sums dof) = Inr a"
  shows "sumChi2Derivative a = vZero dof"
    and "sumChi2SecondDerivative a = Zero dof dof"
    and "numTracks (u_alignResult out) = length trajs"
    and "averageChi2ONdf (u_alignResult out) =
           ddiv_count (dsum (track_contributions E g idx m (zip trajs params))) (length trajs)"
    and "deltaAlignmentParameters (u_alignResult out) =
           vneg (fullPivLu_solve E (sumChi2SecondDerivative a) (sumChi2Derivative a))"
    and "alignmentCovariance (u_alignResult out) = mscale 2 (minverse E (sumChi2SecondDerivative a))"
    and "deltaChi2 (u_alignResult out) =
           dot (vscale (1 / 2) (sumChi2Derivative a)) (deltaAlignmentParameters (u_alignResult out))"
    and "u_return out =
           fst (update_transforms E upd dets (deltaAlignmentParameters (u_alignResult out)) g
                  (unordered_walk E idx))"
    and "u_geometry out =
           fst (snd (update_transforms E upd dets (deltaAlignmentParameters (u_alignResult out)) g
                  (unordered_walk E idx)))"
    and "u_log out =
           sum_log a @
           (if hasNaN E (minverse E (sumChi2SecondDerivative a))
            then [(WARNING, ''Chi2 second derivative inverse has NaN'')] else []) @
           snd (snd (update_transforms E upd dets (deltaAlignmentParameters (u_alignResult out)) g
                  (unordered_walk E idx)))"
    and "result_chi2 (u_alignResult out) = sum_chi2 a"
    and "result_measurementDim (u_alignResult out) = sum_measurementDim a"
    and "result_alignmentDof (u_alignResult out) = dof"
proof -
  note s = accumulate_tracks_sums[OF acc]
  from s show "sumChi2Derivative a = vZero dof" and "sumChi2SecondDerivative a = Zero dof dof"
    by simp_all
  from len acc show "numTracks (u_alignResult out) = length trajs"
    and "deltaAlignmentParameters (u_alignResult out) =
           vneg (fullPivLu_solve E (sumChi2SecondDerivative a) (sumChi2Derivative a))"
    and "alignmentCovariance (u_alignResult out) = mscale 2 (minverse E (sumChi2SecondDerivative a))"
    and "result_chi2 (u_alignResult out) = sum_chi2 a"
    and "result_measurementDim (u_alignResult out) = sum_measurementDim a"
    and "result_alignmentDof (u_alignResult out) = dof"
    by (simp_all add: out_def idx_def dof_def updateAlignmentParameters_def
        solve_alignment_parameters_def Let_def split_def)
  from len acc s show "averageChi2ONdf (u_alignResult out) =
           ddiv_count (dsum (track_contributions E g idx m (zip trajs params))) (length trajs)"
    by (simp add: out_def idx_def dof_def updateAlignmentParameters_def
        solve_alignment_parameters_def Let_def split_def dsum_def)
  from len acc show "deltaChi2 (u_alignResult out) =
           dot (vscale (1 / 2) (sumChi2Derivative a)) (deltaAlignmentParameters (u_alignResult out))"
    and "u_return out =
           fst (update_transforms E upd dets (deltaAlignmentParameters (u_alignResult out)) g
                  (unordered_walk E idx))"
    and "u_geometry out =
           fst (snd (update_transforms E upd dets (deltaAlignmentParameters (u_alignResult out)) g
                  (unordered_walk E idx)))"
    and "u_log out =
           sum_log a @
           (if hasNaN E (minverse E (sumChi2SecondDerivative a))
            then [(WARNING, ''Chi2 second derivative inverse has NaN'')] else []) @
           snd (snd (update_transforms E upd dets (deltaAlignmentParameters (u_alignResult out)) g
                  (unordered_walk E idx)))"
    by (simp_all add: out_def idx_def dof_def updateAlignmentParameters_def
        solve_alignment_parameters_def Let_def split_def)
qed


section \<open>The example driver\<close>

lemma ex_env_sel [simp]:
  "fit ex_env g s p =
     (if s = 0 then Inl 1
      else Inr \<lparr>fittedStates = ex_trajectory [ex_state (if s < 10 then 7 else 99) 1 (real s)],
                trackTip = 0\<rparr>)"
  "globalTrackParametersCovariance ex_env mt tip = ex_covariance 1"
  "minverse ex_env = id"
  "hasNaN ex_env M = False"
  "det_surface ex_env = id"
  by (simp_all add: ex_env_def)

lemma ex_env_nan_sel [simp]:
  "fit ex_env_nan = fit ex_env"
  "globalTrackParametersCovariance ex_env_nan = globalTrackParametersCovariance ex_env"
  "minverse ex_env_nan = id"
  "hasNaN ex_env_nan M = True"
  "det_surface ex_env_nan = id"
  by (simp_all add: ex_env_nan_def ex_env_def)

lemma ex_single_fits: "covariance_fits (ex_trajectory [ex_state s d v]) 0 (ex_covariance 1)"
  by (simp add: covariance_fits_def measurement_states_def eBoundParametersSize_def)

lemma ex_fit_fits:
  "case fit ex_env g s p of
     Inl e \<Rightarrow> True
   | Inr fo \<Rightarrow>
       alignable_measurement_states idx (fittedStates fo) (trackTip fo) = [] \<or>
       covariance_fits (fittedStates fo) (trackTip fo)
         (globalTrackParametersCovariance ex_env (fittedStates fo) (trackTip fo))"
  using ex_single_fits[of "if s < 10 then 7 else 99" 1 "real s"] by simp

lemma ex_tracks_fit: "tracks_fit ex_env g idx ts"
  unfolding tracks_fit_def list_all_iff using ex_fit_fits by blast

lemma ex_tracks_fit_nan: "tracks_fit ex_env_nan g idx ts"
  using ex_tracks_fit[of g idx ts] unfolding tracks_fit_def ex_env_nan_sel(1,2) .

lemma ex_index [simp]: "index_surfaces ex_env [7] 0 [] = [(7, 0)]"
  by (simp add: emplace_def)

lemma ex_single_chi2:
  "map_sum id chi2
     (trackAlignmentState id (ex_trajectory [ex_state 7 1 v]) 0 (ex_covariance 1) [(7, 0)]) =
   Inr (v * v)"
  by (simp add: trackAlignmentState_def ex_trajectory_def ex_state_def ex_covariance_def
      visit_callback_def visit_init_def Let_def default_TrackAlignmentState_def
      fill_body_def chi2_and_derivatives_def eBoundParametersSize_def eAlignmentParametersSize_def
      topLeftCorner_def block_def block_assign_def segment_assign_def head_def segment_def
      vsub_def mat_vec_def vec_mat_def dot_def Zero_def vZero_def ex_identity_def)

lemma ex_single_alignable:
  "alignable_measurement_states [(7, 0)] (ex_trajectory [ex_state 7 d v]) 0 = [0]"
  "alignable_measurement_states [(7, 0)] (ex_trajectory [ex_state 99 d v]) 0 = []"
  "total_measurement_dim (ex_trajectory [ex_state s d v]) 0 = d"
  by (simp_all add: alignable_measurement_states_def measurement_states_def total_measurement_dim_def)

lemma ex_evaluate_hit:
  assumes "0 < s" and "s < 10"
  shows "\<exists>st. evaluateTrackAlignmentState ex_env g s () [(7, 0)] m = (Inr (Inr st), [])
           \<and> chi2 st = real s * real s \<and> measurementDim st = 1"
proof -
  obtain st where
    st: "trackAlignmentState id (ex_trajectory [ex_state 7 1 (real s)]) 0 (ex_covariance 1) [(7, 0)]
           = Inr st"
    using trackAlignmentState_returns[OF disjI2[OF ex_single_fits]] by blast
  from ex_single_chi2[of "real s"] have c: "chi2 st = real s * real s"
    unfolding st by simp
  from trackAlignmentState_result(1,2)[OF st]
  have "alignmentDof st = 6" and d: "measurementDim st = 1"
    unfolding ex_single_alignable eAlignmentParametersSize_def by simp_all
  with st assms c show ?thesis
    by (simp add: evaluateTrackAlignmentState_def)
qed

lemma ex_evaluate_fail:
  "evaluateTrackAlignmentState ex_env g 0 () idx m =
     (Inr (Inl (FitterError 1)), [(WARNING, ''Fit failure'')])"
  by (simp add: evaluateTrackAlignmentState_def)

lemma ex_contributions:
  "track_contributions ex_env g [(7, 0)] m [] = []"
  "track_contributions ex_env g [(7, 0)] m ((0, ()) # ts) = track_contributions ex_env g [(7, 0)] m ts"
  "0 < s \<Longrightarrow> s < 10 \<Longrightarrow>
     track_contributions ex_env g [(7, 0)] m ((s, ()) # ts) =
       Fin (real s * real s) # track_contributions ex_env g [(7, 0)] m ts"
proof -
  show "track_contributions ex_env g [(7, 0)] m [] = []"
    by (simp add: track_contributions_def)
  show "track_contributions ex_env g [(7, 0)] m ((0, ()) # ts) =
          track_contributions ex_env g [(7, 0)] m ts"
    by (simp add: track_contributions_def ex_evaluate_fail)
  assume "0 < s" "s < 10"
  from ex_evaluate_hit[OF this, of g m] obtain st where
    "evaluateTrackAlignmentState ex_env g s () [(7, 0)] m = (Inr (Inr st), [])"
    "chi2 st = real s * real s" "measurementDim st = 1"
    by blast
  then show "track_contributions ex_env g [(7, 0)] m ((s, ()) # ts) =
       Fin (real s * real s) # track_contributions ex_env g [(7, 0)] m ts"
    by (simp add: track_contributions_def)
qed

section \<open>Claims about updateAlignmentParameters\<close>

text \<open>
  C8. When the fit of a track succeeds and none of its measurement states lies on an
  alignable surface, \<open>evaluateTrackAlignmentState\<close> returns the error
  \<open>NoAlignmentDofOnTrack\<close>; the loop over the tracks logs a warning and goes on with the next
  track, with the sums of gradient, second derivative, chi2, measurement dimension and
  chi2/ndf as they were.
\<close>

theorem C8_no_alignment_dof_is_skipped:
  assumes "fit E g sl sp = Inr fo"
    and "alignable_measurement_states idx (fittedStates fo) (trackTip fo) = []"
  shows "evaluateTrackAlignmentState E g sl sp idx m = (Inr (Inl NoAlignmentDofOnTrack), [])
       \<and> accumulate_tracks E g idx m ((sl, sp) # rest) a =
           accumulate_tracks E g idx m rest
             (a\<lparr>sum_log := sum_log a @
                   [(WARNING, ''Evaluation of alignment state for track failed'')]\<rparr>)"
proof -
  obtain st where
    st: "trackAlignmentState (minverse E) (fittedStates fo) (trackTip fo)
           (globalTrackParametersCovariance E (fittedStates fo) (trackTip fo)) idx = Inr st"
    using trackAlignmentState_returns[OF disjI1[OF assms(2)]] by blast
  from trackAlignmentState_result(1)[OF st] assms(2) have "alignmentDof st = 0" by simp
  with st assms(1)
  have "evaluateTrackAlignmentState E g sl sp idx m = (Inr (Inl NoAlignmentDofOnTrack), [])"
    by (simp add: evaluateTrackAlignmentState_def)
  then show ?thesis by simp
qed

theorem C8_witness:
  "evaluateTrackAlignmentState ex_env [] 10 () [(7, 0)] ex_mask = (Inr (Inl NoAlignmentDofOnTrack), [])
   \<and> map_sum id sum_chi2 (accumulate_tracks ex_env [] [(7, 0)] ex_mask [(10, ())] (init_sums 6)) = Inr 0
   \<and> map_sum id sum_measurementDim
       (accumulate_tracks ex_env [] [(7, 0)] ex_mask [(10, ())] (init_sums 6)) = Inr 0
   \<and> map_sum id sumChi2ONdf
       (accumulate_tracks ex_env [] [(7, 0)] ex_mask [(10, ())] (init_sums 6)) = Inr (Fin 0)"
proof -
  have f: "fit ex_env [] 10 () =
             Inr \<lparr>fittedStates = ex_trajectory [ex_state 99 1 (real 10)], trackTip = 0\<rparr>"
    by simp
  have n: "alignable_measurement_states [(7, 0)]
             (fittedStates \<lparr>fittedStates = ex_trajectory [ex_state 99 1 (real 10)], trackTip = 0\<rparr>)
             (trackTip \<lparr>fittedStates = ex_trajectory [ex_state 99 1 (real 10)], trackTip = 0\<rparr>) = []"
    by (simp add: ex_single_alignable)
  from C8_no_alignment_dof_is_skipped[OF f n, of ex_mask "[]" "init_sums 6"] show ?thesis
    by (simp add: init_sums_def)
qed

text \<open>
  C2, what the code computes. After a call that returns, \<open>numTracks\<close> is the number of
  input trajectories, the skipped ones included, although the source comments the field as
  the number of tracks used for alignment; \<open>averageChi2ONdf\<close> is the sum of
  \<open>chi2 / measurementDim\<close> over the contributing tracks divided by that number. It is the
  mean over the contributing tracks only when every track contributes.
\<close>

theorem C2_average_over_all_input_tracks:
  assumes "u_return (updateAlignmentParameters E g trajs params dets upd res m) = Inr r"
  shows "numTracks (u_alignResult (updateAlignmentParameters E g trajs params dets upd res m)) =
           length trajs
       \<and> averageChi2ONdf (u_alignResult (updateAlignmentParameters E g trajs params dets upd res m)) =
           ddiv_count
             (dsum (track_contributions E g (index_surfaces E dets 0 []) m (zip trajs params)))
             (length trajs)
       \<and> (length (track_contributions E g (index_surfaces E dets 0 []) m (zip trajs params)) =
            length trajs \<longrightarrow>
          averageChi2ONdf (u_alignResult (updateAlignmentParameters E g trajs params dets upd res m)) =
            ddiv_count
              (dsum (track_contributions E g (index_surfaces E dets 0 []) m (zip trajs params)))
              (length (track_contributions E g (index_surfaces E dets 0 []) m (zip trajs params))))"
proof -
  from assms obtain a where len: "length trajs = length params"
    and acc: "accumulate_tracks E g (index_surfaces E dets 0 []) m (zip trajs params)
            (init_sums (length (index_surfaces E dets 0 []) * eAlignmentParametersSize)) = Inr a"
    using updateAlignmentParameters_returns_iff[of E g trajs params dets upd res m] by blast
  from updateAlignmentParameters_fields(3,4)[OF len acc] show ?thesis
    by simp
qed

theorem C2_witness:
  "averageChi2ONdf (u_alignResult
     (updateAlignmentParameters ex_env [] [2, 3] [(), ()] [7] ex_accept default_AlignmentResult ex_mask))
     = Fin (13 / 2)
   \<and> numTracks (u_alignResult
     (updateAlignmentParameters ex_env [] [2, 3] [(), ()] [7] ex_accept default_AlignmentResult ex_mask))
     = 2
   \<and> track_contributions ex_env [] (index_surfaces ex_env [7] 0 []) ex_mask (zip [2, 3] [(), ()])
     = [Fin 4, Fin 9]"
proof -
  have "\<exists>r. u_return (updateAlignmentParameters ex_env [] [2, 3] [(), ()] [7] ex_accept
               default_AlignmentResult ex_mask) = Inr r"
    unfolding updateAlignmentParameters_returns_iff
  proof (rule conjI)
    show "length [2::nat, 3] = length [(), ()]" by simp
  qed (rule accumulate_tracks_returns[OF ex_tracks_fit])
  then obtain r where r: "u_return (updateAlignmentParameters ex_env [] [2, 3] [(), ()] [7] ex_accept
               default_AlignmentResult ex_mask) = Inr r" ..
  have c: "track_contributions ex_env [] (index_surfaces ex_env [7] 0 []) ex_mask (zip [2, 3] [(), ()])
     = [Fin 4, Fin 9]"
    unfolding ex_index by (simp add: ex_contributions)
  from C2_average_over_all_input_tracks[OF r] show ?thesis
    unfolding c by (simp add: dsum_def)
qed

text \<open>
  The code at an input with a skipped track: of the two tracks the first fails in the fit
  and the second contributes \<open>chi2 / measurementDim = 4\<close>; the code reports \<open>numTracks = 2\<close>
  and the average \<open>2\<close>, where the mean over the one contributing track is \<open>4\<close>. When the
  fits of both tracks fail, nothing contributes and the code reports the average \<open>0\<close>,
  which is below the absolute cut-off of the convergence test.
\<close>

theorem C2_counterexample:
  "averageChi2ONdf (u_alignResult
     (updateAlignmentParameters ex_env [] [0, 2] [(), ()] [7] ex_accept default_AlignmentResult ex_mask))
     = Fin 2
   \<and> numTracks (u_alignResult
     (updateAlignmentParameters ex_env [] [0, 2] [(), ()] [7] ex_accept default_AlignmentResult ex_mask))
     = 2
   \<and> track_contributions ex_env [] (index_surfaces ex_env [7] 0 []) ex_mask (zip [0, 2] [(), ()])
     = [Fin 4]
   \<and> ddiv_count (dsum [Fin 4]) (length [Fin 4]) = Fin 4
   \<and> averageChi2ONdf (u_alignResult
     (updateAlignmentParameters ex_env [] [0, 0] [(), ()] [7] ex_accept default_AlignmentResult ex_mask))
     = Fin 0
   \<and> track_contributions ex_env [] (index_surfaces ex_env [7] 0 []) ex_mask (zip [0, 0] [(), ()])
     = []
   \<and> dle (Fin 0) (averageChi2ONdfCutOff (ex_options ex_accept [7]))"
proof -
  obtain a where acc: "accumulate_tracks ex_env [] (index_surfaces ex_env [7] 0 []) ex_mask
      (zip [0, 2] [(), ()])
      (init_sums (length (index_surfaces ex_env [7] 0 []) * eAlignmentParametersSize)) = Inr a"
    using accumulate_tracks_returns[OF ex_tracks_fit] by blast
  have len: "length [0::nat, 2] = length [(), ()]" by simp
  have c: "track_contributions ex_env [] (index_surfaces ex_env [7] 0 []) ex_mask (zip [0, 2] [(), ()])
     = [Fin 4]"
    unfolding ex_index by (simp add: ex_contributions)
  obtain a' where acc': "accumulate_tracks ex_env [] (index_surfaces ex_env [7] 0 []) ex_mask
      (zip [0, 0] [(), ()])
      (init_sums (length (index_surfaces ex_env [7] 0 []) * eAlignmentParametersSize)) = Inr a'"
    using accumulate_tracks_returns[OF ex_tracks_fit] by blast
  have len': "length [0::nat, 0] = length [(), ()]" by simp
  have c': "track_contributions ex_env [] (index_surfaces ex_env [7] 0 []) ex_mask (zip [0, 0] [(), ()])
     = []"
    unfolding ex_index by (simp add: ex_contributions)
  have none: "averageChi2ONdf (u_alignResult
     (updateAlignmentParameters ex_env [] [0, 0] [(), ()] [7] ex_accept default_AlignmentResult ex_mask))
     = Fin 0"
    unfolding updateAlignmentParameters_fields(4)[OF len' acc'] c' by (simp add: dsum_def)
  have cut: "dle (Fin 0) (averageChi2ONdfCutOff (ex_options ex_accept [7]))"
    by (simp add: ex_options_def)
  from updateAlignmentParameters_fields(3,4)[OF len acc] none cut c'
  show ?thesis
    unfolding c by (simp add: dsum_def)
qed

lemma ex_env_solver_sel [simp]:
  "fit ex_env_solver = fit ex_env"
  "globalTrackParametersCovariance ex_env_solver = globalTrackParametersCovariance ex_env"
  "minverse ex_env_solver H = (if rows H = 2 then ex_H_inverse else H)"
  "fullPivLu_solve ex_env_solver H b =
     (if rows H = 2 then mat_vec ex_H_inverse b else vZero (rows H))"
  "det_surface ex_env_solver = id"
  by (simp_all add: ex_env_solver_def ex_env_def)

lemma ex_sums_sel [simp]:
  "sumChi2Derivative ex_sums = ex_g"
  "sumChi2SecondDerivative ex_sums = ex_H"
  by (simp_all add: ex_sums_def)

lemma upt_2: "[0..<2] = [0, Suc 0]"
  by (simp add: numeral_2_eq_2)

lemma ex_H_solved: "mat_vec ex_H (mat_vec ex_H_inverse ex_g) = ex_g"
  by (simp add: mat_vec_def ex_H_def ex_H_inverse_def ex_g_def upt_2 fun_eq_iff)

lemma ex_H_inverse_is_inverse: "is_inverse ex_H ex_H_inverse"
  by (simp add: is_inverse_def mat_mul_def ex_H_def ex_H_inverse_def upt_2)

lemma ex_delta:
  "vneg (mat_vec ex_H_inverse ex_g) = \<lparr>vsize = 2, vat = (\<lambda>i. if i = 0 then - 1 else if i = 1 then 1 else 0)\<rparr>"
  by (simp add: vneg_def mat_vec_def ex_H_inverse_def ex_g_def upt_2 fun_eq_iff)

text \<open>
  The second derivative summed over the tracks has no inverse as soon as there is a
  detector element to align: it is a zero matrix of at least six rows.
\<close>

lemma summed_second_derivative_singular:
  assumes "dets \<noteq> []"
    and "accumulate_tracks E g (index_surfaces E dets 0 []) m tracks
           (init_sums (length (index_surfaces E dets 0 []) * eAlignmentParametersSize)) = Inr a"
  shows "\<not> is_inverse (sumChi2SecondDerivative a) M"
proof -
  from index_surfaces_not_empty[of dets "[]" E 0] assms(1)
  have "0 < length (index_surfaces E dets 0 []) * eAlignmentParametersSize"
    by (simp add: eAlignmentParametersSize_def)
  from no_inverse_of_Zero[OF this] accumulate_tracks_sums[OF assms(2)] show ?thesis
    by simp
qed

text \<open>
  C6, as the code has it. The lines that solve for the delta, for any sums \<open>g\<close> and \<open>H\<close>
  they are given: the delta is the negated result of the solver, so it satisfies
  \<open>H \<cdot> delta = - g\<close> whenever the solver returns a solution of \<open>H \<cdot> x = g\<close>; the covariance is
  twice the matrix Eigen's \<^verbatim>\<open>inverse()\<close> returns, so its half is the inverse of \<open>H\<close> whenever
  that matrix is; and \<open>deltaChi2\<close> is \<open>0.5 \<cdot> g\<^sup>T \<cdot> delta\<close>. A call of
  \<open>updateAlignmentParameters\<close> that returns holds these three results for the sums of its
  loop over the tracks, and its delta satisfies \<open>H \<cdot> delta = - g\<close> for them.
\<close>

theorem C6_solved_delta:
  fixes E :: "('g, 's, 'p) env" and b a :: track_sums and ini g trajs params dets upd res m
  defines "R \<equiv> fst (solve_alignment_parameters E b ini)"
    and "out \<equiv> updateAlignmentParameters E g trajs params dets upd res m"
  shows "deltaAlignmentParameters R =
           vneg (fullPivLu_solve E (sumChi2SecondDerivative b) (sumChi2Derivative b))
       \<and> (mat_vec (sumChi2SecondDerivative b)
            (fullPivLu_solve E (sumChi2SecondDerivative b) (sumChi2Derivative b)) =
            sumChi2Derivative b \<longrightarrow>
          mat_vec (sumChi2SecondDerivative b) (deltaAlignmentParameters R) =
            vneg (sumChi2Derivative b))
       \<and> alignmentCovariance R = mscale 2 (minverse E (sumChi2SecondDerivative b))
       \<and> (is_inverse (sumChi2SecondDerivative b) (minverse E (sumChi2SecondDerivative b)) \<longrightarrow>
          is_inverse (sumChi2SecondDerivative b) (mscale (1 / 2) (alignmentCovariance R)))
       \<and> deltaChi2 R = 0.5 * dot (sumChi2Derivative b) (deltaAlignmentParameters R)
       \<and> (length trajs = length params \<longrightarrow>
          accumulate_tracks E g (index_surfaces E dets 0 []) m (zip trajs params)
            (init_sums (length (index_surfaces E dets 0 []) * eAlignmentParametersSize)) = Inr a \<longrightarrow>
          deltaAlignmentParameters (u_alignResult out) =
            deltaAlignmentParameters (fst (solve_alignment_parameters E a ini))
          \<and> alignmentCovariance (u_alignResult out) =
            alignmentCovariance (fst (solve_alignment_parameters E a ini))
          \<and> deltaChi2 (u_alignResult out) =
            deltaChi2 (fst (solve_alignment_parameters E a ini))
          \<and> mat_vec (sumChi2SecondDerivative a) (deltaAlignmentParameters (u_alignResult out)) =
            vneg (sumChi2Derivative a))"
proof -
  note s = solve_alignment_parameters_fields[of E b ini, folded R_def]
  have 1: "mat_vec (sumChi2SecondDerivative b) (deltaAlignmentParameters R) =
            vneg (sumChi2Derivative b)"
    if "mat_vec (sumChi2SecondDerivative b)
            (fullPivLu_solve E (sumChi2SecondDerivative b) (sumChi2Derivative b)) =
            sumChi2Derivative b"
    unfolding s(1) using that by (rule negated_solution)
  have 2: "is_inverse (sumChi2SecondDerivative b) (mscale (1 / 2) (alignmentCovariance R))"
    if "is_inverse (sumChi2SecondDerivative b) (minverse E (sumChi2SecondDerivative b))"
    unfolding s(2) mscale_half_twice by (rule that)
  have 3: "deltaChi2 R = 0.5 * dot (sumChi2Derivative b) (deltaAlignmentParameters R)"
    unfolding s(3) by (simp add: dot_vscale)
  have 4: "deltaAlignmentParameters (u_alignResult out) =
            deltaAlignmentParameters (fst (solve_alignment_parameters E a ini))
          \<and> alignmentCovariance (u_alignResult out) =
            alignmentCovariance (fst (solve_alignment_parameters E a ini))
          \<and> deltaChi2 (u_alignResult out) =
            deltaChi2 (fst (solve_alignment_parameters E a ini))
          \<and> mat_vec (sumChi2SecondDerivative a) (deltaAlignmentParameters (u_alignResult out)) =
            vneg (sumChi2Derivative a)"
    if len: "length trajs = length params"
      and acc: "accumulate_tracks E g (index_surfaces E dets 0 []) m (zip trajs params)
            (init_sums (length (index_surfaces E dets 0 []) * eAlignmentParametersSize)) = Inr a"
  proof -
    note z = updateAlignmentParameters_fields(1,2)[OF len acc]
    note f = updateAlignmentParameters_fields(5,6,7)[OF len acc, of upd res, folded out_def]
    note t = solve_alignment_parameters_fields[of E a ini]
    have "mat_vec (sumChi2SecondDerivative a) (deltaAlignmentParameters (u_alignResult out)) =
            vneg (sumChi2Derivative a)"
      by (simp add: z)
    with f t show ?thesis by simp
  qed
  from s(1,2) 1 2 3 4 show ?thesis by blast
qed

theorem C6_witness:
  "mat_vec ex_H (deltaAlignmentParameters
       (fst (solve_alignment_parameters ex_env_solver ex_sums default_AlignmentResult))) = vneg ex_g
   \<and> deltaAlignmentParameters
       (fst (solve_alignment_parameters ex_env_solver ex_sums default_AlignmentResult)) =
       \<lparr>vsize = 2, vat = (\<lambda>i. if i = 0 then - 1 else if i = 1 then 1 else 0)\<rparr>
   \<and> is_inverse ex_H (mscale (1 / 2) (alignmentCovariance
       (fst (solve_alignment_parameters ex_env_solver ex_sums default_AlignmentResult))))
   \<and> deltaChi2 (fst (solve_alignment_parameters ex_env_solver ex_sums default_AlignmentResult)) =
       - 1 / 2
   \<and> map_sum id
       (\<lambda>a. mat_vec (sumChi2SecondDerivative a) (deltaAlignmentParameters (u_alignResult
          (updateAlignmentParameters ex_env [] [2, 3] [(), ()] [7] ex_accept
             default_AlignmentResult ex_mask))) = vneg (sumChi2Derivative a))
       (accumulate_tracks ex_env [] (index_surfaces ex_env [7] 0 []) ex_mask (zip [2, 3] [(), ()])
          (init_sums (length (index_surfaces ex_env [7] 0 []) * eAlignmentParametersSize)))
     = Inr True"
proof -
  have sol: "mat_vec (sumChi2SecondDerivative ex_sums)
      (fullPivLu_solve ex_env_solver (sumChi2SecondDerivative ex_sums) (sumChi2Derivative ex_sums)) =
      sumChi2Derivative ex_sums"
    by (simp add: ex_H_solved) (simp add: ex_H_def)
  have inv: "is_inverse (sumChi2SecondDerivative ex_sums)
      (minverse ex_env_solver (sumChi2SecondDerivative ex_sums))"
    by (simp add: ex_H_inverse_is_inverse) (simp add: ex_H_def)
  note g = C6_solved_delta[where E = ex_env_solver and b = ex_sums and ini = default_AlignmentResult]
  have 1: "mat_vec ex_H (deltaAlignmentParameters
       (fst (solve_alignment_parameters ex_env_solver ex_sums default_AlignmentResult))) = vneg ex_g"
    using g[THEN conjunct2, THEN conjunct1, rule_format, OF sol] unfolding ex_sums_sel .
  have 2: "is_inverse ex_H (mscale (1 / 2) (alignmentCovariance
       (fst (solve_alignment_parameters ex_env_solver ex_sums default_AlignmentResult))))"
    using g[THEN conjunct2, THEN conjunct2, THEN conjunct2, THEN conjunct1, rule_format, OF inv]
    unfolding ex_sums_sel .
  have d: "deltaAlignmentParameters
       (fst (solve_alignment_parameters ex_env_solver ex_sums default_AlignmentResult)) =
       \<lparr>vsize = 2, vat = (\<lambda>i. if i = 0 then - 1 else if i = 1 then 1 else 0)\<rparr>"
    unfolding g[THEN conjunct1] by (simp add: ex_delta) (simp add: ex_H_def)
  have c: "deltaChi2 (fst (solve_alignment_parameters ex_env_solver ex_sums default_AlignmentResult)) =
       - 1 / 2"
    unfolding g[THEN conjunct2, THEN conjunct2, THEN conjunct2, THEN conjunct2, THEN conjunct1] d
    by (simp add: dot_def ex_g_def upt_2)
  obtain a where acc: "accumulate_tracks ex_env [] (index_surfaces ex_env [7] 0 []) ex_mask
      (zip [2, 3] [(), ()])
      (init_sums (length (index_surfaces ex_env [7] 0 []) * eAlignmentParametersSize)) = Inr a"
    using accumulate_tracks_returns[OF ex_tracks_fit] by blast
  have len: "length [2::nat, 3] = length [(), ()]" by simp
  from C6_solved_delta[where E = ex_env and trajs = "[2::nat, 3]" and params = "[(), ()]"
      and g = "[]" and dets = "[7]" and m = ex_mask and a = a and upd = ex_accept
      and res = default_AlignmentResult] len acc
  have "mat_vec (sumChi2SecondDerivative a) (deltaAlignmentParameters (u_alignResult
          (updateAlignmentParameters ex_env [] [2, 3] [(), ()] [7] ex_accept
             default_AlignmentResult ex_mask))) = vneg (sumChi2Derivative a)"
    by blast
  then have call: "map_sum id
       (\<lambda>a. mat_vec (sumChi2SecondDerivative a) (deltaAlignmentParameters (u_alignResult
          (updateAlignmentParameters ex_env [] [2, 3] [(), ()] [7] ex_accept
             default_AlignmentResult ex_mask))) = vneg (sumChi2Derivative a))
       (accumulate_tracks ex_env [] (index_surfaces ex_env [7] 0 []) ex_mask (zip [2, 3] [(), ()])
          (init_sums (length (index_surfaces ex_env [7] 0 []) * eAlignmentParametersSize)))
     = Inr True"
    unfolding acc map_sum.simps by simp
  from 1 d 2 c call show ?thesis by blast
qed

text \<open>
  The claim as the specification words it fails on the covariance. In the run of two
  tracks with one detector element to align, the summed second derivative is the zero
  matrix of six rows, and half the covariance the call stores is not an inverse of it:
  it has none.
\<close>

theorem C6_counterexample:
  "map_sum id sumChi2SecondDerivative
     (accumulate_tracks ex_env [] (index_surfaces ex_env [7] 0 []) ex_mask (zip [2, 3] [(), ()])
        (init_sums (length (index_surfaces ex_env [7] 0 []) * eAlignmentParametersSize)))
     = Inr (Zero 6 6)
   \<and> \<not> is_inverse (Zero 6 6)
         (mscale (1 / 2) (alignmentCovariance (u_alignResult
            (updateAlignmentParameters ex_env [] [2, 3] [(), ()] [7] ex_accept
               default_AlignmentResult ex_mask))))"
proof -
  obtain a where acc: "accumulate_tracks ex_env [] (index_surfaces ex_env [7] 0 []) ex_mask
      (zip [2, 3] [(), ()])
      (init_sums (length (index_surfaces ex_env [7] 0 []) * eAlignmentParametersSize)) = Inr a"
    using accumulate_tracks_returns[OF ex_tracks_fit] by blast
  have "sumChi2SecondDerivative a = Zero 6 6"
    using accumulate_tracks_sums[OF acc] by (simp add: eAlignmentParametersSize_def emplace_def)
  moreover have "\<not> is_inverse (Zero 6 6) M" for M
    by (rule no_inverse_of_Zero) simp
  ultimately show ?thesis
    unfolding acc map_sum.simps by simp
qed


section \<open>The driver: what does not depend on the NaN test\<close>

lemma evaluate_hasNaN [simp]:
  "evaluateTrackAlignmentState (E\<lparr>hasNaN := h\<rparr>) g sl sp idx m =
     evaluateTrackAlignmentState E g sl sp idx m"
  by (simp add: evaluateTrackAlignmentState_def split: sum.splits)

lemma accumulate_tracks_hasNaN [simp]:
  "accumulate_tracks (E\<lparr>hasNaN := h\<rparr>) g idx m ts a = accumulate_tracks E g idx m ts a"
proof (induction ts arbitrary: a)
  case Nil
  then show ?case by simp
next
  case (Cons t ts)
  obtain sl sp where t: "t = (sl, sp)" by (cases t)
  from Cons show ?case by (simp add: t split: prod.splits sum.splits)
qed

lemma index_surfaces_hasNaN [simp]:
  "index_surfaces (E\<lparr>hasNaN := h\<rparr>) ds k mp = index_surfaces E ds k mp"
  by (induction ds arbitrary: k mp) simp_all

lemma new_transform_hasNaN [simp]:
  "new_transform (E\<lparr>hasNaN := h\<rparr>) g delta s i = new_transform E g delta s i"
  by (simp add: new_transform_def)

lemma update_transforms_hasNaN [simp]:
  "update_transforms (E\<lparr>hasNaN := h\<rparr>) upd dets delta g es = update_transforms E upd dets delta g es"
proof (induction es arbitrary: g)
  case Nil
  then show ?case by simp
next
  case (Cons c es)
  obtain s i where c: "c = (s, i)" by (cases c)
  from Cons show ?case by (simp add: c split: prod.splits)
qed

lemma unordered_walk_hasNaN [simp]:
  "unordered_walk (E\<lparr>hasNaN := h\<rparr>) mp = unordered_walk E mp"
  by (simp add: unordered_walk_def)

lemma solve_alignment_parameters_hasNaN [simp]:
  "fst (solve_alignment_parameters (E\<lparr>hasNaN := h\<rparr>) a res) =
     fst (solve_alignment_parameters E a res)"
  by (simp add: solve_alignment_parameters_def Let_def)

lemma updateAlignmentParameters_hasNaN:
  "u_return (updateAlignmentParameters (E\<lparr>hasNaN := h\<rparr>) g trajs params dets upd res m) =
     u_return (updateAlignmentParameters E g trajs params dets upd res m)"
  "u_alignResult (updateAlignmentParameters (E\<lparr>hasNaN := h\<rparr>) g trajs params dets upd res m) =
     u_alignResult (updateAlignmentParameters E g trajs params dets upd res m)"
  "u_geometry (updateAlignmentParameters (E\<lparr>hasNaN := h\<rparr>) g trajs params dets upd res m) =
     u_geometry (updateAlignmentParameters E g trajs params dets upd res m)"
  by (simp_all add: updateAlignmentParameters_def Let_def split_def split: sum.splits)

lemma ex_env_nan_walk [simp]:
  "iteration_rank ex_env_nan = iteration_rank ex_env"
  "unordered_walk ex_env_nan = unordered_walk ex_env"
  by (simp_all add: ex_env_nan_def unordered_walk_def fun_eq_iff)

lemma ex_index_two [simp]: "index_surfaces ex_env [7, 8] 0 [] = [(7, 0), (8, 1)]"
  by (simp add: emplace_def)

lemma ex_index_three [simp]:
  "index_surfaces ex_env [7, 8, 9] 0 [] = [(7, 0), (8, 1), (9, 2)]"
  by (simp add: emplace_def)

lemma ex_walk [simp]:
  "unordered_walk ex_env [(7, 0)] = [(7, 0)]"
  "unordered_walk ex_env [(7, 0), (8, 1)] = [(8, 1), (7, 0)]"
  "unordered_walk ex_env [(7, 0), (8, 1), (9, 2)] = [(9, 2), (8, 1), (7, 0)]"
  by (simp_all add: unordered_walk_def ex_env_def)

text \<open>
  C7. When Eigen reports a NaN in the inverse of the summed second derivative, the call
  logs the warning and does nothing else about it: its return value, the result and the
  geometry are those of the same call with the test answering no. The delta and the
  covariance are computed as always, and the loop that updates the transforms runs over
  the walk of the indexed surfaces, which holds every one of them once: the return value
  and the geometry of the call are those of that loop. When the updater accepts every
  transform, the call returns success and leaves the geometry in which the updater was
  called for every indexed surface with the new transform.
\<close>

theorem C7_nan_inverse_only_warns:
  assumes "length trajs = length params"
    and "accumulate_tracks E g (index_surfaces E dets 0 []) m (zip trajs params)
           (init_sums (length (index_surfaces E dets 0 []) * eAlignmentParametersSize)) = Inr a"
    and "hasNaN E (minverse E (sumChi2SecondDerivative a))"
  shows "(WARNING, ''Chi2 second derivative inverse has NaN'') \<in>
           set (u_log (updateAlignmentParameters E g trajs params dets upd res m))
       \<and> u_return (updateAlignmentParameters E g trajs params dets upd res m) =
           u_return (updateAlignmentParameters (E\<lparr>hasNaN := (\<lambda>M. False)\<rparr>) g trajs params dets upd res m)
       \<and> u_alignResult (updateAlignmentParameters E g trajs params dets upd res m) =
           u_alignResult (updateAlignmentParameters (E\<lparr>hasNaN := (\<lambda>M. False)\<rparr>) g trajs params dets upd res m)
       \<and> u_geometry (updateAlignmentParameters E g trajs params dets upd res m) =
           u_geometry (updateAlignmentParameters (E\<lparr>hasNaN := (\<lambda>M. False)\<rparr>) g trajs params dets upd res m)
       \<and> deltaAlignmentParameters (u_alignResult (updateAlignmentParameters E g trajs params dets upd res m)) =
           vneg (fullPivLu_solve E (sumChi2SecondDerivative a) (sumChi2Derivative a))
       \<and> alignmentCovariance (u_alignResult (updateAlignmentParameters E g trajs params dets upd res m)) =
           mscale 2 (minverse E (sumChi2SecondDerivative a))
       \<and> set (unordered_walk E (index_surfaces E dets 0 [])) = set (index_surfaces E dets 0 [])
       \<and> length (unordered_walk E (index_surfaces E dets 0 [])) = length (index_surfaces E dets 0 [])
       \<and> u_return (updateAlignmentParameters E g trajs params dets upd res m) =
           fst (update_transforms E upd dets
                  (deltaAlignmentParameters (u_alignResult (updateAlignmentParameters E g trajs params dets upd res m)))
                  g (unordered_walk E (index_surfaces E dets 0 [])))
       \<and> u_geometry (updateAlignmentParameters E g trajs params dets upd res m) =
           fst (snd (update_transforms E upd dets
                  (deltaAlignmentParameters (u_alignResult (updateAlignmentParameters E g trajs params dets upd res m)))
                  g (unordered_walk E (index_surfaces E dets 0 []))))
       \<and> ((\<forall>g' d t. fst (upd g' d t)) \<longrightarrow>
            u_return (updateAlignmentParameters E g trajs params dets upd res m) = Inr (Inr ())
            \<and> u_geometry (updateAlignmentParameters E g trajs params dets upd res m) =
                applied_updates E upd dets
                  (deltaAlignmentParameters (u_alignResult (updateAlignmentParameters E g trajs params dets upd res m)))
                  g (unordered_walk E (index_surfaces E dets 0 [])))"
proof -
  note f = updateAlignmentParameters_fields[OF assms(1,2)]
  have w: "(WARNING, ''Chi2 second derivative inverse has NaN'') \<in>
           set (u_log (updateAlignmentParameters E g trajs params dets upd res m))"
    unfolding f(10) using assms(3) by simp
  have ok: "u_return (updateAlignmentParameters E g trajs params dets upd res m) = Inr (Inr ())
            \<and> u_geometry (updateAlignmentParameters E g trajs params dets upd res m) =
                applied_updates E upd dets
                  (deltaAlignmentParameters (u_alignResult (updateAlignmentParameters E g trajs params dets upd res m)))
                  g (unordered_walk E (index_surfaces E dets 0 []))"
    if "\<forall>g' d t. fst (upd g' d t)"
  proof -
    have r: "fst (update_transforms E upd dets
                  (deltaAlignmentParameters (u_alignResult (updateAlignmentParameters E g trajs params dets upd res m)))
                  g (unordered_walk E (index_surfaces E dets 0 []))) = Inr (Inr ())"
      using update_transforms_accept[OF that unordered_walk_in_range] by blast
    from r update_transforms_applied[OF r] show ?thesis
      unfolding f(8) f(9) by simp
  qed
  have h: "u_return (updateAlignmentParameters E g trajs params dets upd res m) =
           u_return (updateAlignmentParameters (E\<lparr>hasNaN := (\<lambda>M. False)\<rparr>) g trajs params dets upd res m)"
    "u_alignResult (updateAlignmentParameters E g trajs params dets upd res m) =
           u_alignResult (updateAlignmentParameters (E\<lparr>hasNaN := (\<lambda>M. False)\<rparr>) g trajs params dets upd res m)"
    "u_geometry (updateAlignmentParameters E g trajs params dets upd res m) =
           u_geometry (updateAlignmentParameters (E\<lparr>hasNaN := (\<lambda>M. False)\<rparr>) g trajs params dets upd res m)"
    by (simp_all add: updateAlignmentParameters_hasNaN)
  have p: "set (unordered_walk E (index_surfaces E dets 0 [])) = set (index_surfaces E dets 0 [])"
    "length (unordered_walk E (index_surfaces E dets 0 [])) = length (index_surfaces E dets 0 [])"
    by simp_all
  from w ok h p f(5,6,8,9) show ?thesis
    by blast
qed

theorem C7_witness:
  "(WARNING, ''Chi2 second derivative inverse has NaN'') \<in>
     set (u_log (updateAlignmentParameters ex_env_nan [] [2, 3] [(), ()] [7, 8] ex_accept
                   default_AlignmentResult ex_mask))
   \<and> u_return (updateAlignmentParameters ex_env_nan [] [2, 3] [(), ()] [7, 8] ex_accept
                   default_AlignmentResult ex_mask) = Inr (Inr ())
   \<and> u_geometry (updateAlignmentParameters ex_env_nan [] [2, 3] [(), ()] [7, 8] ex_accept
                   default_AlignmentResult ex_mask) = [8, 7]"
proof -
  obtain a where acc: "accumulate_tracks ex_env_nan [] (index_surfaces ex_env_nan [7, 8] 0 []) ex_mask
      (zip [2, 3] [(), ()])
      (init_sums (length (index_surfaces ex_env_nan [7, 8] 0 []) * eAlignmentParametersSize)) = Inr a"
    using accumulate_tracks_returns[OF ex_tracks_fit_nan] by blast
  have len: "length [2::nat, 3] = length [(), ()]" by simp
  have nan: "hasNaN ex_env_nan (minverse ex_env_nan (sumChi2SecondDerivative a))" by simp
  have ac: "\<forall>g' d t. fst (ex_accept g' d t)" by (simp add: ex_accept_def)
  have ap: "applied_updates ex_env_nan ex_accept [7, 8] delta []
              (unordered_walk ex_env_nan (index_surfaces ex_env_nan [7, 8] 0 [])) = [8, 7]" for delta
    unfolding ex_env_nan_def index_surfaces_hasNaN unordered_walk_hasNaN ex_index_two ex_walk
    by (simp add: applied_updates_def ex_accept_def)
  from C7_nan_inverse_only_warns[OF len acc nan, of ex_accept default_AlignmentResult] ac
  show ?thesis unfolding ap by blast
qed


section \<open>The driver: the convergence tests\<close>

lemma dadd_NaN_right [simp]: "dadd x NaN = NaN"
  by (cases x) simp_all

lemma dsub_NaN_right [simp]: "dsub x NaN = NaN"
  by (simp add: dsub_def)

lemma check_convergence_NaN:
  assumes "0 < fst d"
  shows "\<exists>q'. check_convergence NaN c d q = Inr (Continue q')"
  using assms by (cases q) (simp_all add: check_convergence_def)

lemma check_convergence_queue:
  assumes "check_convergence avg c (w, tol) q = Inr (Continue q')"
  shows "q' = (if length q < w then q else tl q) @ [avg]"
    and "length q \<le> w \<Longrightarrow> length q' \<le> w"
proof -
  show q': "q' = (if length q < w then q else tl q) @ [avg]"
    using assms by (cases q) (auto simp: check_convergence_def split: if_splits)
  assume "length q \<le> w"
  with assms show "length q' \<le> w"
    unfolding q' by (cases q) (auto simp: check_convergence_def split: if_splits)
qed

lemma check_convergence_full:
  assumes "w \<le> length q" and "q = front # rest" and "\<not> dle avg c"
  shows "check_convergence avg c (w, tol) q =
           (if dle (dabs (dsub front avg)) tol then Inr Converged
            else Inr (Continue (rest @ [avg])))"
  using assms by (simp add: check_convergence_def)

section \<open>The driver: the iterations\<close>

lemma updateAlignmentParameters_result_field [simp]:
  "result (u_alignResult (updateAlignmentParameters E g trajs params dets upd res m)) = result res"
  by (simp add: updateAlignmentParameters_def solve_alignment_parameters_def Let_def split_def
      split: sum.splits)

text \<open>One iteration, by what the update and the convergence tests return.\<close>

lemma align_loop_step:
  fixes E trajs params opts s i
  defines "out \<equiv> updateAlignmentParameters E (l_geometry s) trajs params
                    (alignedDetElements opts) (alignedTransformUpdater opts) (l_alignRes s)
                    (alignment_mask opts i)"
  defines "s1 \<equiv> s\<lparr>l_alignRes := u_alignResult out, l_geometry := u_geometry out,
                    l_log := l_log s @ u_log out\<rparr>"
  shows "u_return out = Inl x \<Longrightarrow> align_loop E trajs params opts (i # its) s = (Inl x, s1)"
    and "u_return out = Inr (Inl e) \<Longrightarrow>
           align_loop E trajs params opts (i # its) s =
             (Inr (Inl e), s1\<lparr>l_log := l_log s1 @ [(ERROR, ''Update alignment parameters failed'')]\<rparr>)"
    and "u_return out = Inr (Inr ()) \<Longrightarrow>
           check_convergence (averageChi2ONdf (u_alignResult out)) (averageChi2ONdfCutOff opts)
             (deltaAverageChi2ONdfCutOff opts) (l_recentChi2ONdf s) = Inl x \<Longrightarrow>
           align_loop E trajs params opts (i # its) s = (Inl x, s1)"
    and "u_return out = Inr (Inr ()) \<Longrightarrow>
           check_convergence (averageChi2ONdf (u_alignResult out)) (averageChi2ONdfCutOff opts)
             (deltaAverageChi2ONdfCutOff opts) (l_recentChi2ONdf s) = Inr Converged \<Longrightarrow>
           align_loop E trajs params opts (i # its) s = (Inr (Inr True), s1)"
    and "u_return out = Inr (Inr ()) \<Longrightarrow>
           check_convergence (averageChi2ONdf (u_alignResult out)) (averageChi2ONdfCutOff opts)
             (deltaAverageChi2ONdfCutOff opts) (l_recentChi2ONdf s) = Inr (Continue q) \<Longrightarrow>
           align_loop E trajs params opts (i # its) s =
             align_loop E trajs params opts its (s1\<lparr>l_recentChi2ONdf := q\<rparr>)"
  by (simp_all add: out_def s1_def Let_def)

text \<open>The cases of one iteration.\<close>

lemma align_loop_cases:
  fixes E trajs params opts s i its
  defines "out \<equiv> updateAlignmentParameters E (l_geometry s) trajs params
                    (alignedDetElements opts) (alignedTransformUpdater opts) (l_alignRes s)
                    (alignment_mask opts i)"
  defines "s1 \<equiv> s\<lparr>l_alignRes := u_alignResult out, l_geometry := u_geometry out,
                    l_log := l_log s @ u_log out\<rparr>"
  shows "(\<exists>x. align_loop E trajs params opts (i # its) s = (Inl x, s1))
       \<or> (\<exists>e. align_loop E trajs params opts (i # its) s =
                 (Inr (Inl e), s1\<lparr>l_log := l_log s1 @ [(ERROR, ''Update alignment parameters failed'')]\<rparr>))
       \<or> align_loop E trajs params opts (i # its) s = (Inr (Inr True), s1)
       \<or> (\<exists>q. u_return out = Inr (Inr ()) \<and>
               check_convergence (averageChi2ONdf (u_alignResult out)) (averageChi2ONdfCutOff opts)
                 (deltaAverageChi2ONdfCutOff opts) (l_recentChi2ONdf s) = Inr (Continue q) \<and>
               align_loop E trajs params opts (i # its) s =
                 align_loop E trajs params opts its (s1\<lparr>l_recentChi2ONdf := q\<rparr>))"
  by (auto simp: out_def s1_def Let_def split: sum.splits convergence.splits)

lemma align_loop_result_field:
  "result (l_alignRes (snd (align_loop E trajs params opts its s))) = result (l_alignRes s)"
proof (induction its arbitrary: s)
  case Nil
  then show ?case by simp
next
  case (Cons i its)
  from align_loop_cases[of E trajs params opts "i" its s] Cons.IH show ?case
    by (elim disjE exE conjE) simp_all
qed

lemma align_loop_queue_bound:
  "length (l_recentChi2ONdf s) \<le> fst (deltaAverageChi2ONdfCutOff opts) \<Longrightarrow>
     length (l_recentChi2ONdf (snd (align_loop E trajs params opts its s))) \<le>
       fst (deltaAverageChi2ONdfCutOff opts)"
proof (induction its arbitrary: s)
  case Nil
  then show ?case by simp
next
  case (Cons i its)
  from align_loop_cases[of E trajs params opts "i" its s]
  show ?case
  proof (elim disjE exE conjE)
    fix q
    let ?out = "updateAlignmentParameters E (l_geometry s) trajs params
                    (alignedDetElements opts) (alignedTransformUpdater opts) (l_alignRes s)
                    (alignment_mask opts i)"
    assume c: "check_convergence (averageChi2ONdf (u_alignResult ?out)) (averageChi2ONdfCutOff opts)
                 (deltaAverageChi2ONdfCutOff opts) (l_recentChi2ONdf s) = Inr (Continue q)"
      and st: "align_loop E trajs params opts (i # its) s =
                 align_loop E trajs params opts its
                   (s\<lparr>l_alignRes := u_alignResult ?out, l_geometry := u_geometry ?out,
                      l_log := l_log s @ u_log ?out, l_recentChi2ONdf := q\<rparr>)"
    from c have "length q \<le> fst (deltaAverageChi2ONdfCutOff opts)"
      using check_convergence_queue(2)[of _ _ "fst (deltaAverageChi2ONdfCutOff opts)"
          "snd (deltaAverageChi2ONdfCutOff opts)" "l_recentChi2ONdf s" q] Cons.prems
      by simp
    with Cons.IH[of "s\<lparr>l_alignRes := u_alignResult ?out, l_geometry := u_geometry ?out,
                      l_log := l_log s @ u_log ?out, l_recentChi2ONdf := q\<rparr>"] st
    show ?thesis by simp
  qed (use Cons.prems in simp_all)
qed

text \<open>Iterations that pass without convergence can be run one part after the other.\<close>

lemma align_loop_append:
  "align_loop E trajs params opts xs s = (Inr (Inr False), s') \<Longrightarrow>
     align_loop E trajs params opts (xs @ ys) s = align_loop E trajs params opts ys s'"
proof (induction xs arbitrary: s)
  case Nil
  then show ?case by simp
next
  case (Cons i xs)
  from align_loop_cases[of E trajs params opts "i" xs s] Cons.prems
  obtain q where
    r: "u_return (updateAlignmentParameters E (l_geometry s) trajs params
                    (alignedDetElements opts) (alignedTransformUpdater opts) (l_alignRes s)
                    (alignment_mask opts i)) = Inr (Inr ())"
    and c: "check_convergence (averageChi2ONdf (u_alignResult (updateAlignmentParameters E (l_geometry s) trajs params
                    (alignedDetElements opts) (alignedTransformUpdater opts) (l_alignRes s)
                    (alignment_mask opts i)))) (averageChi2ONdfCutOff opts)
                 (deltaAverageChi2ONdfCutOff opts) (l_recentChi2ONdf s) = Inr (Continue q)"
    and st: "align_loop E trajs params opts (i # xs) s =
                 align_loop E trajs params opts xs
                   (s\<lparr>l_alignRes := u_alignResult (updateAlignmentParameters E (l_geometry s) trajs params
                    (alignedDetElements opts) (alignedTransformUpdater opts) (l_alignRes s)
                    (alignment_mask opts i)), l_geometry := u_geometry (updateAlignmentParameters E (l_geometry s) trajs params
                    (alignedDetElements opts) (alignedTransformUpdater opts) (l_alignRes s)
                    (alignment_mask opts i)),
                      l_log := l_log s @ u_log (updateAlignmentParameters E (l_geometry s) trajs params
                    (alignedDetElements opts) (alignedTransformUpdater opts) (l_alignRes s)
                    (alignment_mask opts i)), l_recentChi2ONdf := q\<rparr>)"
    by (elim disjE exE conjE) simp_all
  from Cons.prems st have "align_loop E trajs params opts xs
                   (s\<lparr>l_alignRes := u_alignResult (updateAlignmentParameters E (l_geometry s) trajs params
                    (alignedDetElements opts) (alignedTransformUpdater opts) (l_alignRes s)
                    (alignment_mask opts i)), l_geometry := u_geometry (updateAlignmentParameters E (l_geometry s) trajs params
                    (alignedDetElements opts) (alignedTransformUpdater opts) (l_alignRes s)
                    (alignment_mask opts i)),
                      l_log := l_log s @ u_log (updateAlignmentParameters E (l_geometry s) trajs params
                    (alignedDetElements opts) (alignedTransformUpdater opts) (l_alignRes s)
                    (alignment_mask opts i)), l_recentChi2ONdf := q\<rparr>) = (Inr (Inr False), s')"
    by simp
  from Cons.IH[OF this] align_loop_step(5)[OF r c, of "xs @ ys"] show ?case
    by simp
qed

lemma upt_split: "k < n \<Longrightarrow> [0..<n] = [0..<k] @ k # [Suc k..<n]"
  by (metis less_imp_le_nat upt_add_eq_append upt_conv_Cons le0 add_0 le_add_diff_inverse)

text \<open>What \<open>align\<close> returns, by what the loop returns.\<close>

lemma foldl_alignedParameters_keeps:
  "averageChi2ONdf (foldl (\<lambda>r det. r\<lparr>alignedParameters := f det r\<rparr>) r0 ds) = averageChi2ONdf r0"
  "result (foldl (\<lambda>r det. r\<lparr>alignedParameters := f det r\<rparr>) r0 ds) = result r0"
  by (induction ds arbitrary: r0) simp_all

lemma align_of_loop:
  "align_loop E trajs params opts [0..<maxIterations opts] (loop_init g) = (Inl x, s) \<Longrightarrow>
     al_return (align E g trajs params opts) = Inl x \<and> al_geometry (align E g trajs params opts) = l_geometry s"
  "align_loop E trajs params opts [0..<maxIterations opts] (loop_init g) = (Inr (Inl e), s) \<Longrightarrow>
     al_return (align E g trajs params opts) = Inr (Inl e) \<and>
     al_geometry (align E g trajs params opts) = l_geometry s"
  "align_loop E trajs params opts [0..<maxIterations opts] (loop_init g) = (Inr (Inr conv), s) \<Longrightarrow>
     \<exists>R. al_return (align E g trajs params opts) = Inr (Inr R) \<and>
         averageChi2ONdf R = averageChi2ONdf (l_alignRes s) \<and>
         result R = (if conv then None else Some ConvergeFailure) \<and>
         al_geometry (align E g trajs params opts) = l_geometry s"
proof -
  show "align_loop E trajs params opts [0..<maxIterations opts] (loop_init g) = (Inl x, s) \<Longrightarrow>
     al_return (align E g trajs params opts) = Inl x \<and> al_geometry (align E g trajs params opts) = l_geometry s"
    by (simp add: align_def)
  show "align_loop E trajs params opts [0..<maxIterations opts] (loop_init g) = (Inr (Inl e), s) \<Longrightarrow>
     al_return (align E g trajs params opts) = Inr (Inl e) \<and>
     al_geometry (align E g trajs params opts) = l_geometry s"
    by (simp add: align_def)
  assume l: "align_loop E trajs params opts [0..<maxIterations opts] (loop_init g) = (Inr (Inr conv), s)"
  have "result (l_alignRes s) = None"
    using align_loop_result_field[of E trajs params opts "[0..<maxIterations opts]" "loop_init g"]
    unfolding l by (simp add: loop_init_def default_AlignmentResult_def)
  with l show "\<exists>R. al_return (align E g trajs params opts) = Inr (Inr R) \<and>
         averageChi2ONdf R = averageChi2ONdf (l_alignRes s) \<and>
         result R = (if conv then None else Some ConvergeFailure) \<and>
         al_geometry (align E g trajs params opts) = l_geometry s"
    by (simp add: align_def Let_def foldl_alignedParameters_keeps)
qed


section \<open>Claims about the run\<close>

lemma update_empty:
  "numTracks (u_alignResult (updateAlignmentParameters E g [] [] dets upd res m)) = 0"
  "averageChi2ONdf (u_alignResult (updateAlignmentParameters E g [] [] dets upd res m)) = NaN"
  "\<exists>r. u_return (updateAlignmentParameters E g [] [] dets upd res m) = Inr r"
  "\<forall>g' d t. fst (upd g' d t) \<Longrightarrow>
     u_return (updateAlignmentParameters E g [] [] dets upd res m) = Inr (Inr ())"
proof -
  have len: "length ([] :: 's list) = length ([] :: 'p list)" by simp
  have acc: "accumulate_tracks E g (index_surfaces E dets 0 []) m (zip [] [])
      (init_sums (length (index_surfaces E dets 0 []) * eAlignmentParametersSize)) =
      Inr (init_sums (length (index_surfaces E dets 0 []) * eAlignmentParametersSize))"
    by simp
  note f = updateAlignmentParameters_fields[OF len acc]
  from f(3) show "numTracks (u_alignResult (updateAlignmentParameters E g [] [] dets upd res m)) = 0"
    by simp
  from f(4) show "averageChi2ONdf (u_alignResult (updateAlignmentParameters E g [] [] dets upd res m)) = NaN"
    by (simp add: track_contributions_def dsum_def)
  show "\<exists>r. u_return (updateAlignmentParameters E g [] [] dets upd res m) = Inr r"
    unfolding f(8) by (rule update_transforms_no_exception[OF unordered_walk_in_range])
  assume "\<forall>g' d t. fst (upd g' d t)"
  from update_transforms_accept[OF this unordered_walk_in_range]
  show "u_return (updateAlignmentParameters E g [] [] dets upd res m) = Inr (Inr ())"
    unfolding f(8) by blast
qed

lemma align_loop_empty_tracks:
  assumes "\<forall>g' d t. fst (alignedTransformUpdater opts g' d t)"
    and "0 < fst (deltaAverageChi2ONdfCutOff opts)"
  shows "\<exists>s'. align_loop E [] [] opts its s = (Inr (Inr False), s') \<and>
           averageChi2ONdf (l_alignRes s') =
             (if its = [] then averageChi2ONdf (l_alignRes s) else NaN)"
proof (induction its arbitrary: s)
  case Nil
  then show ?case by simp
next
  case (Cons i its)
  let ?out = "updateAlignmentParameters E (l_geometry s) [] [] (alignedDetElements opts)
                (alignedTransformUpdater opts) (l_alignRes s) (alignment_mask opts i)"
  have r: "u_return ?out = Inr (Inr ())"
    by (rule update_empty(4)[OF assms(1)])
  have a: "averageChi2ONdf (u_alignResult ?out) = NaN"
    by (rule update_empty(2))
  obtain q where c: "check_convergence (averageChi2ONdf (u_alignResult ?out))
      (averageChi2ONdfCutOff opts) (deltaAverageChi2ONdfCutOff opts) (l_recentChi2ONdf s) =
      Inr (Continue q)"
    unfolding a using check_convergence_NaN[OF assms(2)] by blast
  from Cons.IH[of "s\<lparr>l_alignRes := u_alignResult ?out, l_geometry := u_geometry ?out,
                      l_log := l_log s @ u_log ?out, l_recentChi2ONdf := q\<rparr>"]
  show ?case
    unfolding align_loop_step(5)[OF r c] by (auto simp: a)
qed

text \<open>
  C10. For an empty collection of trajectories \<open>updateAlignmentParameters\<close> sets
  \<open>numTracks\<close> to zero and divides the zero sum by it: the call returns a value (there is no
  guard) and \<open>averageChi2ONdf\<close> is the NaN of \<open>0 / 0\<close>. Through \<open>align\<close>: when the updater
  accepts every transform, at least one iteration is allowed and the window is not empty,
  neither convergence test holds for NaN and the run ends with \<open>ConvergeFailure\<close> and the
  average NaN.
\<close>

theorem C10_empty_collection_divides_zero_by_zero:
  "numTracks (u_alignResult (updateAlignmentParameters E g [] [] dets upd res m)) = 0
   \<and> averageChi2ONdf (u_alignResult (updateAlignmentParameters E g [] [] dets upd res m)) =
       ddiv_count (Fin 0) 0
   \<and> ddiv_count (Fin 0) 0 = NaN
   \<and> (\<exists>r. u_return (updateAlignmentParameters E g [] [] dets upd res m) = Inr r)
   \<and> ((\<forall>g' d t. fst (alignedTransformUpdater opts g' d t)) \<and> 0 < maxIterations opts \<and>
       0 < fst (deltaAverageChi2ONdfCutOff opts) \<longrightarrow>
       (\<exists>R. al_return (align E g [] [] opts) = Inr (Inr R) \<and> averageChi2ONdf R = NaN \<and>
            result R = Some ConvergeFailure))"
proof -
  have "\<exists>R. al_return (align E g [] [] opts) = Inr (Inr R) \<and> averageChi2ONdf R = NaN \<and>
            result R = Some ConvergeFailure"
    if u: "\<forall>g' d t. fst (alignedTransformUpdater opts g' d t)" and mx: "0 < maxIterations opts"
      and w: "0 < fst (deltaAverageChi2ONdfCutOff opts)"
  proof -
    from align_loop_empty_tracks[OF u w, of E "[0..<maxIterations opts]" "loop_init g"] mx
    obtain s' where l: "align_loop E [] [] opts [0..<maxIterations opts] (loop_init g) =
        (Inr (Inr False), s')" and a: "averageChi2ONdf (l_alignRes s') = NaN"
      by auto
    from align_of_loop(3)[OF l] a show ?thesis by auto
  qed
  with update_empty(1,2,3)[of E g dets upd res m] show ?thesis
    by simp
qed

theorem C10_witness:
  "(\<forall>g' d t. fst (alignedTransformUpdater (ex_options ex_accept [7]) g' d t))
   \<and> 0 < maxIterations (ex_options ex_accept [7])
   \<and> 0 < fst (deltaAverageChi2ONdfCutOff (ex_options ex_accept [7]))
   \<and> (\<exists>R. al_return (align ex_env [] [] [] (ex_options ex_accept [7])) = Inr (Inr R) \<and>
          averageChi2ONdf R = NaN \<and> result R = Some ConvergeFailure)"
proof -
  have h: "(\<forall>g' d t. fst (alignedTransformUpdater (ex_options ex_accept [7]) g' d t))
      \<and> 0 < maxIterations (ex_options ex_accept [7])
      \<and> 0 < fst (deltaAverageChi2ONdfCutOff (ex_options ex_accept [7]))"
    by (simp add: ex_options_def ex_accept_def)
  with C10_empty_collection_divides_zero_by_zero[of ex_env "[]" "[7]" ex_accept
      default_AlignmentResult ex_mask "ex_options ex_accept [7]"]
  show ?thesis by blast
qed

text \<open>
  C4. In any iteration: when the walk of the indexed surfaces comes to an element whose
  transform the updater refuses, after elements whose transforms it accepted, the loop
  over the walk returns \<open>AlignmentParametersUpdateFailure\<close> with the geometry as the
  refused call left it. That is the geometry in which the updater was called for the
  elements of the walk up to the refused one and for no later one, and the loop returns
  the same as if the walk ended with the refused element. \<open>updateAlignmentParameters\<close>
  returns that error, and \<open>align\<close> returns it as the error of the run, whatever iterations
  were left.
\<close>

theorem C4_refused_update_aborts:
  fixes E :: "('g, 's, 'p) env" and opts trajs params g k s r pre sf i post g1 l1 g2
  defines "out \<equiv> updateAlignmentParameters E (l_geometry s) trajs params
                    (alignedDetElements opts) (alignedTransformUpdater opts) (l_alignRes s)
                    (alignment_mask opts k)"
  defines "delta \<equiv> deltaAlignmentParameters (u_alignResult out)"
  assumes reach: "align_loop E trajs params opts [0..<k] (loop_init g) = (Inr (Inr False), s)"
    and k: "k < maxIterations opts"
    and ret: "u_return out = Inr r"
    and split: "unordered_walk E (index_surfaces E (alignedDetElements opts) 0 []) =
                  pre @ (sf, i) # post"
    and pre: "update_transforms E (alignedTransformUpdater opts) (alignedDetElements opts) delta
                (l_geometry s) pre = (Inr (Inr ()), g1, l1)"
    and refuse: "alignedTransformUpdater opts g1 (alignedDetElements opts ! i)
                   (new_transform E g1 delta sf i) = (False, g2)"
  shows "update_transforms E (alignedTransformUpdater opts) (alignedDetElements opts) delta
           (l_geometry s) (pre @ (sf, i) # post) =
           (Inr (Inl AlignmentParametersUpdateFailure), g2,
            [(ERROR, ''Update alignment parameters for detector element failed'')])
       \<and> update_transforms E (alignedTransformUpdater opts) (alignedDetElements opts) delta
           (l_geometry s) (pre @ (sf, i) # post) =
         update_transforms E (alignedTransformUpdater opts) (alignedDetElements opts) delta
           (l_geometry s) (pre @ [(sf, i)])
       \<and> g2 = applied_updates E (alignedTransformUpdater opts) (alignedDetElements opts) delta
                (l_geometry s) (pre @ [(sf, i)])
       \<and> u_return out = Inr (Inl AlignmentParametersUpdateFailure)
       \<and> u_geometry out = g2
       \<and> al_return (align E g trajs params opts) = Inr (Inl AlignmentParametersUpdateFailure)
       \<and> al_geometry (align E g trajs params opts) = g2"
proof -
  let ?upd = "alignedTransformUpdater opts" and ?dets = "alignedDetElements opts"
  have "\<forall>c \<in> set (pre @ (sf, i) # post). snd c < length ?dets"
    using unordered_walk_in_range[of E ?dets] unfolding split .
  then have i: "i < length ?dets" by simp
  have one: "update_transforms E ?upd ?dets delta g1 ((sf, i) # ys) =
           (Inr (Inl AlignmentParametersUpdateFailure), g2,
            [(ERROR, ''Update alignment parameters for detector element failed'')])" for ys
    using i refuse by (simp add: Let_def)
  have all: "update_transforms E ?upd ?dets delta (l_geometry s) (pre @ (sf, i) # ys) =
           (Inr (Inl AlignmentParametersUpdateFailure), g2,
            [(ERROR, ''Update alignment parameters for detector element failed'')])" for ys
    unfolding update_transforms_append pre using one by simp
  have "applied_updates E ?upd ?dets delta (l_geometry s) pre = g1"
    using update_transforms_applied[of E ?upd ?dets delta "l_geometry s" pre] unfolding pre
    by simp
  then have ap: "g2 = applied_updates E ?upd ?dets delta (l_geometry s) (pre @ [(sf, i)])"
    unfolding applied_updates_append using refuse by (simp add: applied_updates_def)
  from ret obtain a where len: "length trajs = length params"
    and acc: "accumulate_tracks E (l_geometry s) (index_surfaces E ?dets 0 []) (alignment_mask opts k)
            (zip trajs params)
            (init_sums (length (index_surfaces E ?dets 0 []) * eAlignmentParametersSize)) = Inr a"
    unfolding out_def
    using updateAlignmentParameters_returns_iff[of E "l_geometry s" trajs params ?dets ?upd
        "l_alignRes s" "alignment_mask opts k"] by blast
  note f = updateAlignmentParameters_fields(8,9)[OF len acc, of ?upd "l_alignRes s",
      folded out_def, folded delta_def]
  from f all[of post] have uo: "u_return out = Inr (Inl AlignmentParametersUpdateFailure)"
    and ug: "u_geometry out = g2"
    unfolding split by simp_all
  have st: "align_loop E trajs params opts (k # [Suc k..<maxIterations opts]) s =
      (Inr (Inl AlignmentParametersUpdateFailure),
       s\<lparr>l_alignRes := u_alignResult out, l_geometry := u_geometry out,
         l_log := l_log s @ u_log out @ [(ERROR, ''Update alignment parameters failed'')]\<rparr>)"
    using align_loop_step(2)[of E s trajs params opts k AlignmentParametersUpdateFailure
        "[Suc k..<maxIterations opts]"] uo
    unfolding out_def by simp
  have "align_loop E trajs params opts [0..<maxIterations opts] (loop_init g) =
      (Inr (Inl AlignmentParametersUpdateFailure),
       s\<lparr>l_alignRes := u_alignResult out, l_geometry := u_geometry out,
         l_log := l_log s @ u_log out @ [(ERROR, ''Update alignment parameters failed'')]\<rparr>)"
    unfolding upt_split[OF k] align_loop_append[OF reach] st ..
  from align_of_loop(2)[OF this] ug uo all[of post] all[of "[]"] ap show ?thesis
    by simp
qed

text \<open>
  Three elements 7, 8 and 9 with an updater that refuses element 8: the walk of the
  example starts with the element inserted last, the updater is called for 9 and for 8,
  and never for 7.
\<close>

theorem C4_witness:
  "al_return (align ex_env [] [2, 3] [(), ()] (ex_options ex_refuse_8 [7, 8, 9])) =
     Inr (Inl AlignmentParametersUpdateFailure)
   \<and> al_geometry (align ex_env [] [2, 3] [(), ()] (ex_options ex_refuse_8 [7, 8, 9])) = [9, 8]
   \<and> unordered_walk ex_env (index_surfaces ex_env [7, 8, 9] 0 []) = [(9, 2), (8, 1), (7, 0)]"
proof -
  let ?opts = "ex_options ex_refuse_8 [7, 8, 9]"
  have reach: "align_loop ex_env [2, 3] [(), ()] ?opts [0..<0] (loop_init ([] :: det_element list)) =
      (Inr (Inr False), loop_init [])"
    by simp
  have k: "0 < maxIterations ?opts"
    by (simp add: ex_options_def)
  have "\<exists>r. u_return (updateAlignmentParameters ex_env (l_geometry (loop_init ([] :: det_element list))) [2, 3] [(), ()]
         (alignedDetElements ?opts) (alignedTransformUpdater ?opts) (l_alignRes (loop_init ([] :: det_element list)))
         (alignment_mask ?opts 0)) = Inr r"
    unfolding updateAlignmentParameters_returns_iff
  proof (rule conjI)
    show "length [2::nat, 3] = length [(), ()]" by simp
  qed (rule accumulate_tracks_returns[OF ex_tracks_fit])
  then obtain r where ret: "u_return (updateAlignmentParameters ex_env (l_geometry (loop_init ([] :: det_element list)))
         [2, 3] [(), ()] (alignedDetElements ?opts) (alignedTransformUpdater ?opts)
         (l_alignRes (loop_init ([] :: det_element list))) (alignment_mask ?opts 0)) = Inr r" ..
  have o: "alignedDetElements ?opts = [7, 8, 9]" "alignedTransformUpdater ?opts = ex_refuse_8"
    by (simp_all add: ex_options_def)
  have w: "unordered_walk ex_env (index_surfaces ex_env [7, 8, 9] 0 []) = [(9, 2), (8, 1), (7, 0)]"
    unfolding ex_index_three ex_walk ..
  have split: "unordered_walk ex_env (index_surfaces ex_env (alignedDetElements ?opts) 0 []) =
      [(9, 2)] @ (8, 1) # [(7, 0)]"
    unfolding o w by simp
  have pre: "update_transforms ex_env (alignedTransformUpdater ?opts) (alignedDetElements ?opts)
      delta (l_geometry (loop_init ([] :: det_element list))) [(9, 2)] = (Inr (Inr ()), [9], [])" for delta
    unfolding o by (simp add: loop_init_def ex_refuse_8_def)
  have refuse: "alignedTransformUpdater ?opts [9] (alignedDetElements ?opts ! 1) t = (False, [9, 8])" for t
    unfolding o by (simp add: ex_refuse_8_def)
  from C4_refused_update_aborts[OF reach k ret split pre refuse] w show ?thesis
    by blast
qed

lemma ex_update:
  "u_return (updateAlignmentParameters ex_env g [2, 3] [(), ()] [7] ex_accept res m) = Inr (Inr ())"
  "averageChi2ONdf (u_alignResult
     (updateAlignmentParameters ex_env g [2, 3] [(), ()] [7] ex_accept res m)) = Fin (13 / 2)"
  "u_geometry (updateAlignmentParameters ex_env g [2, 3] [(), ()] [7] ex_accept res m) = g @ [7]"
proof -
  obtain a where acc: "accumulate_tracks ex_env g (index_surfaces ex_env [7] 0 []) m
      (zip [2, 3] [(), ()])
      (init_sums (length (index_surfaces ex_env [7] 0 []) * eAlignmentParametersSize)) = Inr a"
    using accumulate_tracks_returns[OF ex_tracks_fit] by blast
  have len: "length [2::nat, 3] = length [(), ()]" by simp
  have c: "track_contributions ex_env g (index_surfaces ex_env [7] 0 []) m (zip [2, 3] [(), ()])
     = [Fin 4, Fin 9]"
    unfolding ex_index by (simp add: ex_contributions)
  note f = updateAlignmentParameters_fields(4,8,9)[OF len acc]
  have ac: "\<forall>g' d t. fst (ex_accept g' d t)" by (simp add: ex_accept_def)
  from update_transforms_accept[OF ac unordered_walk_in_range]
  show "u_return (updateAlignmentParameters ex_env g [2, 3] [(), ()] [7] ex_accept res m) = Inr (Inr ())"
    unfolding f(2) by blast
  show "averageChi2ONdf (u_alignResult
     (updateAlignmentParameters ex_env g [2, 3] [(), ()] [7] ex_accept res m)) = Fin (13 / 2)"
    unfolding f(1) c by (simp add: dsum_def)
  show "u_geometry (updateAlignmentParameters ex_env g [2, 3] [(), ()] [7] ex_accept res m) = g @ [7]"
    unfolding f(3) ex_index ex_walk by (simp add: ex_accept_def)
qed

text \<open>While the queue is shorter than the window, the value is appended and nothing is compared.\<close>

lemma check_convergence_fill:
  "\<not> dle avg c \<Longrightarrow> length q < w \<Longrightarrow>
     check_convergence avg c (w, tol) q = Inr (Continue (q @ [avg]))"
  by (simp add: check_convergence_def)

lemma check_convergence_length:
  assumes "check_convergence avg c (w, tol) q = Inr (Continue q')" and "length q \<le> w"
  shows "length q' = min w (Suc (length q))"
  using assms by (cases q) (auto simp: check_convergence_def split: if_splits)

text \<open>After iterations that passed without convergence the queue holds one value for each, up to the window size.\<close>

lemma align_loop_queue_length:
  "align_loop E trajs params opts its s = (Inr (Inr False), s') \<Longrightarrow>
   length (l_recentChi2ONdf s) \<le> fst (deltaAverageChi2ONdfCutOff opts) \<Longrightarrow>
     length (l_recentChi2ONdf s') =
       min (fst (deltaAverageChi2ONdfCutOff opts)) (length (l_recentChi2ONdf s) + length its)"
proof (induction its arbitrary: s)
  case Nil
  then show ?case by simp
next
  case (Cons i its)
  let ?out = "updateAlignmentParameters E (l_geometry s) trajs params
                (alignedDetElements opts) (alignedTransformUpdater opts) (l_alignRes s)
                (alignment_mask opts i)"
  from align_loop_cases[of E trajs params opts "i" its s] Cons.prems(1)
  obtain q where
    c: "check_convergence (averageChi2ONdf (u_alignResult ?out)) (averageChi2ONdfCutOff opts)
          (deltaAverageChi2ONdfCutOff opts) (l_recentChi2ONdf s) = Inr (Continue q)"
    and st: "align_loop E trajs params opts (i # its) s =
               align_loop E trajs params opts its
                 (s\<lparr>l_alignRes := u_alignResult ?out, l_geometry := u_geometry ?out,
                    l_log := l_log s @ u_log ?out, l_recentChi2ONdf := q\<rparr>)"
    by (elim disjE exE conjE) simp_all
  have q: "length q = min (fst (deltaAverageChi2ONdfCutOff opts)) (Suc (length (l_recentChi2ONdf s)))"
    using check_convergence_length[of _ _ "fst (deltaAverageChi2ONdfCutOff opts)"
        "snd (deltaAverageChi2ONdfCutOff opts)" "l_recentChi2ONdf s" q] c Cons.prems(2)
    by simp
  from Cons.prems(1) st
  have "align_loop E trajs params opts its
          (s\<lparr>l_alignRes := u_alignResult ?out, l_geometry := u_geometry ?out,
             l_log := l_log s @ u_log ?out, l_recentChi2ONdf := q\<rparr>) = (Inr (Inr False), s')"
    by simp
  from Cons.IH[OF this] q show ?case by simp
qed

text \<open>One more iteration that passes without convergence.\<close>

lemma align_loop_one_more:
  fixes E :: "('g, 's, 'p) env" and opts trajs params k s s0 q
  defines "out \<equiv> updateAlignmentParameters E (l_geometry s) trajs params
                    (alignedDetElements opts) (alignedTransformUpdater opts) (l_alignRes s)
                    (alignment_mask opts k)"
  assumes reach: "align_loop E trajs params opts [0..<k] s0 = (Inr (Inr False), s)"
    and r: "u_return out = Inr (Inr ())"
    and c: "check_convergence (averageChi2ONdf (u_alignResult out)) (averageChi2ONdfCutOff opts)
              (deltaAverageChi2ONdfCutOff opts) (l_recentChi2ONdf s) = Inr (Continue q)"
  shows "align_loop E trajs params opts [0..<Suc k] s0 =
           (Inr (Inr False),
            s\<lparr>l_alignRes := u_alignResult out, l_geometry := u_geometry out,
              l_log := l_log s @ u_log out, l_recentChi2ONdf := q\<rparr>)"
proof -
  have e: "[0..<Suc k] = [0..<k] @ [k]" by simp
  show ?thesis
    unfolding e align_loop_append[OF reach]
      align_loop_step(5)[OF r[unfolded out_def] c[unfolded out_def]]
    unfolding out_def by simp
qed

text \<open>
  C5. The two tests of an iteration whose average is above the absolute cut-off: while
  the queue of recent values is shorter than the window, nothing is compared and the value
  is appended; when the queue is full, the run has converged exactly if the oldest value
  and the current one differ by at most the tolerance, and otherwise the oldest value is
  dropped before the new one is appended. So the queue never holds more values than the
  window size, and after \<open>k\<close> iterations without convergence it holds \<open>k\<close> values or, from
  then on, as many as the window size. Through \<open>align\<close>, in an iteration whose update
  succeeds with an average above the absolute cut-off: while the window is not full, the
  run goes on with the value appended; when the window is full and its oldest value is
  not within the tolerance of the current average, the run goes on with the oldest value
  dropped and the current one appended; when the window is full and its oldest value is
  within the tolerance, the run ends there and returns its result as converged.
\<close>

theorem C5_convergence_window:
  fixes E :: "('g, 's, 'p) env" and opts trajs params g k s
  defines "out \<equiv> updateAlignmentParameters E (l_geometry s) trajs params
                    (alignedDetElements opts) (alignedTransformUpdater opts) (l_alignRes s)
                    (alignment_mask opts k)"
  defines "s1 \<equiv> s\<lparr>l_alignRes := u_alignResult out, l_geometry := u_geometry out,
                    l_log := l_log s @ u_log out\<rparr>"
  shows "(\<not> dle avg c \<longrightarrow> length q < w \<longrightarrow>
            check_convergence avg c (w, tol) q = Inr (Continue (q @ [avg])))
       \<and> (w \<le> length q \<longrightarrow> q = front # rest \<longrightarrow> \<not> dle avg c \<longrightarrow>
            check_convergence avg c (w, tol) q =
              (if dle (dabs (dsub front avg)) tol then Inr Converged
               else Inr (Continue (rest @ [avg]))))
       \<and> (length q \<le> w \<longrightarrow> check_convergence avg c (w, tol) q = Inr (Continue q') \<longrightarrow>
            length q' \<le> w \<and> q' = (if length q < w then q else tl q) @ [avg])
       \<and> length (l_recentChi2ONdf (snd (align_loop E trajs params opts its (loop_init g)))) \<le>
            fst (deltaAverageChi2ONdfCutOff opts)
       \<and> (align_loop E trajs params opts [0..<k] (loop_init g) = (Inr (Inr False), s) \<longrightarrow>
          length (l_recentChi2ONdf s) = min (fst (deltaAverageChi2ONdfCutOff opts)) k)
       \<and> (align_loop E trajs params opts [0..<k] (loop_init g) = (Inr (Inr False), s) \<longrightarrow>
          u_return out = Inr (Inr ()) \<longrightarrow>
          \<not> dle (averageChi2ONdf (u_alignResult out)) (averageChi2ONdfCutOff opts) \<longrightarrow>
          length (l_recentChi2ONdf s) < fst (deltaAverageChi2ONdfCutOff opts) \<longrightarrow>
          align_loop E trajs params opts [0..<Suc k] (loop_init g) =
            (Inr (Inr False),
             s1\<lparr>l_recentChi2ONdf := l_recentChi2ONdf s @ [averageChi2ONdf (u_alignResult out)]\<rparr>))
       \<and> (align_loop E trajs params opts [0..<k] (loop_init g) = (Inr (Inr False), s) \<longrightarrow>
          u_return out = Inr (Inr ()) \<longrightarrow>
          \<not> dle (averageChi2ONdf (u_alignResult out)) (averageChi2ONdfCutOff opts) \<longrightarrow>
          fst (deltaAverageChi2ONdfCutOff opts) \<le> length (l_recentChi2ONdf s) \<longrightarrow>
          l_recentChi2ONdf s = oldest # others \<longrightarrow>
          \<not> dle (dabs (dsub oldest (averageChi2ONdf (u_alignResult out))))
              (snd (deltaAverageChi2ONdfCutOff opts)) \<longrightarrow>
          align_loop E trajs params opts [0..<Suc k] (loop_init g) =
            (Inr (Inr False),
             s1\<lparr>l_recentChi2ONdf := others @ [averageChi2ONdf (u_alignResult out)]\<rparr>))
       \<and> (align_loop E trajs params opts [0..<k] (loop_init g) = (Inr (Inr False), s) \<longrightarrow>
          k < maxIterations opts \<longrightarrow>
          u_return out = Inr (Inr ()) \<longrightarrow>
          \<not> dle (averageChi2ONdf (u_alignResult out)) (averageChi2ONdfCutOff opts) \<longrightarrow>
          fst (deltaAverageChi2ONdfCutOff opts) \<le> length (l_recentChi2ONdf s) \<longrightarrow>
          l_recentChi2ONdf s = oldest # others \<longrightarrow>
          dle (dabs (dsub oldest (averageChi2ONdf (u_alignResult out))))
            (snd (deltaAverageChi2ONdfCutOff opts)) \<longrightarrow>
          (\<exists>R. al_return (align E g trajs params opts) = Inr (Inr R) \<and> result R = None \<and>
               averageChi2ONdf R = averageChi2ONdf (u_alignResult out)) \<and>
          al_geometry (align E g trajs params opts) = u_geometry out)"
proof -
  let ?avg = "averageChi2ONdf (u_alignResult out)"
  let ?w = "fst (deltaAverageChi2ONdfCutOff opts)" and ?tol = "snd (deltaAverageChi2ONdfCutOff opts)"
  have pair: "deltaAverageChi2ONdfCutOff opts = (?w, ?tol)" by simp
  have fill: "check_convergence avg c (w, tol) q = Inr (Continue (q @ [avg]))"
    if "\<not> dle avg c" "length q < w"
    using that by (rule check_convergence_fill)
  have a: "length q' \<le> w \<and> q' = (if length q < w then q else tl q) @ [avg]"
    if "length q \<le> w" "check_convergence avg c (w, tol) q = Inr (Continue q')"
    using check_convergence_queue[OF that(2)] that(1) by simp
  have b: "check_convergence avg c (w, tol) q =
              (if dle (dabs (dsub front avg)) tol then Inr Converged
               else Inr (Continue (rest @ [avg])))"
    if "w \<le> length q" "q = front # rest" "\<not> dle avg c"
    using that by (rule check_convergence_full)
  have bound: "length (l_recentChi2ONdf (snd (align_loop E trajs params opts its (loop_init g)))) \<le> ?w"
    by (rule align_loop_queue_bound) (simp add: loop_init_def)
  have len: "length (l_recentChi2ONdf s) = min ?w k"
    if reach: "align_loop E trajs params opts [0..<k] (loop_init g) = (Inr (Inr False), s)"
    using align_loop_queue_length[OF reach] by (simp add: loop_init_def)
  have f1: "align_loop E trajs params opts [0..<Suc k] (loop_init g) =
            (Inr (Inr False), s1\<lparr>l_recentChi2ONdf := l_recentChi2ONdf s @ [?avg]\<rparr>)"
    if reach: "align_loop E trajs params opts [0..<k] (loop_init g) = (Inr (Inr False), s)"
      and r: "u_return out = Inr (Inr ())"
      and above: "\<not> dle ?avg (averageChi2ONdfCutOff opts)"
      and short: "length (l_recentChi2ONdf s) < ?w"
  proof -
    have cc: "check_convergence ?avg (averageChi2ONdfCutOff opts)
        (deltaAverageChi2ONdfCutOff opts) (l_recentChi2ONdf s) =
        Inr (Continue (l_recentChi2ONdf s @ [?avg]))"
      using check_convergence_fill[OF above short, of ?tol] by simp
    from align_loop_one_more[OF reach r[unfolded out_def] cc[unfolded out_def]]
    show ?thesis unfolding s1_def out_def by simp
  qed
  have f2: "align_loop E trajs params opts [0..<Suc k] (loop_init g) =
            (Inr (Inr False), s1\<lparr>l_recentChi2ONdf := others @ [?avg]\<rparr>)"
    if reach: "align_loop E trajs params opts [0..<k] (loop_init g) = (Inr (Inr False), s)"
      and r: "u_return out = Inr (Inr ())"
      and above: "\<not> dle ?avg (averageChi2ONdfCutOff opts)"
      and full: "?w \<le> length (l_recentChi2ONdf s)"
      and q: "l_recentChi2ONdf s = oldest # others"
      and far: "\<not> dle (dabs (dsub oldest ?avg)) ?tol"
  proof -
    have cc: "check_convergence ?avg (averageChi2ONdfCutOff opts)
        (deltaAverageChi2ONdfCutOff opts) (l_recentChi2ONdf s) =
        Inr (Continue (others @ [?avg]))"
      using check_convergence_full[OF full q above, of ?tol] far by simp
    from align_loop_one_more[OF reach r[unfolded out_def] cc[unfolded out_def]]
    show ?thesis unfolding s1_def out_def by simp
  qed
  have d: "(\<exists>R. al_return (align E g trajs params opts) = Inr (Inr R) \<and> result R = None \<and>
               averageChi2ONdf R = ?avg) \<and>
           al_geometry (align E g trajs params opts) = u_geometry out"
    if reach: "align_loop E trajs params opts [0..<k] (loop_init g) = (Inr (Inr False), s)"
      and k: "k < maxIterations opts"
      and r: "u_return out = Inr (Inr ())"
      and above: "\<not> dle ?avg (averageChi2ONdfCutOff opts)"
      and full: "?w \<le> length (l_recentChi2ONdf s)"
      and q: "l_recentChi2ONdf s = oldest # others"
      and near: "dle (dabs (dsub oldest ?avg)) ?tol"
  proof -
    have cc: "check_convergence ?avg (averageChi2ONdfCutOff opts)
        (deltaAverageChi2ONdfCutOff opts) (l_recentChi2ONdf s) = Inr Converged"
      using check_convergence_full[OF full q above, of ?tol] near
      by simp
    have st: "align_loop E trajs params opts (k # [Suc k..<maxIterations opts]) s =
        (Inr (Inr True),
         s\<lparr>l_alignRes := u_alignResult out, l_geometry := u_geometry out,
           l_log := l_log s @ u_log out\<rparr>)"
      using align_loop_step(4)[OF r[unfolded out_def] cc[unfolded out_def]]
      unfolding out_def by simp
    have "align_loop E trajs params opts [0..<maxIterations opts] (loop_init g) =
        (Inr (Inr True),
         s\<lparr>l_alignRes := u_alignResult out, l_geometry := u_geometry out,
           l_log := l_log s @ u_log out\<rparr>)"
      unfolding upt_split[OF k] align_loop_append[OF reach] st ..
    from align_of_loop(3)[OF this] show ?thesis by auto
  qed
  from fill a b bound len f1 f2 d show ?thesis by blast
qed

text \<open>
  A window of two values and an average of 6.5 in every iteration: the first two
  iterations fill the window, the third finds the oldest value equal to the current one
  and ends the run as converged, after the updater was called in each of the three. With
  a window of one value and a tolerance below zero, the second iteration finds the window
  full and the oldest value not within the tolerance: it drops that value, appends the
  current one and the run goes on.
\<close>

theorem C5_witness:
  "(\<exists>R. al_return (align ex_env [] [2, 3] [(), ()] (ex_options_window ex_accept [7])) = Inr (Inr R)
        \<and> result R = None \<and> averageChi2ONdf R = Fin (13 / 2))
   \<and> al_geometry (align ex_env [] [2, 3] [(), ()] (ex_options_window ex_accept [7])) = [7, 7, 7]
   \<and> \<not> dle (Fin (13 / 2)) (averageChi2ONdfCutOff (ex_options_window ex_accept [7]))
   \<and> deltaAverageChi2ONdfCutOff (ex_options_window ex_accept [7]) = (2, Fin (1 / 100000))
   \<and> check_convergence (Fin 2) (Fin (5 / 100)) (3, Fin (1 / 100000)) [Fin 4] =
       Inr (Continue [Fin 4, Fin 2])
   \<and> check_convergence (Fin 2) (Fin (5 / 100)) (3, Fin (1 / 100000)) [Fin 4, Fin 3, Fin 2] =
       Inr (Continue [Fin 3, Fin 2, Fin 2])
   \<and> length [Fin 3, Fin 2, Fin (2 :: real)] \<le> 3
   \<and> map_prod id l_recentChi2ONdf
       (align_loop ex_env [2, 3] [(), ()] (ex_options_window ex_accept [7]) [0..<Suc (Suc 0)]
          (loop_init [])) = (Inr (Inr False), [Fin (13 / 2), Fin (13 / 2)])
   \<and> map_prod id l_recentChi2ONdf
       (align_loop ex_env [2, 3] [(), ()] (ex_options_strict ex_accept [7]) [0..<Suc (Suc 0)]
          (loop_init [])) = (Inr (Inr False), [Fin (13 / 2)])"
proof -
  define opts where "opts = ex_options_window ex_accept [7]"
  have o: "alignedDetElements opts = [7]" "alignedTransformUpdater opts = ex_accept"
    "averageChi2ONdfCutOff opts = Fin (5 / 100)"
    "deltaAverageChi2ONdfCutOff opts = (2, Fin (1 / 100000))" "maxIterations opts = 5"
    by (simp_all add: opts_def ex_options_window_def ex_options_def)
  note f1 = C5_convergence_window[THEN conjunct2, THEN conjunct2, THEN conjunct2, THEN conjunct2,
      THEN conjunct2, THEN conjunct1, rule_format]
  define s0 :: "det_element list loop_vars" where "s0 = loop_init []"
  have s0: "l_geometry s0 = []" "l_recentChi2ONdf s0 = []"
    by (simp_all add: s0_def loop_init_def)
  have reach0: "align_loop ex_env [2, 3] [(), ()] opts [0..<0] (loop_init []) = (Inr (Inr False), s0)"
    unfolding s0_def by simp
  define out0 where "out0 = updateAlignmentParameters ex_env (l_geometry s0) [2, 3] [(), ()]
      (alignedDetElements opts) (alignedTransformUpdater opts) (l_alignRes s0)
      (alignment_mask opts 0)"
  have r0: "u_return out0 = Inr (Inr ())" and a0: "averageChi2ONdf (u_alignResult out0) = Fin (13 / 2)"
    unfolding out0_def o by (rule ex_update)+
  have g0: "u_geometry out0 = [7]"
    unfolding out0_def o ex_update(3) s0 by simp
  have above0: "\<not> dle (averageChi2ONdf (u_alignResult out0)) (averageChi2ONdfCutOff opts)"
    unfolding a0 o by simp
  have short0: "length (l_recentChi2ONdf s0) < fst (deltaAverageChi2ONdfCutOff opts)"
    unfolding s0 o by simp
  define s1 where "s1 = s0\<lparr>l_alignRes := u_alignResult out0, l_geometry := u_geometry out0,
      l_log := l_log s0 @ u_log out0,
      l_recentChi2ONdf := l_recentChi2ONdf s0 @ [averageChi2ONdf (u_alignResult out0)]\<rparr>"
  have reach1: "align_loop ex_env [2, 3] [(), ()] opts [0..<Suc 0] (loop_init []) = (Inr (Inr False), s1)"
    unfolding s1_def out0_def
    by (rule f1[OF reach0 r0[unfolded out0_def] above0[unfolded out0_def] short0])
  have s1: "l_geometry s1 = [7]" "l_recentChi2ONdf s1 = [Fin (13 / 2)]"
    unfolding s1_def by (simp_all add: g0 a0 s0)
  define out1 where "out1 = updateAlignmentParameters ex_env (l_geometry s1) [2, 3] [(), ()]
      (alignedDetElements opts) (alignedTransformUpdater opts) (l_alignRes s1)
      (alignment_mask opts (Suc 0))"
  have r1: "u_return out1 = Inr (Inr ())" and a1: "averageChi2ONdf (u_alignResult out1) = Fin (13 / 2)"
    unfolding out1_def o by (rule ex_update)+
  have g1: "u_geometry out1 = [7, 7]"
    unfolding out1_def o ex_update(3) s1 by simp
  have above1: "\<not> dle (averageChi2ONdf (u_alignResult out1)) (averageChi2ONdfCutOff opts)"
    unfolding a1 o by simp
  have short1: "length (l_recentChi2ONdf s1) < fst (deltaAverageChi2ONdfCutOff opts)"
    unfolding s1 o by simp
  define s2 where "s2 = s1\<lparr>l_alignRes := u_alignResult out1, l_geometry := u_geometry out1,
      l_log := l_log s1 @ u_log out1,
      l_recentChi2ONdf := l_recentChi2ONdf s1 @ [averageChi2ONdf (u_alignResult out1)]\<rparr>"
  have reach2: "align_loop ex_env [2, 3] [(), ()] opts [0..<Suc (Suc 0)] (loop_init []) =
      (Inr (Inr False), s2)"
    unfolding s2_def out1_def
    by (rule f1[OF reach1 r1[unfolded out1_def] above1[unfolded out1_def] short1])
  have s2: "l_geometry s2 = [7, 7]" "l_recentChi2ONdf s2 = Fin (13 / 2) # [Fin (13 / 2)]"
    unfolding s2_def by (simp_all add: g1 a1 s1)
  define out2 where "out2 = updateAlignmentParameters ex_env (l_geometry s2) [2, 3] [(), ()]
      (alignedDetElements opts) (alignedTransformUpdater opts) (l_alignRes s2)
      (alignment_mask opts (Suc (Suc 0)))"
  have r2: "u_return out2 = Inr (Inr ())" and a2: "averageChi2ONdf (u_alignResult out2) = Fin (13 / 2)"
    unfolding out2_def o by (rule ex_update)+
  have g2: "u_geometry out2 = [7, 7, 7]"
    unfolding out2_def o ex_update(3) s2 by simp
  have above2: "\<not> dle (averageChi2ONdf (u_alignResult out2)) (averageChi2ONdfCutOff opts)"
    unfolding a2 o by simp
  have k: "Suc (Suc 0) < maxIterations opts" unfolding o by simp
  have full: "fst (deltaAverageChi2ONdfCutOff opts) \<le> length (l_recentChi2ONdf s2)"
    unfolding s2 o by simp
  have near: "dle (dabs (dsub (Fin (13 / 2)) (averageChi2ONdf (u_alignResult out2))))
      (snd (deltaAverageChi2ONdfCutOff opts))"
    unfolding a2 o by (simp add: dsub_def)
  have 1: "(\<exists>R. al_return (align ex_env [] [2, 3] [(), ()] opts) = Inr (Inr R) \<and> result R = None \<and>
               averageChi2ONdf R = averageChi2ONdf (u_alignResult out2)) \<and>
           al_geometry (align ex_env [] [2, 3] [(), ()] opts) = u_geometry out2"
    unfolding out2_def
    by (rule C5_convergence_window[THEN conjunct2, THEN conjunct2, THEN conjunct2, THEN conjunct2,
          THEN conjunct2, THEN conjunct2, THEN conjunct2, rule_format,
          OF reach2 k r2[unfolded out2_def] above2[unfolded out2_def] full s2(2)
             near[unfolded out2_def]])
  have 2: "check_convergence (Fin 2) (Fin (5 / 100)) (3, Fin (1 / 100000)) [Fin 4, Fin 3, Fin 2] =
       Inr (Continue [Fin 3, Fin 2, Fin 2])"
    using C5_convergence_window[THEN conjunct2, THEN conjunct1, rule_format,
        of 3 "[Fin 4, Fin 3, Fin 2]" "Fin 4" "[Fin 3, Fin 2]" "Fin 2" "Fin (5 / 100)" "Fin (1 / 100000)"]
    by (simp add: dsub_def)
  have 3: "check_convergence (Fin 2) (Fin (5 / 100)) (3, Fin (1 / 100000)) [Fin 4] =
       Inr (Continue [Fin 4, Fin 2])"
    using C5_convergence_window[THEN conjunct1, rule_format,
        of "Fin 2" "Fin (5 / 100)" "[Fin 4]" 3 "Fin (1 / 100000)"]
    by simp
  have 4: "length [Fin 3, Fin 2, Fin (2 :: real)] \<le> 3"
    using C5_convergence_window[THEN conjunct2, THEN conjunct2, THEN conjunct1, rule_format,
        of "[Fin 4, Fin 3, Fin 2]" 3 "Fin 2" "Fin (5 / 100)" "Fin (1 / 100000)"
           "[Fin 3, Fin 2, Fin 2]"] 2
    by simp
  have "length (l_recentChi2ONdf s2) = min (fst (deltaAverageChi2ONdfCutOff opts)) (Suc (Suc 0))"
    by (rule C5_convergence_window[THEN conjunct2, THEN conjunct2, THEN conjunct2, THEN conjunct2,
          THEN conjunct1, rule_format, OF reach2])
  with reach2 s2(2)
  have 5: "map_prod id l_recentChi2ONdf
       (align_loop ex_env [2, 3] [(), ()] opts [0..<Suc (Suc 0)] (loop_init [])) =
       (Inr (Inr False), [Fin (13 / 2), Fin (13 / 2)])"
    by simp
  define optt where "optt = ex_options_strict ex_accept [7]"
  have ot: "alignedDetElements optt = [7]" "alignedTransformUpdater optt = ex_accept"
    "averageChi2ONdfCutOff optt = Fin (5 / 100)"
    "deltaAverageChi2ONdfCutOff optt = (1, Fin (- 1))"
    by (simp_all add: optt_def ex_options_strict_def ex_options_def)
  have treach0: "align_loop ex_env [2, 3] [(), ()] optt [0..<0] (loop_init []) = (Inr (Inr False), s0)"
    unfolding s0_def by simp
  define tout0 where "tout0 = updateAlignmentParameters ex_env (l_geometry s0) [2, 3] [(), ()]
      (alignedDetElements optt) (alignedTransformUpdater optt) (l_alignRes s0)
      (alignment_mask optt 0)"
  have tr0: "u_return tout0 = Inr (Inr ())" and ta0: "averageChi2ONdf (u_alignResult tout0) = Fin (13 / 2)"
    unfolding tout0_def ot by (rule ex_update)+
  have tabove0: "\<not> dle (averageChi2ONdf (u_alignResult tout0)) (averageChi2ONdfCutOff optt)"
    unfolding ta0 ot by simp
  have tshort0: "length (l_recentChi2ONdf s0) < fst (deltaAverageChi2ONdfCutOff optt)"
    unfolding s0 ot by simp
  define t1 where "t1 = s0\<lparr>l_alignRes := u_alignResult tout0, l_geometry := u_geometry tout0,
      l_log := l_log s0 @ u_log tout0,
      l_recentChi2ONdf := l_recentChi2ONdf s0 @ [averageChi2ONdf (u_alignResult tout0)]\<rparr>"
  have treach1: "align_loop ex_env [2, 3] [(), ()] optt [0..<Suc 0] (loop_init []) = (Inr (Inr False), t1)"
    unfolding t1_def tout0_def
    by (rule f1[OF treach0 tr0[unfolded tout0_def] tabove0[unfolded tout0_def] tshort0])
  have t1: "l_recentChi2ONdf t1 = Fin (13 / 2) # []"
    unfolding t1_def by (simp add: ta0 s0)
  define tout1 where "tout1 = updateAlignmentParameters ex_env (l_geometry t1) [2, 3] [(), ()]
      (alignedDetElements optt) (alignedTransformUpdater optt) (l_alignRes t1)
      (alignment_mask optt (Suc 0))"
  have tr1: "u_return tout1 = Inr (Inr ())" and ta1: "averageChi2ONdf (u_alignResult tout1) = Fin (13 / 2)"
    unfolding tout1_def ot by (rule ex_update)+
  have tabove1: "\<not> dle (averageChi2ONdf (u_alignResult tout1)) (averageChi2ONdfCutOff optt)"
    unfolding ta1 ot by simp
  have tfull: "fst (deltaAverageChi2ONdfCutOff optt) \<le> length (l_recentChi2ONdf t1)"
    unfolding t1 ot by simp
  have tfar: "\<not> dle (dabs (dsub (Fin (13 / 2)) (averageChi2ONdf (u_alignResult tout1))))
      (snd (deltaAverageChi2ONdfCutOff optt))"
    unfolding ta1 ot by (simp add: dsub_def)
  have "align_loop ex_env [2, 3] [(), ()] optt [0..<Suc (Suc 0)] (loop_init []) =
      (Inr (Inr False),
       t1\<lparr>l_alignRes := u_alignResult tout1, l_geometry := u_geometry tout1,
          l_log := l_log t1 @ u_log tout1,
          l_recentChi2ONdf := [] @ [averageChi2ONdf (u_alignResult tout1)]\<rparr>)"
    unfolding tout1_def
    by (rule C5_convergence_window[THEN conjunct2, THEN conjunct2, THEN conjunct2, THEN conjunct2,
          THEN conjunct2, THEN conjunct2, THEN conjunct1, rule_format,
          OF treach1 tr1[unfolded tout1_def] tabove1[unfolded tout1_def] tfull t1
             tfar[unfolded tout1_def]])
  then have 6: "map_prod id l_recentChi2ONdf
       (align_loop ex_env [2, 3] [(), ()] optt [0..<Suc (Suc 0)] (loop_init [])) =
       (Inr (Inr False), [Fin (13 / 2)])"
    by (simp add: ta1)
  from 1 2 3 4 5 6 above2 o(4) show ?thesis
    unfolding a2 g2 o(3) opts_def optt_def by simp
qed


end
